theory Spec2Isabelle
  imports Main "HOL-Library.Word"
begin

unbundle bit_operations_syntax

section \<open>GraphicsDevice.h: the shared vocabulary\<close>

text \<open>
  The plugin moves bytes between CPU buffers and GPU resources through one of three
  back ends.  Each \<open>virtual\<close> method of \<open>GraphicsDevice\<close> is modelled once per back end
  as a function on an explicit device state; the state also holds the driver's resources
  (an explicit store from handles to resources) and the list of driver calls made so far.

  A C++ \<open>int\<close> is an \<open>int\<close>, a \<open>size_t\<close> a \<open>nat\<close>; the conversions between them that
  the source performs are written out (\<open>size_t_of_int\<close>, \<open>int_of_size_t\<close>).  A pointer
  argument is an \<open>option\<close>: \<open>None\<close> is \<open>nullptr\<close>.  A pointer to CPU memory is the byte
  list it points to (its length is the extent of the allocation); a pointer to a driver
  object is a handle into the store.  What is undefined behaviour in C++ (a null or dangling
  dereference, an access outside an allocation, an integer division by zero) is a
  \<open>fault\<close>, returned as \<open>Inl\<close>.
\<close>

type_synonym byte = "8 word"
type_synonym handle = nat

datatype Error = OK | Unknown | NotAvailable | InvalidParameter | OutOfMemory | InaccesibleFromCPU

datatype BufferType = Index | Vertex | Constant | Compute | End

datatype fault = NullDereference | InvalidHandle | DivideByZero | OutOfBounds

datatype HRESULT = S_OK | S_FALSE | E_FAIL

definition SUCCEEDED :: "HRESULT \<Rightarrow> bool" where
  "SUCCEEDED hr = (hr \<noteq> E_FAIL)"

definition FAILED :: "HRESULT \<Rightarrow> bool" where
  "FAILED hr = (hr = E_FAIL)"

subsection \<open>TextureFormat\<close>

text \<open>The enumeration is bit-packed; a value of the enum class is any \<open>int\<close>.\<close>

type_synonym TextureFormat = int

definition Elements_R :: TextureFormat where "Elements_R = 0x01"
definition Elements_RG :: TextureFormat where "Elements_RG = 0x02"
definition Elements_RGBA :: TextureFormat where "Elements_RGBA = 0x04"
definition Layout_RGBA :: TextureFormat where "Layout_RGBA = push_bit 4 0x00"
definition Type_f16 :: TextureFormat where "Type_f16 = push_bit 8 0x01"
definition Type_f32 :: TextureFormat where "Type_f32 = push_bit 8 0x02"
definition Type_u8 :: TextureFormat where "Type_u8 = push_bit 8 0x03"
definition Type_i16 :: TextureFormat where "Type_i16 = push_bit 8 0x04"
definition Type_i32 :: TextureFormat where "Type_i32 = push_bit 8 0x05"

definition Rf16 :: TextureFormat where "Rf16 = Type_f16 OR Layout_RGBA OR Elements_R"
definition RGf16 :: TextureFormat where "RGf16 = Type_f16 OR Layout_RGBA OR Elements_RG"
definition RGBAf16 :: TextureFormat where "RGBAf16 = Type_f16 OR Layout_RGBA OR Elements_RGBA"
definition Rf32 :: TextureFormat where "Rf32 = Type_f32 OR Layout_RGBA OR Elements_R"
definition RGf32 :: TextureFormat where "RGf32 = Type_f32 OR Layout_RGBA OR Elements_RG"
definition RGBAf32 :: TextureFormat where "RGBAf32 = Type_f32 OR Layout_RGBA OR Elements_RGBA"
definition Ru8 :: TextureFormat where "Ru8 = Type_u8 OR Layout_RGBA OR Elements_R"
definition RGu8 :: TextureFormat where "RGu8 = Type_u8 OR Layout_RGBA OR Elements_RG"
definition RGBAu8 :: TextureFormat where "RGBAu8 = Type_u8 OR Layout_RGBA OR Elements_RGBA"
definition Ri16 :: TextureFormat where "Ri16 = Type_i16 OR Layout_RGBA OR Elements_R"
definition RGi16 :: TextureFormat where "RGi16 = Type_i16 OR Layout_RGBA OR Elements_RG"
definition RGBAi16 :: TextureFormat where "RGBAi16 = Type_i16 OR Layout_RGBA OR Elements_RGBA"
definition Ri32 :: TextureFormat where "Ri32 = Type_i32 OR Layout_RGBA OR Elements_R"
definition RGi32 :: TextureFormat where "RGi32 = Type_i32 OR Layout_RGBA OR Elements_RG"
definition RGBAi32 :: TextureFormat where "RGBAi32 = Type_i32 OR Layout_RGBA OR Elements_RGBA"
definition I420 :: TextureFormat where "I420 = push_bit 8 0x10"

text \<open>
  \<open>GetTexelSize\<close> is declared in GraphicsDevice.h and defined outside the files at hand.
  Every operation below takes it as its first argument (\<open>gts\<close>), so that what is proved
  holds for whatever it computes.
\<close>

type_synonym texel_size = "TextureFormat \<Rightarrow> int"

text \<open>
  Modelled from the spec: the body of \<open>GetTexelSize\<close> is missing from the sources.  The
  spec gives the size of a texel as the byte width of the component type times the number
  of elements (\<open>Rf32\<close> 4 bytes, \<open>RGBAf16\<close> 8 bytes, \<open>RGBAu8\<close> 4 bytes) and 0 for a format
  that is not recognised.  Only the concrete runs below use it.
\<close>

definition GetTexelSize :: texel_size where
  "GetTexelSize format =
     (let ty = format AND push_bit 8 0x0F;
          elements = format AND 0x0F;
          component =
            (if ty = Type_f16 then 2 else if ty = Type_f32 then 4 else if ty = Type_u8 then 1
             else if ty = Type_i16 then 2 else if ty = Type_i32 then 4 else 0)
      in if elements = Elements_R \<or> elements = Elements_RG \<or> elements = Elements_RGBA
         then component * elements else 0)"

subsection \<open>Integer conversions\<close>

text \<open>\<open>int\<close> to \<open>size_t\<close> (64 bits): the value modulo \<open>2 ^ 64\<close>.\<close>

definition size_t_of_int :: "int \<Rightarrow> nat" where
  "size_t_of_int i = nat (i mod 2 ^ 64)"

text \<open>\<open>int(n)\<close> on a \<open>size_t\<close>: the low 32 bits, read as two's complement.\<close>

definition int_of_size_t :: "nat \<Rightarrow> int" where
  "int_of_size_t n = sint (word_of_nat n :: 32 word)"

subsection \<open>CPU memory\<close>

text \<open>
  \<open>memcpy (dst + doff, src + soff, n)\<close>.  The offsets are the pointer arithmetic the caller
  has done so far.  Copying no byte touches no memory; copying any byte through a null
  pointer or outside either allocation is a fault.
\<close>

definition memcpy ::
  "byte list option \<Rightarrow> int \<Rightarrow> byte list option \<Rightarrow> int \<Rightarrow> nat \<Rightarrow> fault + byte list option" where
  "memcpy dst doff src soff n =
     (if n = 0 then Inr dst
      else case dst of
        None \<Rightarrow> Inl NullDereference
      | Some d \<Rightarrow>
          (case src of
             None \<Rightarrow> Inl NullDereference
           | Some s \<Rightarrow>
               if 0 \<le> doff \<and> nat doff + n \<le> length d \<and> 0 \<le> soff \<and> nat soff + n \<le> length s
               then Inr (Some (take (nat doff) d @ take n (drop (nat soff) s) @ drop (nat doff + n) d))
               else Inl OutOfBounds))"

text \<open>
  The row loop the texture copies share:
  \<^verbatim>\<open>for (int i = 0; i < height; ++i) { memcpy(d, s, n); d += dpitch; s += spitch; }\<close>
  The length \<open>n\<close> is an \<open>int\<close> in the source and is converted to \<open>size_t\<close> by the call.
\<close>

function copy_rows ::
  "int \<Rightarrow> int \<Rightarrow> byte list option \<Rightarrow> int \<Rightarrow> int \<Rightarrow> byte list option \<Rightarrow> int \<Rightarrow> int \<Rightarrow> int
     \<Rightarrow> fault + byte list option" where
  "copy_rows i height dst doff dpitch src soff spitch n =
     (if i < height then
        (case memcpy dst doff src soff (size_t_of_int n) of
           Inl f \<Rightarrow> Inl f
         | Inr dst' \<Rightarrow> copy_rows (i + 1) height dst' (doff + dpitch) dpitch src (soff + spitch) spitch n)
      else Inr dst)"
  by pat_completeness auto
termination
  by (relation "measure (\<lambda>(i, height, _). nat (height - i))") auto

declare copy_rows.simps [simp del]

section \<open>GraphicsDeviceVulkan.cpp\<close>

text \<open>The Vulkan device is a stand-in: it has no state and every transfer is refused.\<close>

definition readTexture_Vulkan ::
  "byte list option \<Rightarrow> nat \<Rightarrow> handle option \<Rightarrow> int \<Rightarrow> int \<Rightarrow> TextureFormat \<Rightarrow> Error" where
  "readTexture_Vulkan o_buf bufsize tex width height format = NotAvailable"

definition writeTexture_Vulkan ::
  "handle option \<Rightarrow> int \<Rightarrow> int \<Rightarrow> TextureFormat \<Rightarrow> byte list option \<Rightarrow> nat \<Rightarrow> Error" where
  "writeTexture_Vulkan o_tex width height format buf bufsize = NotAvailable"

definition readBuffer_Vulkan ::
  "byte list option \<Rightarrow> handle option \<Rightarrow> nat \<Rightarrow> BufferType \<Rightarrow> Error" where
  "readBuffer_Vulkan dst src_buf read_size type = NotAvailable"

definition writeBuffer_Vulkan ::
  "handle option \<Rightarrow> byte list option \<Rightarrow> nat \<Rightarrow> BufferType \<Rightarrow> Error" where
  "writeBuffer_Vulkan dst_buf src write_size type = NotAvailable"

section \<open>The staging-texture key\<close>

text \<open>
  Both Direct3D back ends key their staging textures by
  \<^verbatim>\<open>uint64_t hash = width + (height << 16) + ((uint64_t)internal_format << 32);\<close>
  \<open>width\<close> and \<open>height\<close> are 32-bit \<open>int\<close>s, so \<open>width + (height << 16)\<close> is computed in 32
  bits (wrapping, as the compilers for these back ends do) and sign-extended to 64 bits
  before the format is added.  The third argument is the numeric value of the back end's
  format enumerator.
\<close>

definition staging_hash :: "int \<Rightarrow> int \<Rightarrow> 64 word \<Rightarrow> 64 word" where
  "staging_hash width height internal_format =
     scast ((word_of_int width :: 32 word) + push_bit 16 (word_of_int height :: 32 word))
       + push_bit 32 internal_format"

text \<open>An \<open>int\<close> product or sum as the 32-bit machine computes it.\<close>

definition int32 :: "int \<Rightarrow> int" where
  "int32 x = sint (word_of_int x :: 32 word)"

text \<open>\<open>(UINT)x\<close> on an \<open>int\<close>.\<close>

definition UINT :: "int \<Rightarrow> nat" where
  "UINT x = unat (word_of_int x :: 32 word)"

text \<open>
  What a driver does when it copies one 2D resource into another (\<open>UpdateSurface\<close>,
  \<open>GetRenderTargetData\<close>, \<open>CopyResource\<close>): row \<open>i\<close> of the source, \<open>rowbytes\<close> long and
  found at \<open>i * spitch\<close>, lands at \<open>i * dpitch\<close> in the destination; the padding between
  rows is left alone.
\<close>

fun blit :: "nat \<Rightarrow> nat \<Rightarrow> byte list \<Rightarrow> nat \<Rightarrow> byte list \<Rightarrow> nat \<Rightarrow> byte list" where
  "blit 0 rowbytes src spitch dst dpitch = dst"
| "blit (Suc i) rowbytes src spitch dst dpitch =
     (let d = blit i rowbytes src spitch dst dpitch
      in take (i * dpitch) d @ take rowbytes (drop (i * spitch) src) @ drop (i * dpitch + rowbytes) d)"

section \<open>GraphicsDeviceD3D9.cpp\<close>

subsection \<open>The Direct3D 9 driver\<close>

text \<open>
  The formats \<open>GetInternalFormatD3D9\<close> can return, with their numeric values and texel
  sizes from \<open>d3d9types.h\<close>.
\<close>

datatype D3DFORMAT =
    D3DFMT_UNKNOWN | D3DFMT_A8R8G8B8
  | D3DFMT_A16B16G16R16F | D3DFMT_G16R16F | D3DFMT_R16F
  | D3DFMT_A32B32G32R32F | D3DFMT_G32R32F | D3DFMT_R32F

fun D3DFORMAT_value :: "D3DFORMAT \<Rightarrow> 64 word" where
  "D3DFORMAT_value D3DFMT_UNKNOWN = 0"
| "D3DFORMAT_value D3DFMT_A8R8G8B8 = 21"
| "D3DFORMAT_value D3DFMT_R16F = 111"
| "D3DFORMAT_value D3DFMT_G16R16F = 112"
| "D3DFORMAT_value D3DFMT_A16B16G16R16F = 113"
| "D3DFORMAT_value D3DFMT_R32F = 114"
| "D3DFORMAT_value D3DFMT_G32R32F = 115"
| "D3DFORMAT_value D3DFMT_A32B32G32R32F = 116"

fun D3DFORMAT_bytes :: "D3DFORMAT \<Rightarrow> nat" where
  "D3DFORMAT_bytes D3DFMT_UNKNOWN = 0"
| "D3DFORMAT_bytes D3DFMT_A8R8G8B8 = 4"
| "D3DFORMAT_bytes D3DFMT_R16F = 2"
| "D3DFORMAT_bytes D3DFMT_G16R16F = 4"
| "D3DFORMAT_bytes D3DFMT_A16B16G16R16F = 8"
| "D3DFORMAT_bytes D3DFMT_R32F = 4"
| "D3DFORMAT_bytes D3DFMT_G32R32F = 8"
| "D3DFORMAT_bytes D3DFMT_A32B32G32R32F = 16"

text \<open>
  A surface is the memory \<open>LockRect\<close> exposes (\<open>pBits\<close>, rows \<open>Pitch\<close> bytes apart) and what
  \<open>LockRect\<close> answers on it.  A texture is known by its level-0 surface and by what
  \<open>GetSurfaceLevel\<close> answers.
\<close>

record IDirect3DSurface9 =
  Width :: nat
  Height :: nat
  Format :: D3DFORMAT
  Pitch :: int
  pBits :: "byte list"
  LockRect_result :: HRESULT

record IDirect3DTexture9 =
  GetSurfaceLevel_result :: HRESULT
  level0 :: handle

datatype D3D9_call =
    D3D9_Release handle
  | D3D9_CreateOffscreenPlainSurface nat nat D3DFORMAT
  | D3D9_GetSurfaceLevel handle
  | D3D9_Issue
  | D3D9_GetData
  | D3D9_gdLog
  | D3D9_GetRenderTargetData handle handle
  | D3D9_LockRect handle
  | D3D9_UnlockRect handle
  | D3D9_UpdateSurface handle handle

text \<open>
  The device object (\<open>m_device\<close>, \<open>m_query_event\<close>, \<open>m_staging_textures\<close>), the driver's
  store, the answers the driver will give (\<open>_result\<close>; \<open>new_Pitch\<close> is the pitch it chooses
  for a fresh surface, from the bytes in a row), and the driver calls made so far, oldest
  first.  \<open>std::map\<close> is a list of pairs kept in key order.
\<close>

record D3D9 =
  m_device :: "handle option"
  m_query_event :: "handle option"
  m_staging_textures :: "(64 word \<times> handle) list"
  surfaces :: "handle \<rightharpoonup> IDirect3DSurface9"
  textures :: "handle \<rightharpoonup> IDirect3DTexture9"
  next_handle :: handle
  new_Pitch :: "nat \<Rightarrow> int"
  CreateOffscreenPlainSurface_result :: HRESULT
  GetRenderTargetData_result :: HRESULT
  UpdateSurface_result :: HRESULT
  GetData_result :: HRESULT
  calls :: "D3D9_call list"

definition called :: "D3D9_call \<Rightarrow> D3D9 \<Rightarrow> D3D9" where
  "called c st = st\<lparr>calls := calls st @ [c]\<rparr>"

text \<open>\<open>Release\<close> on a staging surface: the cache holds its only reference, so it is gone.\<close>

definition Release_staging :: "D3D9 \<Rightarrow> handle \<Rightarrow> D3D9" where
  "Release_staging st h = called (D3D9_Release h) (st\<lparr>surfaces := (surfaces st)(h := None)\<rparr>)"

definition CreateOffscreenPlainSurface ::
  "D3D9 \<Rightarrow> int \<Rightarrow> int \<Rightarrow> D3DFORMAT \<Rightarrow> fault + (HRESULT \<times> handle option \<times> D3D9)" where
  "CreateOffscreenPlainSurface st width height format =
     (case m_device st of
        None \<Rightarrow> Inl NullDereference
      | Some _ \<Rightarrow>
          (let hr = CreateOffscreenPlainSurface_result st;
               st1 = called (D3D9_CreateOffscreenPlainSurface (UINT width) (UINT height) format) st
           in if FAILED hr then Inr (hr, None, st1)
              else
                (let h = next_handle st1;
                     pitch = new_Pitch st1 (UINT width * D3DFORMAT_bytes format);
                     surf = \<lparr>Width = UINT width, Height = UINT height, Format = format,
                             Pitch = pitch, pBits = replicate (nat pitch * UINT height) 0,
                             LockRect_result = S_OK\<rparr>
                 in Inr (hr, Some h,
                      st1\<lparr>surfaces := (surfaces st1)(h \<mapsto> surf), next_handle := Suc h\<rparr>))))"

definition GetSurfaceLevel ::
  "D3D9 \<Rightarrow> handle option \<Rightarrow> fault + (HRESULT \<times> handle option \<times> D3D9)" where
  "GetSurfaceLevel st tex =
     (case tex of
        None \<Rightarrow> Inl NullDereference
      | Some t \<Rightarrow>
          (case textures st t of
             None \<Rightarrow> Inl InvalidHandle
           | Some tx \<Rightarrow>
               (let hr = GetSurfaceLevel_result tx; st1 = called (D3D9_GetSurfaceLevel t) st
                in if FAILED hr then Inr (hr, None, st1) else Inr (hr, Some (level0 tx), st1))))"

text \<open>
  The two surface-to-surface copies.  The driver refuses (\<open>E_FAIL\<close>) surfaces of different
  size or format; otherwise it answers as the state says and, on success, copies the rows.
\<close>

definition copy_surface ::
  "D3D9_call \<Rightarrow> HRESULT \<Rightarrow> D3D9 \<Rightarrow> handle option \<Rightarrow> handle option \<Rightarrow> fault + (HRESULT \<times> D3D9)" where
  "copy_surface c answer st src dst =
     (case m_device st of
        None \<Rightarrow> Inl NullDereference
      | Some _ \<Rightarrow>
          (case src of
             None \<Rightarrow> Inl NullDereference
           | Some s \<Rightarrow>
               (case dst of
                  None \<Rightarrow> Inl NullDereference
                | Some d \<Rightarrow>
                    (case surfaces st s of
                       None \<Rightarrow> Inl InvalidHandle
                     | Some ss \<Rightarrow>
                         (case surfaces st d of
                            None \<Rightarrow> Inl InvalidHandle
                          | Some ds \<Rightarrow>
                              (let st1 = called c st
                               in if Width ss = Width ds \<and> Height ss = Height ds
                                     \<and> Format ss = Format ds \<and> SUCCEEDED answer
                                  then Inr (answer,
                                    st1\<lparr>surfaces := (surfaces st1)(d \<mapsto>
                                      ds\<lparr>pBits := blit (Height ss) (Width ss * D3DFORMAT_bytes (Format ss))
                                                    (pBits ss) (nat (Pitch ss)) (pBits ds) (nat (Pitch ds))\<rparr>)\<rparr>)
                                  else Inr (E_FAIL, st1)))))))"

definition GetRenderTargetData ::
  "D3D9 \<Rightarrow> handle option \<Rightarrow> handle option \<Rightarrow> fault + (HRESULT \<times> D3D9)" where
  "GetRenderTargetData st src dst =
     (case (src, dst) of
        (Some s, Some d) \<Rightarrow>
          copy_surface (D3D9_GetRenderTargetData s d) (GetRenderTargetData_result st) st src dst
      | _ \<Rightarrow> Inl NullDereference)"

definition UpdateSurface ::
  "D3D9 \<Rightarrow> handle option \<Rightarrow> handle option \<Rightarrow> fault + (HRESULT \<times> D3D9)" where
  "UpdateSurface st src dst =
     (case (src, dst) of
        (Some s, Some d) \<Rightarrow>
          copy_surface (D3D9_UpdateSurface s d) (UpdateSurface_result st) st src dst
      | _ \<Rightarrow> Inl NullDereference)"

definition LockRect :: "D3D9 \<Rightarrow> handle \<Rightarrow> fault + (HRESULT \<times> D3D9)" where
  "LockRect st h =
     (case surfaces st h of
        None \<Rightarrow> Inl InvalidHandle
      | Some s \<Rightarrow> Inr (LockRect_result s, called (D3D9_LockRect h) st))"

definition UnlockRect :: "D3D9 \<Rightarrow> handle \<Rightarrow> D3D9" where
  "UnlockRect st h = called (D3D9_UnlockRect h) st"

subsection \<open>The staging textures\<close>

definition D3D9MaxStagingTextures :: nat where
  "D3D9MaxStagingTextures = 32"

definition clearStagingTextures_D3D9 :: "D3D9 \<Rightarrow> D3D9" where
  "clearStagingTextures_D3D9 st =
     (foldl Release_staging st (map snd (m_staging_textures st)))\<lparr>m_staging_textures := []\<rparr>"

definition GetInternalFormatD3D9 :: "TextureFormat \<Rightarrow> D3DFORMAT" where
  "GetInternalFormatD3D9 fmt =
     (if fmt = RGBAu8 then D3DFMT_A8R8G8B8
      else if fmt = RGBAf16 then D3DFMT_A16B16G16R16F
      else if fmt = RGf16 then D3DFMT_G16R16F
      else if fmt = Rf16 then D3DFMT_R16F
      else if fmt = RGBAf32 then D3DFMT_A32B32G32R32F
      else if fmt = RGf32 then D3DFMT_G32R32F
      else if fmt = Rf32 then D3DFMT_R32F
      else D3DFMT_UNKNOWN)"

definition findOrCreateStagingTexture ::
  "D3D9 \<Rightarrow> int \<Rightarrow> int \<Rightarrow> TextureFormat \<Rightarrow> fault + (handle option \<times> D3D9)" where
  "findOrCreateStagingTexture st width height format =
     (let st1 = (if length (m_staging_textures st) \<ge> D3D9MaxStagingTextures
                 then clearStagingTextures_D3D9 st else st);
          internal_format = GetInternalFormatD3D9 format
      in if internal_format = D3DFMT_UNKNOWN then Inr (None, st1)
         else
           (let hash = staging_hash width height (D3DFORMAT_value internal_format)
            in case map_of (m_staging_textures st1) hash of
                 Some it \<Rightarrow> Inr (Some it, st1)
               | None \<Rightarrow>
                   (case CreateOffscreenPlainSurface st1 width height internal_format of
                      Inl f \<Rightarrow> Inl f
                    | Inr (hr, ret, st2) \<Rightarrow>
                        (case ret of
                           Some r \<Rightarrow>
                             if SUCCEEDED hr
                             then Inr (ret, st2\<lparr>m_staging_textures :=
                                    insort_key fst (hash, r) (m_staging_textures st2)\<rparr>)
                             else Inr (ret, st2)
                         | None \<Rightarrow> Inr (ret, st2)))))"

subsection \<open>The channel swap\<close>

text \<open>
  \<open>RGBA<uint8_t>\<close> is four bytes \<open>r, g, b, a\<close>: texel \<open>i\<close> of a buffer is its bytes
  \<open>4 i .. 4 i + 3\<close>.  The first argument of each function is the loop counter.
\<close>

function BGRA_RGBA_conversion_from ::
  "int \<Rightarrow> byte list option \<Rightarrow> int \<Rightarrow> fault + byte list option" where
  "BGRA_RGBA_conversion_from i data num_pixels =
     (if i < num_pixels then
        (case data of
           None \<Rightarrow> Inl NullDereference
         | Some d \<Rightarrow>
             if 0 \<le> i \<and> nat (4 * i + 2) < length d
             then BGRA_RGBA_conversion_from (i + 1)
                    (Some (d[nat (4 * i) := d ! nat (4 * i + 2), nat (4 * i + 2) := d ! nat (4 * i)]))
                    num_pixels
             else Inl OutOfBounds)
      else Inr data)"
  by pat_completeness auto
termination
  by (relation "measure (\<lambda>(i, _, num_pixels). nat (num_pixels - i))") auto

declare BGRA_RGBA_conversion_from.simps [simp del]

definition BGRA_RGBA_conversion :: "byte list option \<Rightarrow> int \<Rightarrow> fault + byte list option" where
  "BGRA_RGBA_conversion data num_pixels = BGRA_RGBA_conversion_from 0 data num_pixels"

function copy_with_BGRA_RGBA_conversion_from ::
  "int \<Rightarrow> byte list option \<Rightarrow> byte list option \<Rightarrow> int \<Rightarrow> fault + byte list option" where
  "copy_with_BGRA_RGBA_conversion_from i dst src num_pixels =
     (if i < num_pixels then
        (case dst of
           None \<Rightarrow> Inl NullDereference
         | Some d \<Rightarrow>
             (case src of
                None \<Rightarrow> Inl NullDereference
              | Some s \<Rightarrow>
                  if 0 \<le> i \<and> nat (4 * i + 3) < length d \<and> nat (4 * i + 3) < length s
                  then copy_with_BGRA_RGBA_conversion_from (i + 1)
                         (Some (d[nat (4 * i) := s ! nat (4 * i + 2),
                                  nat (4 * i + 1) := s ! nat (4 * i + 1),
                                  nat (4 * i + 2) := s ! nat (4 * i),
                                  nat (4 * i + 3) := s ! nat (4 * i + 3)]))
                         src num_pixels
                  else Inl OutOfBounds))
      else Inr dst)"
  by pat_completeness auto
termination
  by (relation "measure (\<lambda>(i, _, _, num_pixels). nat (num_pixels - i))") auto

declare copy_with_BGRA_RGBA_conversion_from.simps [simp del]

definition copy_with_BGRA_RGBA_conversion ::
  "byte list option \<Rightarrow> byte list option \<Rightarrow> int \<Rightarrow> fault + byte list option" where
  "copy_with_BGRA_RGBA_conversion dst src num_pixels =
     copy_with_BGRA_RGBA_conversion_from 0 dst src num_pixels"

subsection \<open>sync\<close>

definition sync_D3D9 :: "D3D9 \<Rightarrow> fault + D3D9" where
  "sync_D3D9 st =
     (case m_query_event st of
        None \<Rightarrow> Inl NullDereference
      | Some _ \<Rightarrow>
          (let st1 = called D3D9_Issue st;
               hr = GetData_result st1;
               st2 = called D3D9_GetData st1
           in Inr (if hr \<noteq> S_OK then called D3D9_gdLog st2 else st2)))"

subsection \<open>readTexture\<close>

text \<open>
  The copy out of mapped memory, as the texture reads of both Direct3D back ends and the
  mappable write of Direct3D 11 have it: one \<open>memcpy\<close> of \<open>sz\<close> bytes when the two pitches
  agree, otherwise \<open>height\<close> rows of \<open>dst_pitch\<close> bytes each.
\<close>

definition pitch_copy ::
  "byte list option \<Rightarrow> int \<Rightarrow> byte list option \<Rightarrow> int \<Rightarrow> nat \<Rightarrow> int \<Rightarrow> fault + byte list option" where
  "pitch_copy dst dst_pitch src src_pitch sz height =
     (if dst_pitch = src_pitch then memcpy dst 0 src 0 sz
      else copy_rows 0 height dst 0 dst_pitch src 0 src_pitch dst_pitch)"

text \<open>Lines 172 to 196: lock the staging surface, copy, unlock.\<close>

definition readTexture_locked_D3D9 ::
  "texel_size \<Rightarrow> D3D9 \<Rightarrow> byte list option \<Rightarrow> nat \<Rightarrow> handle \<Rightarrow> int \<Rightarrow> int \<Rightarrow> TextureFormat
     \<Rightarrow> fault + (HRESULT \<times> byte list option \<times> D3D9)" where
  "readTexture_locked_D3D9 gts st o_buf bufsize surf_dst width height format =
     (case LockRect st surf_dst of
        Inl f \<Rightarrow> Inl f
      | Inr (hr, st1) \<Rightarrow>
          if SUCCEEDED hr then
            (case surfaces st1 surf_dst of
               None \<Rightarrow> Inl InvalidHandle
             | Some locked \<Rightarrow>
                 (let wpitch = int32 (width * gts format);
                      rpitch = Pitch locked
                  in case pitch_copy o_buf wpitch (Some (pBits locked)) rpitch bufsize height of
                       Inl f \<Rightarrow> Inl f
                     | Inr o_buf' \<Rightarrow> Inr (hr, o_buf', UnlockRect st1 surf_dst)))
          else Inr (hr, o_buf, st1))"

definition readTexture_D3D9 ::
  "texel_size \<Rightarrow> D3D9 \<Rightarrow> byte list option \<Rightarrow> nat \<Rightarrow> handle option \<Rightarrow> int \<Rightarrow> int \<Rightarrow> TextureFormat
     \<Rightarrow> fault + (Error \<times> byte list option \<times> D3D9)" where
  "readTexture_D3D9 gts st o_buf bufsize tex width height format =
     (case findOrCreateStagingTexture st width height format of
        Inl f \<Rightarrow> Inl f
      | Inr (None, st1) \<Rightarrow> Inr (Unknown, o_buf, st1)
      | Inr (Some surf_dst, st1) \<Rightarrow>
          (case GetSurfaceLevel st1 tex of
             Inl f \<Rightarrow> Inl f
           | Inr (hr, surf_src, st2) \<Rightarrow>
               if FAILED hr then Inr (Unknown, o_buf, st2)
               else
                 (case sync_D3D9 st2 of
                    Inl f \<Rightarrow> Inl f
                  | Inr st3 \<Rightarrow>
                      (case GetRenderTargetData st3 surf_src (Some surf_dst) of
                         Inl f \<Rightarrow> Inl f
                       | Inr (hr, st4) \<Rightarrow>
                           (case (if SUCCEEDED hr
                                  then (case readTexture_locked_D3D9 gts st4 o_buf bufsize surf_dst
                                               width height format of
                                          Inl f \<Rightarrow> Inl f
                                        | Inr (hr, copied, st5) \<Rightarrow>
                                            if SUCCEEDED hr then
                                              (case (if format = RGBAu8
                                                     then BGRA_RGBA_conversion copied
                                                            (int_of_size_t (bufsize div 4))
                                                     else Inr copied) of
                                                 Inl f \<Rightarrow> Inl f
                                               | Inr o_buf' \<Rightarrow> Inr (OK, o_buf', st5))
                                            else Inr (Unknown, copied, st5))
                                  else Inr (Unknown, o_buf, st4)) of
                              Inl f \<Rightarrow> Inl f
                            | Inr (ret, o_buf', st6) \<Rightarrow>
                                (case surf_src of
                                   None \<Rightarrow> Inl NullDereference
                                 | Some s \<Rightarrow> Inr (ret, o_buf', called (D3D9_Release s) st6)))))))"

subsection \<open>writeTexture\<close>

text \<open>Lines 232 to 244: fill the locked staging surface from the caller's buffer, unlock.\<close>

definition writeTexture_locked_D3D9 ::
  "D3D9 \<Rightarrow> handle \<Rightarrow> TextureFormat \<Rightarrow> byte list option \<Rightarrow> nat \<Rightarrow> fault + D3D9" where
  "writeTexture_locked_D3D9 st surf_src format buf bufsize =
     (case surfaces st surf_src of
        None \<Rightarrow> Inl InvalidHandle
      | Some locked \<Rightarrow>
          (case (if format = RGBAu8
                 then copy_with_BGRA_RGBA_conversion (Some (pBits locked)) buf
                        (int_of_size_t (bufsize div 4))
                 else memcpy (Some (pBits locked)) 0 buf 0 bufsize) of
             Inl f \<Rightarrow> Inl f
           | Inr None \<Rightarrow> Inl NullDereference
           | Inr (Some wpixels) \<Rightarrow>
               Inr (UnlockRect (st\<lparr>surfaces := (surfaces st)(surf_src \<mapsto> locked\<lparr>pBits := wpixels\<rparr>)\<rparr>)
                      surf_src)))"

definition writeTexture_D3D9 ::
  "texel_size \<Rightarrow> D3D9 \<Rightarrow> handle option \<Rightarrow> int \<Rightarrow> int \<Rightarrow> TextureFormat \<Rightarrow> byte list option \<Rightarrow> nat
     \<Rightarrow> fault + (Error \<times> D3D9)" where
  "writeTexture_D3D9 gts st o_tex width height format buf bufsize =
     (let psize = gts format;
          pitch = int32 (psize * width)
      in if size_t_of_int psize = 0 then Inl DivideByZero
         else
           (let num_pixels = bufsize div size_t_of_int psize
            in case findOrCreateStagingTexture st width height format of
                 Inl f \<Rightarrow> Inl f
               | Inr (None, st1) \<Rightarrow> Inr (Unknown, st1)
               | Inr (Some surf_src, st1) \<Rightarrow>
                   (case GetSurfaceLevel st1 o_tex of
                      Inl f \<Rightarrow> Inl f
                    | Inr (hr, surf_dst, st2) \<Rightarrow>
                        if FAILED hr then Inr (Unknown, st2)
                        else
                          (case LockRect st2 surf_src of
                             Inl f \<Rightarrow> Inl f
                           | Inr (hr, st3) \<Rightarrow>
                               (case (if SUCCEEDED hr then
                                        (case writeTexture_locked_D3D9 st3 surf_src format buf bufsize of
                                           Inl f \<Rightarrow> Inl f
                                         | Inr st4 \<Rightarrow>
                                             (case UpdateSurface st4 (Some surf_src) surf_dst of
                                                Inl f \<Rightarrow> Inl f
                                              | Inr (hr, st5) \<Rightarrow>
                                                  Inr (if SUCCEEDED hr then Unknown else Unknown, st5)))
                                      else Inr (Unknown, st3)) of
                                  Inl f \<Rightarrow> Inl f
                                | Inr (ret, st6) \<Rightarrow>
                                    (case surf_dst of
                                       None \<Rightarrow> Inl NullDereference
                                     | Some d \<Rightarrow> Inr (ret, called (D3D9_Release d) st6)))))))"

subsection \<open>readBuffer and writeBuffer\<close>

definition readBuffer_D3D9 ::
  "D3D9 \<Rightarrow> byte list option \<Rightarrow> handle option \<Rightarrow> nat \<Rightarrow> BufferType
     \<Rightarrow> fault + (Error \<times> byte list option \<times> D3D9)" where
  "readBuffer_D3D9 st dst src_buf read_size type = Inr (NotAvailable, dst, st)"

definition writeBuffer_D3D9 ::
  "D3D9 \<Rightarrow> handle option \<Rightarrow> byte list option \<Rightarrow> nat \<Rightarrow> BufferType \<Rightarrow> fault + (Error \<times> D3D9)" where
  "writeBuffer_D3D9 st dst_buf src write_size type = Inr (NotAvailable, st)"

section \<open>GraphicsDeviceD3D11.cpp\<close>

subsection \<open>The Direct3D 11 driver\<close>

text \<open>
  The formats \<open>GetInternalFormatD3D11\<close> can return, with their numeric values and texel
  sizes from \<open>dxgiformat.h\<close>.
\<close>

datatype DXGI_FORMAT =
    DXGI_FORMAT_UNKNOWN | DXGI_FORMAT_R8G8B8A8_TYPELESS
  | DXGI_FORMAT_R16G16B16A16_FLOAT | DXGI_FORMAT_R16G16_FLOAT | DXGI_FORMAT_R16_FLOAT
  | DXGI_FORMAT_R32G32B32A32_FLOAT | DXGI_FORMAT_R32G32_FLOAT | DXGI_FORMAT_R32_FLOAT
  | DXGI_FORMAT_R32G32B32A32_SINT | DXGI_FORMAT_R32G32_SINT | DXGI_FORMAT_R32_SINT

fun DXGI_FORMAT_value :: "DXGI_FORMAT \<Rightarrow> 64 word" where
  "DXGI_FORMAT_value DXGI_FORMAT_UNKNOWN = 0"
| "DXGI_FORMAT_value DXGI_FORMAT_R32G32B32A32_FLOAT = 2"
| "DXGI_FORMAT_value DXGI_FORMAT_R32G32B32A32_SINT = 4"
| "DXGI_FORMAT_value DXGI_FORMAT_R16G16B16A16_FLOAT = 10"
| "DXGI_FORMAT_value DXGI_FORMAT_R32G32_FLOAT = 16"
| "DXGI_FORMAT_value DXGI_FORMAT_R32G32_SINT = 18"
| "DXGI_FORMAT_value DXGI_FORMAT_R8G8B8A8_TYPELESS = 27"
| "DXGI_FORMAT_value DXGI_FORMAT_R16G16_FLOAT = 34"
| "DXGI_FORMAT_value DXGI_FORMAT_R32_FLOAT = 41"
| "DXGI_FORMAT_value DXGI_FORMAT_R32_SINT = 43"
| "DXGI_FORMAT_value DXGI_FORMAT_R16_FLOAT = 54"

fun DXGI_FORMAT_bytes :: "DXGI_FORMAT \<Rightarrow> nat" where
  "DXGI_FORMAT_bytes DXGI_FORMAT_UNKNOWN = 0"
| "DXGI_FORMAT_bytes DXGI_FORMAT_R32G32B32A32_FLOAT = 16"
| "DXGI_FORMAT_bytes DXGI_FORMAT_R32G32B32A32_SINT = 16"
| "DXGI_FORMAT_bytes DXGI_FORMAT_R16G16B16A16_FLOAT = 8"
| "DXGI_FORMAT_bytes DXGI_FORMAT_R32G32_FLOAT = 8"
| "DXGI_FORMAT_bytes DXGI_FORMAT_R32G32_SINT = 8"
| "DXGI_FORMAT_bytes DXGI_FORMAT_R8G8B8A8_TYPELESS = 4"
| "DXGI_FORMAT_bytes DXGI_FORMAT_R16G16_FLOAT = 4"
| "DXGI_FORMAT_bytes DXGI_FORMAT_R32_FLOAT = 4"
| "DXGI_FORMAT_bytes DXGI_FORMAT_R32_SINT = 4"
| "DXGI_FORMAT_bytes DXGI_FORMAT_R16_FLOAT = 2"

definition D3D11_CPU_ACCESS_WRITE :: nat where
  "D3D11_CPU_ACCESS_WRITE = 0x10000"

definition D3D11_CPU_ACCESS_READ :: nat where
  "D3D11_CPU_ACCESS_READ = 0x20000"

text \<open>
  A texture or a buffer is its description (\<open>GetDesc\<close>), the memory \<open>Map\<close> exposes and what
  \<open>Map\<close> answers on it.
\<close>

record ID3D11Texture2D =
  desc_Width :: nat
  desc_Height :: nat
  desc_Format :: DXGI_FORMAT
  desc_CPUAccessFlags :: nat
  RowPitch :: nat
  pData :: "byte list"
  Map_result :: HRESULT

record ID3D11Buffer =
  desc_ByteWidth :: nat
  buffer_CPUAccessFlags :: nat
  buffer_pData :: "byte list"
  buffer_Map_result :: HRESULT

datatype D3D11_call =
    D3D11_Release handle
  | D3D11_CreateTexture2D nat nat DXGI_FORMAT
  | D3D11_CreateBuffer nat BufferType
  | D3D11_GetDesc handle
  | D3D11_Map handle
  | D3D11_Unmap handle
  | D3D11_CopyResource handle handle
  | D3D11_UpdateSubresource handle
  | D3D11_End
  | D3D11_GetData
  | D3D11_sleep_for
  | D3D11_gdLogError

text \<open>
  The device object (\<open>m_device\<close>, \<open>m_context\<close>, \<open>m_query_event\<close>, \<open>m_staging_textures\<close>,
  \<open>m_staging_buffers\<close>), the driver's stores, the answers the driver will give
  (\<open>new_RowPitch\<close> is the pitch it chooses for a fresh texture, from the bytes in a row;
  \<open>pending\<close> is the number of \<open>GetData\<close> polls that will still answer \<open>S_FALSE\<close>, \<open>None\<close> for a
  GPU that never retires its work), and the driver calls made so far, oldest first.
\<close>

record D3D11 =
  m_device :: "handle option"
  m_context :: "handle option"
  m_query_event :: "handle option"
  m_staging_textures :: "(64 word \<times> handle) list"
  m_staging_buffers :: "BufferType \<Rightarrow> handle option"
  texture2ds :: "handle \<rightharpoonup> ID3D11Texture2D"
  buffers :: "handle \<rightharpoonup> ID3D11Buffer"
  fresh_handle :: handle
  new_RowPitch :: "nat \<Rightarrow> nat"
  CreateTexture2D_result :: HRESULT
  CreateBuffer_result :: HRESULT
  pending :: "nat option"
  calls11 :: "D3D11_call list"

definition called11 :: "D3D11_call \<Rightarrow> D3D11 \<Rightarrow> D3D11" where
  "called11 c st = st\<lparr>calls11 := calls11 st @ [c]\<rparr>"

definition Release_texture :: "D3D11 \<Rightarrow> handle \<Rightarrow> D3D11" where
  "Release_texture st h = called11 (D3D11_Release h) (st\<lparr>texture2ds := (texture2ds st)(h := None)\<rparr>)"

definition Release_buffer :: "D3D11 \<Rightarrow> handle \<Rightarrow> D3D11" where
  "Release_buffer st h = called11 (D3D11_Release h) (st\<lparr>buffers := (buffers st)(h := None)\<rparr>)"

text \<open>
  \<open>CreateTexture2D\<close> for the staging description of \<open>getStagingTexture\<close> (CPU read and write
  access).  The driver refuses an unknown format and an empty texture, and otherwise
  answers as the state says.
\<close>

definition CreateTexture2D ::
  "D3D11 \<Rightarrow> nat \<Rightarrow> nat \<Rightarrow> DXGI_FORMAT \<Rightarrow> fault + (HRESULT \<times> handle option \<times> D3D11)" where
  "CreateTexture2D st width height format =
     (case D3D11.m_device st of
        None \<Rightarrow> Inl NullDereference
      | Some _ \<Rightarrow>
          (let hr = (if format = DXGI_FORMAT_UNKNOWN \<or> width = 0 \<or> height = 0 then E_FAIL
                     else CreateTexture2D_result st);
               st1 = called11 (D3D11_CreateTexture2D width height format) st
           in if FAILED hr then Inr (hr, None, st1)
              else
                (let h = fresh_handle st1;
                     pitch = new_RowPitch st1 (width * DXGI_FORMAT_bytes format);
                     tex = \<lparr>desc_Width = width, desc_Height = height, desc_Format = format,
                            desc_CPUAccessFlags = D3D11_CPU_ACCESS_READ OR D3D11_CPU_ACCESS_WRITE,
                            RowPitch = pitch, pData = replicate (pitch * height) 0,
                            Map_result = S_OK\<rparr>
                 in Inr (hr, Some h,
                      st1\<lparr>texture2ds := (texture2ds st1)(h \<mapsto> tex), fresh_handle := Suc h\<rparr>))))"

text \<open>\<open>CreateBuffer\<close> for the staging description of \<open>getStagingBuffer\<close>.\<close>

definition CreateBuffer ::
  "D3D11 \<Rightarrow> nat \<Rightarrow> BufferType \<Rightarrow> fault + (HRESULT \<times> handle option \<times> D3D11)" where
  "CreateBuffer st ByteWidth type =
     (case D3D11.m_device st of
        None \<Rightarrow> Inl NullDereference
      | Some _ \<Rightarrow>
          (let hr = (if ByteWidth = 0 then E_FAIL else CreateBuffer_result st);
               st1 = called11 (D3D11_CreateBuffer ByteWidth type) st
           in if FAILED hr then Inr (hr, None, st1)
              else
                (let h = fresh_handle st1;
                     buf = \<lparr>desc_ByteWidth = ByteWidth,
                            buffer_CPUAccessFlags = D3D11_CPU_ACCESS_WRITE OR D3D11_CPU_ACCESS_READ,
                            buffer_pData = replicate ByteWidth 0,
                            buffer_Map_result = S_OK\<rparr>
                 in Inr (hr, Some h,
                      st1\<lparr>buffers := (buffers st1)(h \<mapsto> buf), fresh_handle := Suc h\<rparr>))))"

definition GetDesc_texture :: "D3D11 \<Rightarrow> handle option \<Rightarrow> fault + (ID3D11Texture2D \<times> D3D11)" where
  "GetDesc_texture st tex =
     (case tex of
        None \<Rightarrow> Inl NullDereference
      | Some t \<Rightarrow>
          (case texture2ds st t of
             None \<Rightarrow> Inl InvalidHandle
           | Some desc \<Rightarrow> Inr (desc, called11 (D3D11_GetDesc t) st)))"

definition GetDesc_buffer :: "D3D11 \<Rightarrow> handle option \<Rightarrow> fault + (ID3D11Buffer \<times> D3D11)" where
  "GetDesc_buffer st buf =
     (case buf of
        None \<Rightarrow> Inl NullDereference
      | Some b \<Rightarrow>
          (case buffers st b of
             None \<Rightarrow> Inl InvalidHandle
           | Some desc \<Rightarrow> Inr (desc, called11 (D3D11_GetDesc b) st)))"

text \<open>\<open>m_context->Map\<close>: the answer and, on success, the mapped resource.\<close>

definition Map_texture ::
  "D3D11 \<Rightarrow> handle option \<Rightarrow> fault + (HRESULT \<times> ID3D11Texture2D \<times> D3D11)" where
  "Map_texture st tex =
     (case m_context st of
        None \<Rightarrow> Inl NullDereference
      | Some _ \<Rightarrow>
          (case tex of
             None \<Rightarrow> Inl NullDereference
           | Some t \<Rightarrow>
               (case texture2ds st t of
                  None \<Rightarrow> Inl InvalidHandle
                | Some mapped \<Rightarrow> Inr (Map_result mapped, mapped, called11 (D3D11_Map t) st))))"

definition Map_buffer ::
  "D3D11 \<Rightarrow> handle option \<Rightarrow> fault + (HRESULT \<times> ID3D11Buffer \<times> D3D11)" where
  "Map_buffer st buf =
     (case m_context st of
        None \<Rightarrow> Inl NullDereference
      | Some _ \<Rightarrow>
          (case buf of
             None \<Rightarrow> Inl NullDereference
           | Some b \<Rightarrow>
               (case buffers st b of
                  None \<Rightarrow> Inl InvalidHandle
                | Some mapped \<Rightarrow>
                    Inr (buffer_Map_result mapped, mapped, called11 (D3D11_Map b) st))))"

definition Unmap :: "D3D11 \<Rightarrow> handle \<Rightarrow> D3D11" where
  "Unmap st h = called11 (D3D11_Unmap h) st"

text \<open>
  \<open>CopyResource\<close> returns nothing.  The runtime drops a copy between resources of
  different size or format; otherwise the rows (the bytes, for a buffer) are copied.
\<close>

definition CopyResource_texture :: "D3D11 \<Rightarrow> handle option \<Rightarrow> handle option \<Rightarrow> fault + D3D11" where
  "CopyResource_texture st dst src =
     (case m_context st of
        None \<Rightarrow> Inl NullDereference
      | Some _ \<Rightarrow>
          (case dst of
             None \<Rightarrow> Inl NullDereference
           | Some d \<Rightarrow>
               (case src of
                  None \<Rightarrow> Inl NullDereference
                | Some s \<Rightarrow>
                    (case texture2ds st d of
                       None \<Rightarrow> Inl InvalidHandle
                     | Some dt \<Rightarrow>
                         (case texture2ds st s of
                            None \<Rightarrow> Inl InvalidHandle
                          | Some stx \<Rightarrow>
                              (let st1 = called11 (D3D11_CopyResource d s) st
                               in if desc_Width stx = desc_Width dt \<and> desc_Height stx = desc_Height dt
                                     \<and> desc_Format stx = desc_Format dt
                                  then Inr (st1\<lparr>texture2ds := (texture2ds st1)(d \<mapsto>
                                         dt\<lparr>pData := blit (desc_Height stx)
                                                        (desc_Width stx * DXGI_FORMAT_bytes (desc_Format stx))
                                                        (pData stx) (RowPitch stx) (pData dt) (RowPitch dt)\<rparr>)\<rparr>)
                                  else Inr st1))))))"

definition CopyResource_buffer :: "D3D11 \<Rightarrow> handle option \<Rightarrow> handle option \<Rightarrow> fault + D3D11" where
  "CopyResource_buffer st dst src =
     (case m_context st of
        None \<Rightarrow> Inl NullDereference
      | Some _ \<Rightarrow>
          (case dst of
             None \<Rightarrow> Inl NullDereference
           | Some d \<Rightarrow>
               (case src of
                  None \<Rightarrow> Inl NullDereference
                | Some s \<Rightarrow>
                    (case buffers st d of
                       None \<Rightarrow> Inl InvalidHandle
                     | Some db \<Rightarrow>
                         (case buffers st s of
                            None \<Rightarrow> Inl InvalidHandle
                          | Some sb \<Rightarrow>
                              (let st1 = called11 (D3D11_CopyResource d s) st
                               in if desc_ByteWidth sb = desc_ByteWidth db
                                  then Inr (st1\<lparr>buffers := (buffers st1)(d \<mapsto>
                                         db\<lparr>buffer_pData := buffer_pData sb\<rparr>)\<rparr>)
                                  else Inr st1))))))"

text \<open>
  \<open>UpdateSubresource (dst, 0, &box, src, pitch, 0)\<close> with \<open>box = {0, 0, 0, right, bottom, 1}\<close>:
  the driver reads \<open>bottom\<close> rows, \<open>pitch\<close> bytes apart, from the caller's memory into the
  box.  The runtime drops a box that does not fit the resource.
\<close>

definition UpdateSubresource_texture ::
  "D3D11 \<Rightarrow> handle option \<Rightarrow> nat \<Rightarrow> nat \<Rightarrow> byte list option \<Rightarrow> nat \<Rightarrow> fault + D3D11" where
  "UpdateSubresource_texture st dst right bottom src pitch =
     (case m_context st of
        None \<Rightarrow> Inl NullDereference
      | Some _ \<Rightarrow>
          (case dst of
             None \<Rightarrow> Inl NullDereference
           | Some d \<Rightarrow>
               (case texture2ds st d of
                  None \<Rightarrow> Inl InvalidHandle
                | Some dt \<Rightarrow>
                    (let st1 = called11 (D3D11_UpdateSubresource d) st;
                         rowbytes = right * DXGI_FORMAT_bytes (desc_Format dt)
                     in if right \<le> desc_Width dt \<and> bottom \<le> desc_Height dt \<and> 0 < rowbytes \<and> 0 < bottom
                        then (case src of
                                None \<Rightarrow> Inl NullDereference
                              | Some s \<Rightarrow>
                                  if (bottom - 1) * pitch + rowbytes \<le> length s
                                  then Inr (st1\<lparr>texture2ds := (texture2ds st1)(d \<mapsto>
                                         dt\<lparr>pData := blit bottom rowbytes s pitch (pData dt) (RowPitch dt)\<rparr>)\<rparr>)
                                  else Inl OutOfBounds)
                        else Inr st1))))"

definition UpdateSubresource_buffer ::
  "D3D11 \<Rightarrow> handle option \<Rightarrow> nat \<Rightarrow> byte list option \<Rightarrow> fault + D3D11" where
  "UpdateSubresource_buffer st dst right src =
     (case m_context st of
        None \<Rightarrow> Inl NullDereference
      | Some _ \<Rightarrow>
          (case dst of
             None \<Rightarrow> Inl NullDereference
           | Some d \<Rightarrow>
               (case buffers st d of
                  None \<Rightarrow> Inl InvalidHandle
                | Some db \<Rightarrow>
                    (let st1 = called11 (D3D11_UpdateSubresource d) st
                     in if right \<le> desc_ByteWidth db \<and> 0 < right
                        then (case src of
                                None \<Rightarrow> Inl NullDereference
                              | Some s \<Rightarrow>
                                  if right \<le> length s
                                  then Inr (st1\<lparr>buffers := (buffers st1)(d \<mapsto>
                                         db\<lparr>buffer_pData := take right s @ drop right (buffer_pData db)\<rparr>)\<rparr>)
                                  else Inl OutOfBounds)
                        else Inr st1))))"

text \<open>\<open>m_context->End (m_query_event)\<close> and \<open>m_context->GetData (m_query_event, ...)\<close>.\<close>

definition End_query :: "D3D11 \<Rightarrow> fault + D3D11" where
  "End_query st =
     (case m_context st of
        None \<Rightarrow> Inl NullDereference
      | Some _ \<Rightarrow>
          (case D3D11.m_query_event st of
             None \<Rightarrow> Inl NullDereference
           | Some _ \<Rightarrow> Inr (called11 D3D11_End st)))"

definition GetData :: "D3D11 \<Rightarrow> fault + (HRESULT \<times> D3D11)" where
  "GetData st =
     (case m_context st of
        None \<Rightarrow> Inl NullDereference
      | Some _ \<Rightarrow>
          (case pending st of
             None \<Rightarrow> Inr (S_FALSE, called11 D3D11_GetData st)
           | Some 0 \<Rightarrow> Inr (S_OK, called11 D3D11_GetData st)
           | Some (Suc n) \<Rightarrow> Inr (S_FALSE, called11 D3D11_GetData (st\<lparr>pending := Some n\<rparr>))))"

subsection \<open>sync\<close>

text \<open>
  The loop polls until the driver stops answering \<open>S_FALSE\<close>; with a GPU that never
  retires its work it does not return, which is the value \<open>None\<close>.
\<close>

partial_function (option) sync_poll :: "D3D11 \<Rightarrow> (fault + D3D11) option" where
  "sync_poll st =
     (case GetData st of
        Inl f \<Rightarrow> Some (Inl f)
      | Inr (hr, st1) \<Rightarrow>
          if hr = S_FALSE then sync_poll (called11 D3D11_sleep_for st1) else Some (Inr st1))"

declare sync_poll.simps [code]

definition sync_D3D11 :: "D3D11 \<Rightarrow> (fault + D3D11) option" where
  "sync_D3D11 st =
     (case End_query st of
        Inl f \<Rightarrow> Some (Inl f)
      | Inr st1 \<Rightarrow> sync_poll st1)"

subsection \<open>The staging textures\<close>

definition D3D11MaxStagingTextures :: nat where
  "D3D11MaxStagingTextures = 32"

definition clearStagingTextures_D3D11 :: "D3D11 \<Rightarrow> D3D11" where
  "clearStagingTextures_D3D11 st =
     (foldl Release_texture st (map snd (D3D11.m_staging_textures st)))
       \<lparr>D3D11.m_staging_textures := []\<rparr>"

definition GetInternalFormatD3D11 :: "TextureFormat \<Rightarrow> DXGI_FORMAT" where
  "GetInternalFormatD3D11 fmt =
     (if fmt = RGBAu8 then DXGI_FORMAT_R8G8B8A8_TYPELESS
      else if fmt = RGBAf16 then DXGI_FORMAT_R16G16B16A16_FLOAT
      else if fmt = RGf16 then DXGI_FORMAT_R16G16_FLOAT
      else if fmt = Rf16 then DXGI_FORMAT_R16_FLOAT
      else if fmt = RGBAf32 then DXGI_FORMAT_R32G32B32A32_FLOAT
      else if fmt = RGf32 then DXGI_FORMAT_R32G32_FLOAT
      else if fmt = Rf32 then DXGI_FORMAT_R32_FLOAT
      else if fmt = RGBAi32 then DXGI_FORMAT_R32G32B32A32_SINT
      else if fmt = RGi32 then DXGI_FORMAT_R32G32_SINT
      else if fmt = Ri32 then DXGI_FORMAT_R32_SINT
      else DXGI_FORMAT_UNKNOWN)"

definition getStagingTexture ::
  "D3D11 \<Rightarrow> int \<Rightarrow> int \<Rightarrow> TextureFormat \<Rightarrow> fault + (handle option \<times> D3D11)" where
  "getStagingTexture st width height format =
     (let st1 = (if length (D3D11.m_staging_textures st) \<ge> D3D11MaxStagingTextures
                 then clearStagingTextures_D3D11 st else st);
          internal_format = GetInternalFormatD3D11 format;
          hash = staging_hash width height (DXGI_FORMAT_value internal_format)
      in case map_of (D3D11.m_staging_textures st1) hash of
           Some it \<Rightarrow> Inr (Some it, st1)
         | None \<Rightarrow>
             (case CreateTexture2D st1 (UINT width) (UINT height) internal_format of
                Inl f \<Rightarrow> Inl f
              | Inr (hr, ret, st2) \<Rightarrow>
                  (case ret of
                     Some r \<Rightarrow>
                       if SUCCEEDED hr
                       then Inr (ret, st2\<lparr>D3D11.m_staging_textures :=
                              insort_key fst (hash, r) (D3D11.m_staging_textures st2)\<rparr>)
                       else Inr (ret, st2)
                   | None \<Rightarrow> Inr (ret, st2))))"

subsection \<open>readTexture\<close>

text \<open>The lambda \<open>proc_read\<close>; \<open>ret\<close> is captured by reference, so it goes in and comes out.\<close>

definition proc_read_texture ::
  "texel_size \<Rightarrow> D3D11 \<Rightarrow> Error \<Rightarrow> byte list option \<Rightarrow> nat \<Rightarrow> handle option \<Rightarrow> int \<Rightarrow> int
     \<Rightarrow> TextureFormat \<Rightarrow> fault + (Error \<times> byte list option \<times> D3D11)" where
  "proc_read_texture gts st ret dst dst_size tex width height format =
     (case Map_texture st tex of
        Inl f \<Rightarrow> Inl f
      | Inr (hr, mapped, st1) \<Rightarrow>
          if FAILED hr then Inr (Unknown, dst, called11 D3D11_gdLogError st1)
          else
            (let dst_pitch = int32 (width * gts format);
                 src_pitch = int32 (int (RowPitch mapped))
             in case pitch_copy dst dst_pitch (Some (pData mapped)) src_pitch dst_size height of
                  Inl f \<Rightarrow> Inl f
                | Inr dst' \<Rightarrow>
                    (case tex of
                       None \<Rightarrow> Inl NullDereference
                     | Some t \<Rightarrow> Inr (ret, dst', Unmap st1 t))))"

definition readTexture_D3D11 ::
  "texel_size \<Rightarrow> D3D11 \<Rightarrow> byte list option \<Rightarrow> nat \<Rightarrow> handle option \<Rightarrow> int \<Rightarrow> int \<Rightarrow> TextureFormat
     \<Rightarrow> (fault + (Error \<times> byte list option \<times> D3D11)) option" where
  "readTexture_D3D11 gts st dst dst_size src_tex width height format =
     (if m_context st = None \<or> src_tex = None then Some (Inr (InvalidParameter, dst, st))
      else
        (let psize = gts format
         in case GetDesc_texture st src_tex of
              Inl f \<Rightarrow> Some (Inl f)
            | Inr (desc, st1) \<Rightarrow>
                (let mappable = (desc_CPUAccessFlags desc AND D3D11_CPU_ACCESS_READ \<noteq> 0);
                     ret = OK
                 in if mappable
                    then Some (proc_read_texture gts st1 ret dst dst_size src_tex width height format)
                    else
                      (case getStagingTexture st1 width height format of
                         Inl f \<Rightarrow> Some (Inl f)
                       | Inr (staging, st2) \<Rightarrow>
                           (case CopyResource_texture st2 staging src_tex of
                              Inl f \<Rightarrow> Some (Inl f)
                            | Inr st3 \<Rightarrow>
                                (case sync_D3D11 st3 of
                                   None \<Rightarrow> None
                                 | Some (Inl f) \<Rightarrow> Some (Inl f)
                                 | Some (Inr st4) \<Rightarrow>
                                     Some (proc_read_texture gts st4 ret dst dst_size staging
                                             width height format)))))))"

subsection \<open>writeTexture\<close>

text \<open>
  Modelled from the spec: \<open>ceildiv\<close> comes from \<open>gdInternal.h\<close>, which is not among the
  sources; the spec gives the row count as the pixel count divided by the width, rounded
  up.  Both arguments are \<open>UINT\<close>s.
\<close>

definition ceildiv :: "nat \<Rightarrow> nat \<Rightarrow> fault + nat" where
  "ceildiv a b = (if b = 0 then Inl DivideByZero else Inr ((a + (b - 1)) div b))"

definition writeTexture_D3D11 ::
  "texel_size \<Rightarrow> D3D11 \<Rightarrow> handle option \<Rightarrow> int \<Rightarrow> int \<Rightarrow> TextureFormat \<Rightarrow> byte list option \<Rightarrow> nat
     \<Rightarrow> fault + (Error \<times> D3D11)" where
  "writeTexture_D3D11 gts st dst_tex width height format src src_size =
     (if dst_tex = None \<or> src = None then Inr (InvalidParameter, st)
      else
        (case GetDesc_texture st dst_tex of
           Inl f \<Rightarrow> Inl f
         | Inr (desc, st1) \<Rightarrow>
             (let mappable = (desc_CPUAccessFlags desc AND D3D11_CPU_ACCESS_WRITE \<noteq> 0);
                  psize = gts format;
                  pitch = int32 (psize * width)
              in if size_t_of_int psize = 0 then Inl DivideByZero
                 else
                   (let num_pixels = src_size div size_t_of_int psize
                    in if mappable then
                         (case Map_texture st1 dst_tex of
                            Inl f \<Rightarrow> Inl f
                          | Inr (hr, mapped, st2) \<Rightarrow>
                              if FAILED hr then Inr (OK, called11 D3D11_gdLogError st2)
                              else
                                (let dst_pitch = int32 (int (RowPitch mapped));
                                     src_pitch = int32 (width * gts format)
                                 in case pitch_copy (Some (pData mapped)) dst_pitch src src_pitch
                                           src_size height of
                                      Inl f \<Rightarrow> Inl f
                                    | Inr None \<Rightarrow> Inl NullDereference
                                    | Inr (Some dst_pixels) \<Rightarrow>
                                        (case dst_tex of
                                           None \<Rightarrow> Inl NullDereference
                                         | Some t \<Rightarrow>
                                             Inr (OK, Unmap (st2\<lparr>texture2ds := (texture2ds st2)(t \<mapsto>
                                                         mapped\<lparr>pData := dst_pixels\<rparr>)\<rparr>) t))))
                       else
                         (case ceildiv (num_pixels mod 2 ^ 32) (UINT width) of
                            Inl f \<Rightarrow> Inl f
                          | Inr bottom \<Rightarrow>
                              (case UpdateSubresource_texture st1 dst_tex (UINT width) bottom src
                                      (UINT pitch) of
                                 Inl f \<Rightarrow> Inl f
                               | Inr st2 \<Rightarrow> Inr (OK, st2)))))))"

subsection \<open>The staging buffers\<close>

text \<open>
  \<^verbatim>\<open>size_t size = 1024 * 1024; while (size < size_required) { size *= 2; }\<close>
  The doubling wraps at \<open>2 ^ 64\<close>, so the loop need not end.
\<close>

partial_function (option) staging_buffer_size :: "nat \<Rightarrow> nat \<Rightarrow> nat option" where
  "staging_buffer_size sz size_required =
     (if sz < size_required then staging_buffer_size ((sz * 2) mod 2 ^ 64) size_required
      else Some sz)"

declare staging_buffer_size.simps [code]

definition getStagingBuffer ::
  "D3D11 \<Rightarrow> BufferType \<Rightarrow> nat \<Rightarrow> (fault + (handle option \<times> D3D11)) option" where
  "getStagingBuffer st type size_required =
     (case staging_buffer_size (1024 * 1024) size_required of
        None \<Rightarrow> None
      | Some sz \<Rightarrow>
          Some
           (if type = End then Inl OutOfBounds
            else
              (let staging = m_staging_buffers st type
               in case (case staging of
                          None \<Rightarrow> Inr (0, st)
                        | Some _ \<Rightarrow>
                            (case GetDesc_buffer st staging of
                               Inl f \<Rightarrow> Inl f
                             | Inr (desc, st1) \<Rightarrow> Inr (desc_ByteWidth desc, st1))) of
                    Inl f \<Rightarrow> Inl f
                  | Inr (current_size, st1) \<Rightarrow>
                      if sz > current_size then
                        (let st2 = (case staging of
                                      None \<Rightarrow> st1
                                    | Some b \<Rightarrow>
                                        (Release_buffer st1 b)
                                          \<lparr>m_staging_buffers := (m_staging_buffers st1)(type := None)\<rparr>)
                         in case CreateBuffer st2 (sz mod 2 ^ 32) type of
                              Inl f \<Rightarrow> Inl f
                            | Inr (hr, ret, st3) \<Rightarrow>
                                (let st4 = st3\<lparr>m_staging_buffers := (m_staging_buffers st3)(type := ret)\<rparr>
                                 in Inr (ret, if FAILED hr then called11 D3D11_gdLogError st4 else st4)))
                      else Inr (staging, st1))))"

subsection \<open>readBuffer\<close>

definition proc_read_buffer ::
  "D3D11 \<Rightarrow> Error \<Rightarrow> byte list option \<Rightarrow> handle option \<Rightarrow> nat
     \<Rightarrow> fault + (Error \<times> byte list option \<times> D3D11)" where
  "proc_read_buffer st ret dst buf sz =
     (case Map_buffer st buf of
        Inl f \<Rightarrow> Inl f
      | Inr (hr, mapped, st1) \<Rightarrow>
          if FAILED hr then Inr (Unknown, dst, called11 D3D11_gdLogError st1)
          else
            (case memcpy dst 0 (Some (buffer_pData mapped)) 0 sz of
               Inl f \<Rightarrow> Inl f
             | Inr dst' \<Rightarrow>
                 (case buf of
                    None \<Rightarrow> Inl NullDereference
                  | Some b \<Rightarrow> Inr (ret, dst', Unmap st1 b))))"

definition readBuffer_D3D11 ::
  "D3D11 \<Rightarrow> byte list option \<Rightarrow> handle option \<Rightarrow> nat \<Rightarrow> BufferType
     \<Rightarrow> (fault + (Error \<times> byte list option \<times> D3D11)) option" where
  "readBuffer_D3D11 st dst src_buf read_size type =
     (if read_size = 0 then Some (Inr (OK, dst, st))
      else if dst = None \<or> src_buf = None then Some (Inr (InvalidParameter, dst, st))
      else
        (case GetDesc_buffer st src_buf of
           Inl f \<Rightarrow> Some (Inl f)
         | Inr (desc, st1) \<Rightarrow>
             (let mappable = (buffer_CPUAccessFlags desc AND D3D11_CPU_ACCESS_READ \<noteq> 0);
                  ret = OK
              in if mappable then Some (proc_read_buffer st1 ret dst src_buf read_size)
                 else
                   (case getStagingBuffer st1 type read_size of
                      None \<Rightarrow> None
                    | Some (Inl f) \<Rightarrow> Some (Inl f)
                    | Some (Inr (staging_buf, st2)) \<Rightarrow>
                        (case CopyResource_buffer st2 staging_buf src_buf of
                           Inl f \<Rightarrow> Some (Inl f)
                         | Inr st3 \<Rightarrow>
                             (case sync_D3D11 st3 of
                                None \<Rightarrow> None
                              | Some (Inl f) \<Rightarrow> Some (Inl f)
                              | Some (Inr st4) \<Rightarrow>
                                  Some (proc_read_buffer st4 ret dst staging_buf read_size)))))))"

subsection \<open>writeBuffer\<close>

definition writeBuffer_D3D11 ::
  "D3D11 \<Rightarrow> handle option \<Rightarrow> byte list option \<Rightarrow> nat \<Rightarrow> BufferType \<Rightarrow> fault + (Error \<times> D3D11)" where
  "writeBuffer_D3D11 st dst_buf src write_size type =
     (if write_size = 0 then Inr (OK, st)
      else if dst_buf = None \<or> src = None then Inr (InvalidParameter, st)
      else
        (case GetDesc_buffer st dst_buf of
           Inl f \<Rightarrow> Inl f
         | Inr (desc, st1) \<Rightarrow>
             (let mappable = (buffer_CPUAccessFlags desc AND D3D11_CPU_ACCESS_WRITE \<noteq> 0);
                  ret = OK
              in if mappable then
                   (case Map_buffer st1 dst_buf of
                      Inl f \<Rightarrow> Inl f
                    | Inr (hr, mapped, st2) \<Rightarrow>
                        if FAILED hr then Inr (Unknown, called11 D3D11_gdLogError st2)
                        else
                          (case memcpy (Some (buffer_pData mapped)) 0 src 0 write_size of
                             Inl f \<Rightarrow> Inl f
                           | Inr None \<Rightarrow> Inl NullDereference
                           | Inr (Some bytes) \<Rightarrow>
                               (case dst_buf of
                                  None \<Rightarrow> Inl NullDereference
                                | Some b \<Rightarrow>
                                    Inr (ret, Unmap (st2\<lparr>buffers := (buffers st2)(b \<mapsto>
                                                mapped\<lparr>buffer_pData := bytes\<rparr>)\<rparr>) b))))
                 else
                   (case UpdateSubresource_buffer st1 dst_buf (write_size mod 2 ^ 32) src of
                      Inl f \<Rightarrow> Inl f
                    | Inr st2 \<Rightarrow> Inr (ret, st2)))))"

section \<open>Concrete devices\<close>

text \<open>
  A Direct3D 9 device with one texture (handle 20) whose level-0 surface (handle 10) is one
  \<open>Rf16\<close> texel wide and two high.  The driver aligns rows to four bytes, so the pitch of
  the surface, and of any staging surface made for it, is 4 where a row holds 2 bytes.  Every
  driver call succeeds.
\<close>

definition example_D3D9 :: D3D9 where
  "example_D3D9 =
     \<lparr>D3D9.m_device = Some 0, D3D9.m_query_event = Some 1, D3D9.m_staging_textures = [],
      surfaces = [10 \<mapsto> \<lparr>Width = 1, Height = 2, Format = D3DFMT_R16F, Pitch = 4,
                            pBits = [0, 0, 0, 0, 0, 0, 0, 0], LockRect_result = S_OK\<rparr>],
      textures = [20 \<mapsto> \<lparr>GetSurfaceLevel_result = S_OK, level0 = 10\<rparr>],
      next_handle = 100, new_Pitch = (\<lambda>n. 4 * ((int n + 3) div 4)),
      CreateOffscreenPlainSurface_result = S_OK, GetRenderTargetData_result = S_OK,
      UpdateSurface_result = S_OK, GetData_result = S_OK, calls = []\<rparr>"

text \<open>
  A Direct3D 11 device with four textures, each one \<open>Rf16\<close> texel wide and two high:
  10 has no CPU access (rows four bytes apart), 11 is CPU-writable (rows four bytes apart),
  12 is CPU-writable but the driver refuses to map it, 13 is CPU-readable and CPU-writable
  with rows packed; and one buffer (20) of four bytes without CPU access.  The GPU retires
  its work after two polls.
\<close>

definition example_D3D11 :: D3D11 where
  "example_D3D11 =
     \<lparr>D3D11.m_device = Some 0, m_context = Some 1, D3D11.m_query_event = Some 2,
      D3D11.m_staging_textures = [], m_staging_buffers = (\<lambda>_. None),
      texture2ds =
        [10 \<mapsto> \<lparr>desc_Width = 1, desc_Height = 2, desc_Format = DXGI_FORMAT_R16_FLOAT,
                 desc_CPUAccessFlags = 0, RowPitch = 4,
                 pData = [0, 0, 0, 0, 0, 0, 0, 0], Map_result = E_FAIL\<rparr>,
         11 \<mapsto> \<lparr>desc_Width = 1, desc_Height = 2, desc_Format = DXGI_FORMAT_R16_FLOAT,
                 desc_CPUAccessFlags = D3D11_CPU_ACCESS_WRITE, RowPitch = 4,
                 pData = [0, 0, 0, 0, 0, 0, 0, 0], Map_result = S_OK\<rparr>,
         12 \<mapsto> \<lparr>desc_Width = 1, desc_Height = 2, desc_Format = DXGI_FORMAT_R16_FLOAT,
                 desc_CPUAccessFlags = D3D11_CPU_ACCESS_WRITE, RowPitch = 4,
                 pData = [0, 0, 0, 0, 0, 0, 0, 0], Map_result = E_FAIL\<rparr>,
         13 \<mapsto> \<lparr>desc_Width = 1, desc_Height = 2, desc_Format = DXGI_FORMAT_R16_FLOAT,
                 desc_CPUAccessFlags = D3D11_CPU_ACCESS_READ OR D3D11_CPU_ACCESS_WRITE, RowPitch = 2,
                 pData = [0, 0, 0, 0], Map_result = S_OK\<rparr>],
      buffers =
        [20 \<mapsto> \<lparr>desc_ByteWidth = 4, buffer_CPUAccessFlags = 0,
                 buffer_pData = [5, 6, 7, 8], buffer_Map_result = S_OK\<rparr>],
      fresh_handle = 100, new_RowPitch = (\<lambda>n. 4 * ((n + 3) div 4)),
      CreateTexture2D_result = S_OK, CreateBuffer_result = S_OK, pending = Some 2,
      calls11 = []\<rparr>"

text \<open>
  Devices whose staging cache is full: the example devices after 32 requests for staging
  textures of 32 different widths (1 to 32, one texel high, \<open>RGBAu8\<close>).
\<close>

fun request_widths_D3D9 :: "D3D9 \<Rightarrow> int list \<Rightarrow> D3D9" where
  "request_widths_D3D9 st [] = st"
| "request_widths_D3D9 st (w # ws) =
     (case findOrCreateStagingTexture st w 1 RGBAu8 of
        Inl f \<Rightarrow> st
      | Inr (r, st') \<Rightarrow> request_widths_D3D9 st' ws)"

definition full_D3D9 :: D3D9 where
  "full_D3D9 = request_widths_D3D9 example_D3D9 (map int [1..<33])"

fun request_widths_D3D11 :: "D3D11 \<Rightarrow> int list \<Rightarrow> D3D11" where
  "request_widths_D3D11 st [] = st"
| "request_widths_D3D11 st (w # ws) =
     (case getStagingTexture st w 1 RGBAu8 of
        Inl f \<Rightarrow> st
      | Inr (r, st') \<Rightarrow> request_widths_D3D11 st' ws)"

definition full_D3D11 :: D3D11 where
  "full_D3D11 = request_widths_D3D11 example_D3D11 (map int [1..<33])"

section \<open>Well-formed staging caches\<close>

text \<open>
  An entry of the staging cache is as the lookup functions leave it when its key is the
  key of the texture it holds, that texture is alive, older than the next handle the driver
  will hand out, and less than 65536 texels wide and high.
\<close>

definition staging_entry_ok_D3D11 :: "D3D11 \<Rightarrow> 64 word \<times> handle \<Rightarrow> bool" where
  "staging_entry_ok_D3D11 st e =
     (case texture2ds st (snd e) of
        None \<Rightarrow> False
      | Some t \<Rightarrow>
          snd e < fresh_handle st \<and> desc_Width t < 65536 \<and> desc_Height t < 65536
          \<and> fst e = staging_hash (int (desc_Width t)) (int (desc_Height t))
                      (DXGI_FORMAT_value (desc_Format t)))"

definition staging_cache_ok_D3D11 :: "D3D11 \<Rightarrow> bool" where
  "staging_cache_ok_D3D11 st = list_all (staging_entry_ok_D3D11 st) (D3D11.m_staging_textures st)"

definition staging_entry_ok_D3D9 :: "D3D9 \<Rightarrow> 64 word \<times> handle \<Rightarrow> bool" where
  "staging_entry_ok_D3D9 st e =
     (case surfaces st (snd e) of
        None \<Rightarrow> False
      | Some s \<Rightarrow>
          snd e < next_handle st \<and> Width s < 65536 \<and> Height s < 65536
          \<and> fst e = staging_hash (int (Width s)) (int (Height s)) (D3DFORMAT_value (Format s)))"

definition staging_cache_ok_D3D9 :: "D3D9 \<Rightarrow> bool" where
  "staging_cache_ok_D3D9 st = list_all (staging_entry_ok_D3D9 st) (D3D9.m_staging_textures st)"


text \<open>The example devices after one request for a staging texture 1 wide and 2 high.\<close>

definition cached_D3D11 :: D3D11 where
  "cached_D3D11 =
     (case getStagingTexture example_D3D11 1 2 RGBAu8 of Inl f \<Rightarrow> example_D3D11 | Inr (r, st) \<Rightarrow> st)"

definition cached_D3D9 :: D3D9 where
  "cached_D3D9 =
     (case findOrCreateStagingTexture example_D3D9 1 2 RGBAu8 of Inl f \<Rightarrow> example_D3D9 | Inr (r, st) \<Rightarrow> st)"

section \<open>The driver calls of the staging lookups\<close>

text \<open>
  The calls \<open>getStagingTexture\<close>, \<open>getStagingBuffer\<close> (Direct3D 11) and
  \<open>findOrCreateStagingTexture\<close> (Direct3D 9) can make: none of them copies, synchronises
  or maps.
\<close>

fun staging_call :: "D3D11_call \<Rightarrow> bool" where
  "staging_call (D3D11_Release _) = True"
| "staging_call (D3D11_CreateTexture2D _ _ _) = True"
| "staging_call (D3D11_CreateBuffer _ _) = True"
| "staging_call (D3D11_GetDesc _) = True"
| "staging_call D3D11_gdLogError = True"
| "staging_call _ = False"

fun staging_call_D3D9 :: "D3D9_call \<Rightarrow> bool" where
  "staging_call_D3D9 (D3D9_Release _) = True"
| "staging_call_D3D9 (D3D9_CreateOffscreenPlainSurface _ _ _) = True"
| "staging_call_D3D9 _ = False"

section \<open>The red/blue exchange\<close>

text \<open>
  The exchange the two conversion functions of the Direct3D 9 back end are compared with: of the first \<open>n\<close>
  texels of four bytes each, the first and the third byte change places; the bytes after
  them, and a tail shorter than a texel, stay.
\<close>

fun swap_red_blue :: "nat \<Rightarrow> byte list \<Rightarrow> byte list" where
  "swap_red_blue (Suc n) (r # g # b # a # rest) = b # g # r # a # swap_red_blue n rest"
| "swap_red_blue n data = data"



subsection \<open>Surfaces with padded rows\<close>

text \<open>
  The rows of a surface without the padding between them: \<open>h\<close> rows of \<open>rowbytes\<close> bytes,
  row \<open>i\<close> taken at \<open>i * pitch\<close>.
\<close>

definition packed_rows :: "nat \<Rightarrow> nat \<Rightarrow> nat \<Rightarrow> byte list \<Rightarrow> byte list" where
  "packed_rows h rowbytes pitch bits =
     concat (map (\<lambda>i. take rowbytes (drop (i * pitch) bits)) [0..<h])"

text \<open>
  A surface is well formed when a row fits into its pitch and its memory is \<open>Height\<close> rows
  of \<open>Pitch\<close> bytes.
\<close>

definition surface_ok :: "IDirect3DSurface9 \<Rightarrow> bool" where
  "surface_ok s =
     (0 \<le> Pitch s \<and> Width s * D3DFORMAT_bytes (Format s) \<le> nat (Pitch s)
      \<and> length (pBits s) = Height s * nat (Pitch s))"


section \<open>Evaluating the model\<close>

lemmas TextureFormat_defs =
  Elements_R_def Elements_RG_def Elements_RGBA_def Layout_RGBA_def
  Type_f16_def Type_f32_def Type_u8_def Type_i16_def Type_i32_def
  Rf16_def RGf16_def RGBAf16_def Rf32_def RGf32_def RGBAf32_def
  Ru8_def RGu8_def RGBAu8_def Ri16_def RGi16_def RGBAi16_def
  Ri32_def RGi32_def RGBAi32_def I420_def

lemma GetTexelSize_Rf16: "GetTexelSize Rf16 = 2"
  by (simp add: GetTexelSize_def TextureFormat_defs)


lemma GetInternalFormatD3D9_Rf16: "GetInternalFormatD3D9 Rf16 = D3DFMT_R16F"
  by (simp add: GetInternalFormatD3D9_def TextureFormat_defs)

lemma GetInternalFormatD3D9_RGBAu8: "GetInternalFormatD3D9 RGBAu8 = D3DFMT_A8R8G8B8"
  by (simp add: GetInternalFormatD3D9_def)

lemma GetInternalFormatD3D11_Rf16: "GetInternalFormatD3D11 Rf16 = DXGI_FORMAT_R16_FLOAT"
  by (simp add: GetInternalFormatD3D11_def TextureFormat_defs)

lemma GetInternalFormatD3D11_RGBAu8: "GetInternalFormatD3D11 RGBAu8 = DXGI_FORMAT_R8G8B8A8_TYPELESS"
  by (simp add: GetInternalFormatD3D11_def)

lemma Rf16_neq_RGBAu8: "Rf16 \<noteq> RGBAu8"
  by (simp add: TextureFormat_defs)

lemma blit_numeral:
  "blit (numeral k) rowbytes src spitch dst dpitch =
     (let i = pred_numeral k; d = blit i rowbytes src spitch dst dpitch
      in take (i * dpitch) d @ take rowbytes (drop (i * spitch) src) @ drop (i * dpitch + rowbytes) d)"
  by (simp add: numeral_eq_Suc Let_def)

lemma blit_1: "blit 1 rowbytes src spitch dst dpitch = take rowbytes src @ drop rowbytes dst"
  using blit.simps(2) [of 0 rowbytes src spitch dst dpitch] by (simp add: Let_def)

lemma replicate_numeral: "replicate (numeral k) x = x # replicate (pred_numeral k) x"
  by (simp add: numeral_eq_Suc)

lemmas D3D9_eval =
  blit_numeral blit_1 replicate_numeral
  findOrCreateStagingTexture_def D3D9MaxStagingTextures_def
  CreateOffscreenPlainSurface_def called_def SUCCEEDED_def FAILED_def UINT_def int32_def
  GetSurfaceLevel_def LockRect_def UnlockRect_def UpdateSurface_def GetRenderTargetData_def
  copy_surface_def sync_D3D9_def size_t_of_int_def int_of_size_t_def memcpy_def pitch_copy_def
  staging_hash_def Let_def

section \<open>Direct3D 9: what writeTexture returns\<close>

text \<open>
  C2.  On the Direct3D 9 back end \<open>writeTexture\<close> never returns \<open>OK\<close>: whenever it returns
  an error code at all, that code is \<open>Unknown\<close>, also when the staging lock, the copy and
  \<open>UpdateSurface\<close> have all succeeded (line 248 assigns \<open>Unknown\<close> on success).
\<close>

theorem writeTexture_D3D9_returns_Unknown:
  "writeTexture_D3D9 gts st o_tex width height format buf bufsize = Inr (e, st') \<Longrightarrow> e = Unknown"
  unfolding writeTexture_D3D9_def Let_def
  by (auto split: sum.splits option.splits prod.splits if_splits)

text \<open>
  A run in which every driver call succeeds, \<open>UpdateSurface\<close> being the last but one: the
  answer is \<open>Unknown\<close>.
\<close>

theorem writeTexture_D3D9_returns_Unknown_witness:
  "\<exists>st'. writeTexture_D3D9 GetTexelSize example_D3D9 (Some 20) 1 2 Rf16 (Some [1, 2, 3, 4]) 4
           = Inr (Unknown, st')
         \<and> calls st' = [D3D9_CreateOffscreenPlainSurface 1 2 D3DFMT_R16F, D3D9_GetSurfaceLevel 20,
                         D3D9_LockRect 100, D3D9_UnlockRect 100, D3D9_UpdateSurface 100 10,
                         D3D9_Release 10]
         \<and> SUCCEEDED (UpdateSurface_result example_D3D9)"
proof -
  have "\<exists>e st'. writeTexture_D3D9 GetTexelSize example_D3D9 (Some 20) 1 2 Rf16 (Some [1, 2, 3, 4]) 4
           = Inr (e, st')
         \<and> calls st' = [D3D9_CreateOffscreenPlainSurface 1 2 D3DFMT_R16F, D3D9_GetSurfaceLevel 20,
                         D3D9_LockRect 100, D3D9_UnlockRect 100, D3D9_UpdateSurface 100 10,
                         D3D9_Release 10]"
    by (simp add: writeTexture_D3D9_def example_D3D9_def GetTexelSize_Rf16
        GetInternalFormatD3D9_Rf16 Rf16_neq_RGBAu8 writeTexture_locked_D3D9_def D3D9_eval)
  then obtain e st' where
    run: "writeTexture_D3D9 GetTexelSize example_D3D9 (Some 20) 1 2 Rf16 (Some [1, 2, 3, 4]) 4
           = Inr (e, st')"
    and tr: "calls st' = [D3D9_CreateOffscreenPlainSurface 1 2 D3DFMT_R16F, D3D9_GetSurfaceLevel 20,
                         D3D9_LockRect 100, D3D9_UnlockRect 100, D3D9_UpdateSurface 100 10,
                         D3D9_Release 10]"
    by blast
  have "e = Unknown"
    using writeTexture_D3D9_returns_Unknown [OF run] .
  moreover have "SUCCEEDED (UpdateSurface_result example_D3D9)"
    by (simp add: example_D3D9_def SUCCEEDED_def)
  ultimately show ?thesis
    using run tr by blast
qed

lemma GetTexelSize_I420: "GetTexelSize I420 = 0"
  by (simp add: GetTexelSize_def TextureFormat_defs)

lemmas D3D11_eval =
  blit_numeral blit_1 replicate_numeral
  getStagingTexture_def D3D11MaxStagingTextures_def CreateTexture2D_def CreateBuffer_def
  called11_def SUCCEEDED_def FAILED_def UINT_def int32_def GetDesc_texture_def GetDesc_buffer_def
  Map_texture_def Map_buffer_def Unmap_def CopyResource_texture_def CopyResource_buffer_def
  UpdateSubresource_texture_def UpdateSubresource_buffer_def End_query_def GetData_def
  sync_D3D11_def proc_read_texture_def proc_read_buffer_def ceildiv_def
  D3D11_CPU_ACCESS_READ_def D3D11_CPU_ACCESS_WRITE_def
  size_t_of_int_def int_of_size_t_def memcpy_def pitch_copy_def staging_hash_def Let_def

section \<open>writeTexture: the division by the texel size\<close>

lemma copy_with_BGRA_RGBA_conversion_from_fault:
  "copy_with_BGRA_RGBA_conversion_from i dst src n = Inl f \<Longrightarrow> f \<noteq> DivideByZero"
proof (induction i dst src n rule: copy_with_BGRA_RGBA_conversion_from.induct)
  case (1 i dst src num_pixels)
  then show ?case
    by (subst (asm) (2) copy_with_BGRA_RGBA_conversion_from.simps)
       (auto split: if_splits option.splits)
qed

lemma writeTexture_locked_D3D9_fault:
  "writeTexture_locked_D3D9 st surf_src format buf bufsize = Inl f \<Longrightarrow> f \<noteq> DivideByZero"
  by (auto simp: writeTexture_locked_D3D9_def memcpy_def copy_with_BGRA_RGBA_conversion_def
           dest: copy_with_BGRA_RGBA_conversion_from_fault
           split: option.splits sum.splits if_splits)

lemma findOrCreateStagingTexture_fault:
  "findOrCreateStagingTexture st width height format = Inl f \<Longrightarrow> f = NullDereference"
  by (auto simp: findOrCreateStagingTexture_def CreateOffscreenPlainSurface_def Let_def
           split: option.splits sum.splits if_splits prod.splits)

lemma copy_surface_fault:
  "copy_surface c answer st src dst = Inl f \<Longrightarrow> f \<noteq> DivideByZero"
  by (auto simp: copy_surface_def Let_def split: option.splits if_splits)

lemma writeTexture_D3D9_DivideByZero:
  assumes "writeTexture_D3D9 gts st o_tex width height format buf bufsize = Inl DivideByZero"
  shows "size_t_of_int (gts format) = 0"
proof (rule ccontr)
  assume nz: "size_t_of_int (gts format) \<noteq> 0"
  from assms nz show False
    unfolding writeTexture_D3D9_def Let_def
    by (auto simp: GetSurfaceLevel_def LockRect_def UpdateSurface_def Let_def
             dest: findOrCreateStagingTexture_fault writeTexture_locked_D3D9_fault copy_surface_fault
             split: sum.splits option.splits prod.splits if_splits)
qed

text \<open>
  C10.  \<open>writeTexture\<close> divides the byte size of the source by \<open>GetTexelSize (format)\<close>
  before anything looks at the format.  On Direct3D 9 the division is the first thing the
  function does: a call with a format of texel size 0 divides by zero whatever its other
  arguments, and a positive texel size is all this division needs.  On Direct3D 11 only the
  null checks and \<open>GetDesc\<close> come before it: a call with non-null arguments on a live texture
  and a format of texel size 0 divides by zero.
\<close>

theorem writeTexture_divides_by_texel_size:
  "(gts format = 0 \<longrightarrow>
      writeTexture_D3D9 gts st9 o_tex width height format buf bufsize = Inl DivideByZero)
   \<and> (0 < gts format \<and> gts format < 2 ^ 31 \<longrightarrow>
      writeTexture_D3D9 gts st9 o_tex width height format buf bufsize \<noteq> Inl DivideByZero)
   \<and> (gts format = 0 \<and> texture2ds st11 t \<noteq> None \<longrightarrow>
      writeTexture_D3D11 gts st11 (Some t) width height format (Some src) src_size = Inl DivideByZero)"
proof (intro conjI impI)
  assume "gts format = 0"
  then show "writeTexture_D3D9 gts st9 o_tex width height format buf bufsize = Inl DivideByZero"
    by (simp add: writeTexture_D3D9_def size_t_of_int_def)
next
  assume pos: "0 < gts format \<and> gts format < 2 ^ 31"
  show "writeTexture_D3D9 gts st9 o_tex width height format buf bufsize \<noteq> Inl DivideByZero"
  proof
    assume "writeTexture_D3D9 gts st9 o_tex width height format buf bufsize = Inl DivideByZero"
    then have "size_t_of_int (gts format) = 0"
      by (rule writeTexture_D3D9_DivideByZero)
    with pos show False
      by (simp add: size_t_of_int_def)
  qed
next
  assume "gts format = 0 \<and> texture2ds st11 t \<noteq> None"
  then show "writeTexture_D3D11 gts st11 (Some t) width height format (Some src) src_size
               = Inl DivideByZero"
    by (auto simp: writeTexture_D3D11_def GetDesc_texture_def size_t_of_int_def Let_def)
qed

text \<open>
  \<open>I420\<close> has texel size 0 and no internal format on either back end; the division faults
  before either could be noticed.  \<open>Rf16\<close> has texel size 2.
\<close>

theorem writeTexture_divides_by_texel_size_witness:
  "GetTexelSize I420 = 0
   \<and> writeTexture_D3D9 GetTexelSize example_D3D9 (Some 20) 1 2 I420 (Some [1, 2, 3, 4]) 4
       = Inl DivideByZero
   \<and> GetInternalFormatD3D9 I420 = D3DFMT_UNKNOWN
   \<and> writeTexture_D3D11 GetTexelSize example_D3D11 (Some 10) 1 2 I420 (Some [1, 2, 3, 4]) 4
       = Inl DivideByZero
   \<and> 0 < GetTexelSize Rf16 \<and> GetTexelSize Rf16 < 2 ^ 31
   \<and> writeTexture_D3D9 GetTexelSize example_D3D9 (Some 20) 1 2 Rf16 (Some [1, 2, 3, 4]) 4
       \<noteq> Inl DivideByZero"
proof -
  have live: "texture2ds example_D3D11 10 \<noteq> None"
    by (simp add: example_D3D11_def)
  have unknown: "GetInternalFormatD3D9 I420 = D3DFMT_UNKNOWN"
    by (simp add: GetInternalFormatD3D9_def TextureFormat_defs)
  show ?thesis
    using writeTexture_divides_by_texel_size
            [of GetTexelSize I420 example_D3D9 "Some 20" 1 2 "Some [1, 2, 3, 4]" 4 example_D3D11 10
                "[1, 2, 3, 4]" 4]
          writeTexture_divides_by_texel_size
            [of GetTexelSize Rf16 example_D3D9 "Some 20" 1 2 "Some [1, 2, 3, 4]" 4 example_D3D11 10
                "[1, 2, 3, 4]" 4]
          live unknown
    by (simp add: GetTexelSize_I420 GetTexelSize_Rf16)
qed

section \<open>Null pointers and empty transfers\<close>

text \<open>
  C3, as the claim has it, fails: the Vulkan device and the buffer operations of
  Direct3D 9 answer \<open>NotAvailable\<close> whatever the pointers are, and a buffer transfer of
  zero bytes on Direct3D 11 answers \<open>OK\<close> before the pointers are looked at.
\<close>

theorem null_arguments_counterexample:
  "readTexture_Vulkan None 4 None 1 2 Rf16 = NotAvailable
   \<and> writeBuffer_Vulkan None None 4 Index = NotAvailable
   \<and> readBuffer_D3D9 example_D3D9 None None 4 Index = Inr (NotAvailable, None, example_D3D9)
   \<and> readBuffer_D3D11 example_D3D11 None None 0 Index = Some (Inr (OK, None, example_D3D11))
   \<and> writeBuffer_D3D11 example_D3D11 None None 0 Index = Inr (OK, example_D3D11)"
  by (simp add: readTexture_Vulkan_def writeBuffer_Vulkan_def readBuffer_D3D9_def
        readBuffer_D3D11_def writeBuffer_D3D11_def)

text \<open>
  C3, amended.  On Direct3D 11, \<open>writeTexture\<close> with a null texture or a null source,
  \<open>readTexture\<close> with a null source texture, and \<open>readBuffer\<close> and \<open>writeBuffer\<close> of a
  non-zero size with a null destination or source return \<open>InvalidParameter\<close>; the device
  state, and with it the list of driver calls, is as before and the destination is
  untouched, so nothing was dereferenced.  The Vulkan operations and the Direct3D 9 buffer
  operations return \<open>NotAvailable\<close>, and the Direct3D 11 buffer operations of size zero
  return \<open>OK\<close>, without looking at their pointers.
\<close>

theorem null_arguments_InvalidParameter:
  "(dst_tex = None \<or> src = None \<longrightarrow>
      writeTexture_D3D11 gts st dst_tex width height format src src_size
        = Inr (InvalidParameter, st))
   \<and> (src_tex = None \<longrightarrow>
      readTexture_D3D11 gts st dst dst_size src_tex width height format
        = Some (Inr (InvalidParameter, dst, st)))
   \<and> (read_size \<noteq> 0 \<and> (dst = None \<or> src_buf = None) \<longrightarrow>
      readBuffer_D3D11 st dst src_buf read_size type = Some (Inr (InvalidParameter, dst, st)))
   \<and> (write_size \<noteq> 0 \<and> (dst_buf = None \<or> src = None) \<longrightarrow>
      writeBuffer_D3D11 st dst_buf src write_size type = Inr (InvalidParameter, st))
   \<and> readBuffer_D3D11 st dst src_buf 0 type = Some (Inr (OK, dst, st))
   \<and> writeBuffer_D3D11 st dst_buf src 0 type = Inr (OK, st)
   \<and> readBuffer_D3D9 st9 dst src_buf read_size type = Inr (NotAvailable, dst, st9)
   \<and> writeBuffer_D3D9 st9 dst_buf src write_size type = Inr (NotAvailable, st9)
   \<and> readTexture_Vulkan dst dst_size src_tex width height format = NotAvailable
   \<and> writeTexture_Vulkan dst_tex width height format src src_size = NotAvailable
   \<and> readBuffer_Vulkan dst src_buf read_size type = NotAvailable
   \<and> writeBuffer_Vulkan dst_buf src write_size type = NotAvailable"
  by (simp add: writeTexture_D3D11_def readTexture_D3D11_def readBuffer_D3D11_def
        writeBuffer_D3D11_def readBuffer_D3D9_def writeBuffer_D3D9_def readTexture_Vulkan_def
        writeTexture_Vulkan_def readBuffer_Vulkan_def writeBuffer_Vulkan_def)

theorem null_arguments_InvalidParameter_witness:
  "writeTexture_D3D11 GetTexelSize example_D3D11 None 1 2 Rf16 (Some [1, 2, 3, 4]) 4
     = Inr (InvalidParameter, example_D3D11)
   \<and> readTexture_D3D11 GetTexelSize example_D3D11 (Some [9, 9, 9, 9]) 4 None 1 2 Rf16
     = Some (Inr (InvalidParameter, Some [9, 9, 9, 9], example_D3D11))
   \<and> readBuffer_D3D11 example_D3D11 (Some [9, 9, 9, 9]) None 4 Index
     = Some (Inr (InvalidParameter, Some [9, 9, 9, 9], example_D3D11))
   \<and> writeBuffer_D3D11 example_D3D11 None (Some [1, 2, 3, 4]) 4 Index
     = Inr (InvalidParameter, example_D3D11)"
  using null_arguments_InvalidParameter
          [of None "Some [1, 2, 3, 4]" GetTexelSize example_D3D11 1 2 Rf16 4 None
              "Some [9, 9, 9, 9]" 4 4 None Index 4 None]
  by simp

text \<open>
  What the amended claim leaves out: \<open>readTexture\<close> on Direct3D 11 checks its source but
  not its destination (lines 160 and 330 differ), so a null destination reaches \<open>memcpy\<close>.
\<close>

lemma readTexture_D3D11_null_destination:
  "readTexture_D3D11 GetTexelSize example_D3D11 None 4 (Some 13) 1 2 Rf16
     = Some (Inl NullDereference)"
  by (simp add: readTexture_D3D11_def example_D3D11_def GetTexelSize_Rf16 D3D11_eval)

text \<open>
  C4, as the claim has it, fails: on Direct3D 9 and on Vulkan a transfer of zero bytes
  is refused like any other.
\<close>

theorem zero_size_counterexample:
  "readBuffer_D3D9 example_D3D9 (Some [9, 9, 9, 9]) (Some 20) 0 Index
     = Inr (NotAvailable, Some [9, 9, 9, 9], example_D3D9)
   \<and> writeBuffer_D3D9 example_D3D9 (Some 20) (Some [1, 2, 3, 4]) 0 Index
     = Inr (NotAvailable, example_D3D9)
   \<and> readBuffer_Vulkan (Some [9, 9, 9, 9]) (Some 20) 0 Index = NotAvailable
   \<and> writeBuffer_Vulkan (Some 20) (Some [1, 2, 3, 4]) 0 Index = NotAvailable"
  by (simp add: readBuffer_D3D9_def writeBuffer_D3D9_def readBuffer_Vulkan_def
        writeBuffer_Vulkan_def)

text \<open>
  C4, amended.  On Direct3D 11, \<open>readBuffer\<close> and \<open>writeBuffer\<close> of size zero return \<open>OK\<close>
  for every \<open>BufferType\<close> and whatever the pointers; the destination and the device
  state, and with it the list of driver calls, are as before.  On Direct3D 9 and on Vulkan
  they return \<open>NotAvailable\<close>, and touch nothing either.
\<close>

theorem zero_size_buffer_transfer:
  "readBuffer_D3D11 st dst src_buf 0 type = Some (Inr (OK, dst, st))
   \<and> writeBuffer_D3D11 st dst_buf src 0 type = Inr (OK, st)
   \<and> readBuffer_D3D9 st9 dst src_buf 0 type = Inr (NotAvailable, dst, st9)
   \<and> writeBuffer_D3D9 st9 dst_buf src 0 type = Inr (NotAvailable, st9)
   \<and> readBuffer_Vulkan dst src_buf 0 type = NotAvailable
   \<and> writeBuffer_Vulkan dst_buf src 0 type = NotAvailable"
  by (simp add: readBuffer_D3D11_def writeBuffer_D3D11_def readBuffer_D3D9_def
        writeBuffer_D3D9_def readBuffer_Vulkan_def writeBuffer_Vulkan_def)

section \<open>Direct3D 11: a failing Map\<close>

text \<open>
  When \<open>Map\<close> fails, \<open>readTexture\<close>, \<open>readBuffer\<close> and \<open>writeBuffer\<close> log the failure and
  return \<open>Unknown\<close>.
\<close>

lemma readTexture_D3D11_Map_fails:
  assumes "texture2ds st t = Some tx"
    and "desc_CPUAccessFlags tx AND D3D11_CPU_ACCESS_READ \<noteq> 0"
    and "Map_result tx = E_FAIL"
    and "m_context st \<noteq> None"
  shows "readTexture_D3D11 gts st dst dst_size (Some t) width height format
           = Some (Inr (Unknown, dst,
               st\<lparr>calls11 := calls11 st @ [D3D11_GetDesc t, D3D11_Map t, D3D11_gdLogError]\<rparr>))"
  using assms
  by (auto simp: readTexture_D3D11_def GetDesc_texture_def proc_read_texture_def Map_texture_def
        called11_def FAILED_def Let_def)

lemma readBuffer_D3D11_Map_fails:
  assumes "buffers st b = Some bx"
    and "buffer_CPUAccessFlags bx AND D3D11_CPU_ACCESS_READ \<noteq> 0"
    and "buffer_Map_result bx = E_FAIL"
    and "m_context st \<noteq> None"
    and "read_size \<noteq> 0"
  shows "readBuffer_D3D11 st (Some d) (Some b) read_size type
           = Some (Inr (Unknown, Some d,
               st\<lparr>calls11 := calls11 st @ [D3D11_GetDesc b, D3D11_Map b, D3D11_gdLogError]\<rparr>))"
  using assms
  by (auto simp: readBuffer_D3D11_def GetDesc_buffer_def proc_read_buffer_def Map_buffer_def
        called11_def FAILED_def Let_def)

lemma writeBuffer_D3D11_Map_fails:
  assumes "buffers st b = Some bx"
    and "buffer_CPUAccessFlags bx AND D3D11_CPU_ACCESS_WRITE \<noteq> 0"
    and "buffer_Map_result bx = E_FAIL"
    and "m_context st \<noteq> None"
    and "write_size \<noteq> 0"
  shows "writeBuffer_D3D11 st (Some b) (Some s) write_size type
           = Inr (Unknown,
               st\<lparr>calls11 := calls11 st @ [D3D11_GetDesc b, D3D11_Map b, D3D11_gdLogError]\<rparr>)"
  using assms
  by (auto simp: writeBuffer_D3D11_def GetDesc_buffer_def Map_buffer_def
        called11_def FAILED_def Let_def)

text \<open>\<open>writeTexture\<close> logs the failure too, and then returns \<open>OK\<close> (line 274).\<close>

lemma writeTexture_D3D11_Map_fails:
  assumes "texture2ds st t = Some tx"
    and "desc_CPUAccessFlags tx AND D3D11_CPU_ACCESS_WRITE \<noteq> 0"
    and "Map_result tx = E_FAIL"
    and "m_context st \<noteq> None"
    and "size_t_of_int (gts format) \<noteq> 0"
  shows "writeTexture_D3D11 gts st (Some t) width height format (Some s) src_size
           = Inr (OK,
               st\<lparr>calls11 := calls11 st @ [D3D11_GetDesc t, D3D11_Map t, D3D11_gdLogError]\<rparr>)"
  using assms
  by (auto simp: writeTexture_D3D11_def GetDesc_texture_def Map_texture_def
        called11_def FAILED_def Let_def)

text \<open>
  C9.  The claim is what the sibling paths do; \<open>writeTexture\<close> does not.  Texture 12 is
  CPU-writable and its \<open>Map\<close> fails: \<open>writeTexture\<close> maps it, logs the failure, and
  returns \<open>OK\<close>.
\<close>

theorem writeTexture_D3D11_Map_fails_returns_OK:
  "map_option Map_result (texture2ds example_D3D11 12) = Some E_FAIL
   \<and> writeTexture_D3D11 GetTexelSize example_D3D11 (Some 12) 1 2 Rf16 (Some [1, 2, 3, 4]) 4
       = Inr (OK, example_D3D11\<lparr>calls11 := [D3D11_GetDesc 12, D3D11_Map 12, D3D11_gdLogError]\<rparr>)"
  by (simp add: writeTexture_D3D11_def example_D3D11_def GetTexelSize_Rf16 D3D11_eval)

section \<open>The staging-texture cache is bounded\<close>

lemma foldl_Release_staging_calls:
  "calls (foldl Release_staging st hs) = calls st @ map D3D9_Release hs"
  by (induction hs arbitrary: st) (simp_all add: Release_staging_def called_def)

lemma foldl_Release_staging_surfaces:
  "surfaces (foldl Release_staging st hs) h = (if h \<in> set hs then None else surfaces st h)"
  by (induction hs arbitrary: st) (simp_all add: Release_staging_def called_def)

lemma foldl_Release_staging_frame:
  "D3D9.m_device (foldl Release_staging st hs) = D3D9.m_device st"
  "next_handle (foldl Release_staging st hs) = next_handle st"
  "new_Pitch (foldl Release_staging st hs) = new_Pitch st"
  "CreateOffscreenPlainSurface_result (foldl Release_staging st hs)
     = CreateOffscreenPlainSurface_result st"
  by (induction hs arbitrary: st) (simp_all add: Release_staging_def called_def)

lemma clearStagingTextures_D3D9_simps:
  "calls (clearStagingTextures_D3D9 st)
     = calls st @ map D3D9_Release (map snd (D3D9.m_staging_textures st))"
  "surfaces (clearStagingTextures_D3D9 st) h
     = (if h \<in> snd ` set (D3D9.m_staging_textures st) then None else surfaces st h)"
  "D3D9.m_staging_textures (clearStagingTextures_D3D9 st) = []"
  "D3D9.m_device (clearStagingTextures_D3D9 st) = D3D9.m_device st"
  "next_handle (clearStagingTextures_D3D9 st) = next_handle st"
  "CreateOffscreenPlainSurface_result (clearStagingTextures_D3D9 st)
     = CreateOffscreenPlainSurface_result st"
  by (simp_all add: clearStagingTextures_D3D9_def foldl_Release_staging_calls
        foldl_Release_staging_surfaces foldl_Release_staging_frame)

lemma foldl_Release_texture_calls:
  "calls11 (foldl Release_texture st hs) = calls11 st @ map D3D11_Release hs"
  by (induction hs arbitrary: st) (simp_all add: Release_texture_def called11_def)

lemma foldl_Release_texture_texture2ds:
  "texture2ds (foldl Release_texture st hs) h = (if h \<in> set hs then None else texture2ds st h)"
  by (induction hs arbitrary: st) (simp_all add: Release_texture_def called11_def)

lemma foldl_Release_texture_frame:
  "D3D11.m_device (foldl Release_texture st hs) = D3D11.m_device st"
  "m_context (foldl Release_texture st hs) = m_context st"
  "fresh_handle (foldl Release_texture st hs) = fresh_handle st"
  "new_RowPitch (foldl Release_texture st hs) = new_RowPitch st"
  "CreateTexture2D_result (foldl Release_texture st hs) = CreateTexture2D_result st"
  "pending (foldl Release_texture st hs) = pending st"
  by (induction hs arbitrary: st) (simp_all add: Release_texture_def called11_def)

lemma clearStagingTextures_D3D11_simps:
  "calls11 (clearStagingTextures_D3D11 st)
     = calls11 st @ map D3D11_Release (map snd (D3D11.m_staging_textures st))"
  "texture2ds (clearStagingTextures_D3D11 st) h
     = (if h \<in> snd ` set (D3D11.m_staging_textures st) then None else texture2ds st h)"
  "D3D11.m_staging_textures (clearStagingTextures_D3D11 st) = []"
  "D3D11.m_device (clearStagingTextures_D3D11 st) = D3D11.m_device st"
  "m_context (clearStagingTextures_D3D11 st) = m_context st"
  "fresh_handle (clearStagingTextures_D3D11 st) = fresh_handle st"
  "CreateTexture2D_result (clearStagingTextures_D3D11 st) = CreateTexture2D_result st"
  "pending (clearStagingTextures_D3D11 st) = pending st"
  by (simp_all add: clearStagingTextures_D3D11_def foldl_Release_texture_calls
        foldl_Release_texture_texture2ds foldl_Release_texture_frame)

text \<open>With a device at hand both lookups return.\<close>

lemma findOrCreateStagingTexture_returns:
  "D3D9.m_device st \<noteq> None \<Longrightarrow> \<exists>r st'. findOrCreateStagingTexture st width height format = Inr (r, st')"
  by (auto simp: findOrCreateStagingTexture_def CreateOffscreenPlainSurface_def Let_def
        clearStagingTextures_D3D9_simps split: option.splits)

lemma getStagingTexture_returns:
  "D3D11.m_device st \<noteq> None \<Longrightarrow> \<exists>r st'. getStagingTexture st width height format = Inr (r, st')"
  by (auto simp: getStagingTexture_def CreateTexture2D_def Let_def
        clearStagingTextures_D3D11_simps split: option.splits)

text \<open>
  C5.  A call of \<open>findOrCreateStagingTexture\<close> (Direct3D 9) or \<open>getStagingTexture\<close>
  (Direct3D 11) that returns leaves at most 32 entries in a cache that had at most 32.  When
  the cache holds 32 entries or more on entry, the first driver calls of the function are
  one \<open>Release\<close> for every cached texture, in the order of the map; every one of them is gone
  from the driver's store (unless the driver hands its handle out again at once); the lookup
  that follows finds nothing, so the only call after the releases is the creation of the
  requested texture (on Direct3D 9 no call at all for a format without internal format); and
  the cache ends up holding the new entry alone, or nothing when the creation failed.
\<close>

theorem staging_texture_cache_bound:
  "(findOrCreateStagingTexture st9 width height format = Inr (r9, st9') \<longrightarrow>
      (length (D3D9.m_staging_textures st9) \<le> 32 \<longrightarrow> length (D3D9.m_staging_textures st9') \<le> 32)
      \<and> (32 \<le> length (D3D9.m_staging_textures st9) \<longrightarrow>
           calls st9' = calls st9 @ map D3D9_Release (map snd (D3D9.m_staging_textures st9))
             @ (if GetInternalFormatD3D9 format = D3DFMT_UNKNOWN then []
                else [D3D9_CreateOffscreenPlainSurface (UINT width) (UINT height)
                        (GetInternalFormatD3D9 format)])
           \<and> (\<forall>h \<in> snd ` set (D3D9.m_staging_textures st9). Some h \<noteq> r9 \<longrightarrow> surfaces st9' h = None)
           \<and> D3D9.m_staging_textures st9' =
               (case r9 of
                  None \<Rightarrow> []
                | Some h \<Rightarrow> [(staging_hash width height
                                (D3DFORMAT_value (GetInternalFormatD3D9 format)), h)])))
   \<and> (getStagingTexture st11 width height format = Inr (r11, st11') \<longrightarrow>
      (length (D3D11.m_staging_textures st11) \<le> 32 \<longrightarrow> length (D3D11.m_staging_textures st11') \<le> 32)
      \<and> (32 \<le> length (D3D11.m_staging_textures st11) \<longrightarrow>
           calls11 st11' = calls11 st11 @ map D3D11_Release (map snd (D3D11.m_staging_textures st11))
             @ [D3D11_CreateTexture2D (UINT width) (UINT height) (GetInternalFormatD3D11 format)]
           \<and> (\<forall>h \<in> snd ` set (D3D11.m_staging_textures st11). Some h \<noteq> r11 \<longrightarrow> texture2ds st11' h = None)
           \<and> D3D11.m_staging_textures st11' =
               (case r11 of
                  None \<Rightarrow> []
                | Some h \<Rightarrow> [(staging_hash width height
                                (DXGI_FORMAT_value (GetInternalFormatD3D11 format)), h)])))"
proof (intro conjI impI)
  assume run: "findOrCreateStagingTexture st9 width height format = Inr (r9, st9')"
  {
    assume "length (D3D9.m_staging_textures st9) \<le> 32"
    with run show "length (D3D9.m_staging_textures st9') \<le> 32"
      by (auto simp: findOrCreateStagingTexture_def D3D9MaxStagingTextures_def
            clearStagingTextures_D3D9_simps CreateOffscreenPlainSurface_def called_def Let_def
          split: if_splits option.splits sum.splits prod.splits)
  }
  assume full: "32 \<le> length (D3D9.m_staging_textures st9)"
  from run full show
    "calls st9' = calls st9 @ map D3D9_Release (map snd (D3D9.m_staging_textures st9))
       @ (if GetInternalFormatD3D9 format = D3DFMT_UNKNOWN then []
          else [D3D9_CreateOffscreenPlainSurface (UINT width) (UINT height)
                  (GetInternalFormatD3D9 format)])"
    by (auto simp: findOrCreateStagingTexture_def D3D9MaxStagingTextures_def
          clearStagingTextures_D3D9_simps CreateOffscreenPlainSurface_def called_def Let_def
        split: if_splits option.splits sum.splits prod.splits)
  from run full show
    "\<forall>h \<in> snd ` set (D3D9.m_staging_textures st9). Some h \<noteq> r9 \<longrightarrow> surfaces st9' h = None"
    by (auto simp: findOrCreateStagingTexture_def D3D9MaxStagingTextures_def
          clearStagingTextures_D3D9_simps CreateOffscreenPlainSurface_def called_def Let_def
        split: if_splits option.splits sum.splits prod.splits; force)
  from run full show
    "D3D9.m_staging_textures st9' =
       (case r9 of
          None \<Rightarrow> []
        | Some h \<Rightarrow> [(staging_hash width height (D3DFORMAT_value (GetInternalFormatD3D9 format)), h)])"
    by (auto simp: findOrCreateStagingTexture_def D3D9MaxStagingTextures_def
          clearStagingTextures_D3D9_simps CreateOffscreenPlainSurface_def called_def Let_def
          SUCCEEDED_def FAILED_def
        split: if_splits option.splits sum.splits prod.splits)
next
  assume run: "getStagingTexture st11 width height format = Inr (r11, st11')"
  {
    assume "length (D3D11.m_staging_textures st11) \<le> 32"
    with run show "length (D3D11.m_staging_textures st11') \<le> 32"
      by (auto simp: getStagingTexture_def D3D11MaxStagingTextures_def
            clearStagingTextures_D3D11_simps CreateTexture2D_def called11_def Let_def
          split: if_splits option.splits sum.splits prod.splits)
  }
  assume full: "32 \<le> length (D3D11.m_staging_textures st11)"
  from run full show
    "calls11 st11' = calls11 st11 @ map D3D11_Release (map snd (D3D11.m_staging_textures st11))
       @ [D3D11_CreateTexture2D (UINT width) (UINT height) (GetInternalFormatD3D11 format)]"
    by (auto simp: getStagingTexture_def D3D11MaxStagingTextures_def
          clearStagingTextures_D3D11_simps CreateTexture2D_def called11_def Let_def
        split: if_splits option.splits sum.splits prod.splits)
  from run full show
    "\<forall>h \<in> snd ` set (D3D11.m_staging_textures st11). Some h \<noteq> r11 \<longrightarrow> texture2ds st11' h = None"
    by (auto simp: getStagingTexture_def D3D11MaxStagingTextures_def
          clearStagingTextures_D3D11_simps CreateTexture2D_def called11_def Let_def
        split: if_splits option.splits sum.splits prod.splits; force)
  from run full show
    "D3D11.m_staging_textures st11' =
       (case r11 of
          None \<Rightarrow> []
        | Some h \<Rightarrow> [(staging_hash width height (DXGI_FORMAT_value (GetInternalFormatD3D11 format)), h)])"
    by (auto simp: getStagingTexture_def D3D11MaxStagingTextures_def
          clearStagingTextures_D3D11_simps CreateTexture2D_def called11_def Let_def
          SUCCEEDED_def FAILED_def
        split: if_splits option.splits sum.splits prod.splits)
qed

text \<open>
  After 32 requests for 32 different widths the cache holds the 32 textures made for them.
\<close>

lemma full_D3D9_cache:
  "map snd (D3D9.m_staging_textures full_D3D9) = [100..<132] \<and> D3D9.m_device full_D3D9 = Some 0"
  by (simp add: full_D3D9_def example_D3D9_def upt_rec findOrCreateStagingTexture_def
        D3D9MaxStagingTextures_def GetInternalFormatD3D9_RGBAu8 staging_hash_def
        CreateOffscreenPlainSurface_def called_def Let_def SUCCEEDED_def FAILED_def UINT_def)

lemma full_D3D11_cache:
  "map snd (D3D11.m_staging_textures full_D3D11) = [100..<132] \<and> D3D11.m_device full_D3D11 = Some 0"
  by (simp add: full_D3D11_def example_D3D11_def upt_rec getStagingTexture_def
        D3D11MaxStagingTextures_def GetInternalFormatD3D11_RGBAu8 staging_hash_def
        CreateTexture2D_def called11_def Let_def SUCCEEDED_def FAILED_def UINT_def)

text \<open>
  The 33rd different request, on either back end: the 32 cached textures are released, the
  requested one is created, and the cache is within its bound.
\<close>

theorem staging_texture_cache_bound_witness:
  "\<exists>r9 st9' r11 st11'.
     length (D3D9.m_staging_textures full_D3D9) = 32
     \<and> findOrCreateStagingTexture full_D3D9 33 1 RGBAu8 = Inr (r9, st9')
     \<and> length (D3D9.m_staging_textures st9') \<le> 32
     \<and> calls st9' = calls full_D3D9 @ map D3D9_Release [100..<132]
                      @ [D3D9_CreateOffscreenPlainSurface 33 1 D3DFMT_A8R8G8B8]
     \<and> length (D3D11.m_staging_textures full_D3D11) = 32
     \<and> getStagingTexture full_D3D11 33 1 RGBAu8 = Inr (r11, st11')
     \<and> length (D3D11.m_staging_textures st11') \<le> 32
     \<and> calls11 st11' = calls11 full_D3D11 @ map D3D11_Release [100..<132]
                      @ [D3D11_CreateTexture2D 33 1 DXGI_FORMAT_R8G8B8A8_TYPELESS]"
proof -
  have len9: "length (D3D9.m_staging_textures full_D3D9) = 32"
    using arg_cong [OF conjunct1 [OF full_D3D9_cache], of length] by simp
  have len11: "length (D3D11.m_staging_textures full_D3D11) = 32"
    using arg_cong [OF conjunct1 [OF full_D3D11_cache], of length] by simp
  obtain r9 st9' where run9: "findOrCreateStagingTexture full_D3D9 33 1 RGBAu8 = Inr (r9, st9')"
    using findOrCreateStagingTexture_returns [of full_D3D9 33 1 RGBAu8] full_D3D9_cache by auto
  obtain r11 st11' where run11: "getStagingTexture full_D3D11 33 1 RGBAu8 = Inr (r11, st11')"
    using getStagingTexture_returns [of full_D3D11 33 1 RGBAu8] full_D3D11_cache by auto
  have u: "UINT 33 = 33" "UINT 1 = 1"
    by (simp_all add: UINT_def)
  have fmt: "GetInternalFormatD3D9 RGBAu8 \<noteq> D3DFMT_UNKNOWN"
    by (simp add: GetInternalFormatD3D9_RGBAu8)
  note bound = staging_texture_cache_bound
                 [of full_D3D9 33 1 RGBAu8 r9 st9' full_D3D11 r11 st11']
  have "length (D3D9.m_staging_textures st9') \<le> 32"
    using bound run9 len9 by (simp split: option.splits)
  moreover have "calls st9' = calls full_D3D9 @ map D3D9_Release [100..<132]
                      @ [D3D9_CreateOffscreenPlainSurface 33 1 D3DFMT_A8R8G8B8]"
    using bound run9 len9 fmt conjunct1 [OF full_D3D9_cache]
    by (simp add: GetInternalFormatD3D9_RGBAu8 u del: upt_rec_numeral)
  moreover have "length (D3D11.m_staging_textures st11') \<le> 32"
    using bound run11 len11 by (simp split: option.splits)
  moreover have "calls11 st11' = calls11 full_D3D11 @ map D3D11_Release [100..<132]
                      @ [D3D11_CreateTexture2D 33 1 DXGI_FORMAT_R8G8B8A8_TYPELESS]"
    using bound run11 len11 conjunct1 [OF full_D3D11_cache]
    by (simp add: GetInternalFormatD3D11_RGBAu8 u del: upt_rec_numeral)
  ultimately show ?thesis
    using run9 run11 len9 len11 by blast
qed

section \<open>The staging-texture key\<close>

text \<open>
  The low 32 bits of the key are \<open>width + (height << 16)\<close>; the format sits above them.
\<close>

lemma staging_hash_as_int:
  "staging_hash w h f =
     word_of_int (sint ((word_of_int w :: 32 word) + push_bit 16 (word_of_int h :: 32 word)) + uint f * 2 ^ 32)"
  unfolding staging_hash_def scast_eq push_bit_eq_mult
  by simp

lemma staging_hash_low:
  "(ucast (staging_hash w h f) :: 32 word) = word_of_int w + push_bit 16 (word_of_int h)"
proof -
  let ?x = "(word_of_int w :: 32 word) + push_bit 16 (word_of_int h :: 32 word)"
  let ?k = "sint ?x + uint f * 2 ^ 32"
  have "(ucast (word_of_int ?k :: 64 word) :: 32 word) = word_of_int ?k"
    by (rule ucast_down_wi) (simp add: is_down)
  also have "(word_of_int ?k :: 32 word) = ?x"
  proof -
    have "(2 ^ 32 :: 32 word) = 0"
      by simp
    then have z: "(4294967296 :: 32 word) = 0"
      by simp
    show ?thesis
      by (simp add: z)
  qed
  finally show ?thesis
    by (simp only: staging_hash_as_int)
qed

lemma packed_dimensions_inj:
  fixes w h w' h' :: int
  assumes "0 \<le> w" "w < 65536" "0 \<le> w'" "w' < 65536"
    and eq: "w + 65536 * h = w' + 65536 * h'"
  shows "w = w' \<and> h = h'"
proof -
  have "(w + 65536 * h) mod 65536 = w"
    using assms(1,2) by simp
  moreover have "(w' + 65536 * h') mod 65536 = w'"
    using assms(3,4) by simp
  ultimately have "w = w'"
    using eq by simp
  with eq show ?thesis
    by simp
qed

lemma staging_hash_low_inj:
  assumes "0 \<le> w" "w < 65536" "0 \<le> h" "h < 65536" "0 \<le> w'" "w' < 65536" "0 \<le> h'" "h' < 65536"
    and eq: "(word_of_int w + push_bit 16 (word_of_int h) :: 32 word)
               = word_of_int w' + push_bit 16 (word_of_int h')"
  shows "w = w' \<and> h = h'"
proof -
  have a: "(word_of_int w + push_bit 16 (word_of_int h) :: 32 word) = word_of_int (w + 65536 * h)" for w h
    by (simp add: push_bit_eq_mult)
  from eq have "(word_of_int (w + 65536 * h) :: 32 word) = word_of_int (w' + 65536 * h')"
    by (simp only: a)
  moreover have "0 \<le> w + 65536 * h \<and> w + 65536 * h < 2 ^ LENGTH(32)"
    using assms(1-4) by simp
  moreover have "0 \<le> w' + 65536 * h' \<and> w' + 65536 * h' < 2 ^ LENGTH(32)"
    using assms(5-8) by simp
  ultimately have "w + 65536 * h = w' + 65536 * h'"
    by (simp only: word_of_int_inj)
  then show ?thesis
    using assms(1,2,5,6) by (intro packed_dimensions_inj)
qed

lemma staging_hash_inj:
  assumes "0 \<le> w" "w < 65536" "0 \<le> h" "h < 65536" "0 \<le> w'" "w' < 65536" "0 \<le> h'" "h' < 65536"
    and eq: "staging_hash w h f = staging_hash w' h' f'"
  shows "w = w' \<and> h = h' \<and> push_bit 32 f = push_bit 32 f'"
proof -
  from eq have "(ucast (staging_hash w h f) :: 32 word) = ucast (staging_hash w' h' f')"
    by simp
  then have "(word_of_int w + push_bit 16 (word_of_int h) :: 32 word)
               = word_of_int w' + push_bit 16 (word_of_int h')"
    by (simp only: staging_hash_low)
  then have wh: "w = w' \<and> h = h'"
    using assms(1-8) by (intro staging_hash_low_inj)
  with eq show ?thesis
    by (simp add: staging_hash_def)
qed

lemma DXGI_FORMAT_value_inj:
  "push_bit 32 (DXGI_FORMAT_value f) = push_bit 32 (DXGI_FORMAT_value f') \<Longrightarrow> f = f'"
  by (cases f; cases f'; simp)

lemma D3DFORMAT_value_inj:
  "push_bit 32 (D3DFORMAT_value f) = push_bit 32 (D3DFORMAT_value f') \<Longrightarrow> f = f'"
  by (cases f; cases f'; simp)

lemma UINT_nat: "0 \<le> w \<Longrightarrow> w < 65536 \<Longrightarrow> UINT w = nat w"
  by (simp add: UINT_def unat_eq_nat_uint uint_word_of_int take_bit_int_eq_self)



text \<open>
  The lookups keep the cache well formed, and what they return was made for the request.
\<close>

lemma staging_cache_ok_D3D11_clear: "staging_cache_ok_D3D11 (clearStagingTextures_D3D11 st)"
  by (simp add: staging_cache_ok_D3D11_def clearStagingTextures_D3D11_simps)

lemma CreateTexture2D_Some:
  assumes "CreateTexture2D st width height format = Inr (hr, Some r, st2)"
  shows "SUCCEEDED hr" and "r = fresh_handle st" and "fresh_handle st2 = Suc r"
    and "D3D11.m_staging_textures st2 = D3D11.m_staging_textures st"
    and "texture2ds st2 = (texture2ds st)(r \<mapsto>
           \<lparr>desc_Width = width, desc_Height = height, desc_Format = format,
            desc_CPUAccessFlags = D3D11_CPU_ACCESS_READ OR D3D11_CPU_ACCESS_WRITE,
            RowPitch = new_RowPitch st (width * DXGI_FORMAT_bytes format),
            pData = replicate (new_RowPitch st (width * DXGI_FORMAT_bytes format) * height) 0,
            Map_result = S_OK\<rparr>)"
  using assms
  by (auto simp: CreateTexture2D_def called11_def Let_def SUCCEEDED_def FAILED_def
           split: option.splits if_splits)

lemma getStagingTexture_hit_matches:
  assumes ok: "staging_cache_ok_D3D11 st"
    and range: "0 \<le> w" "w < 65536" "0 \<le> h" "h < 65536"
    and run: "getStagingTexture st w h format = Inr (Some r, st')"
  shows "(\<exists>t. texture2ds st' r = Some t \<and> desc_Width t = nat w \<and> desc_Height t = nat h
              \<and> desc_Format t = GetInternalFormatD3D11 format)
         \<and> staging_cache_ok_D3D11 st'"
proof -
  define st1 where "st1 = (if length (D3D11.m_staging_textures st) \<ge> D3D11MaxStagingTextures
                 then clearStagingTextures_D3D11 st else st)"
  define key where "key = staging_hash w h (DXGI_FORMAT_value (GetInternalFormatD3D11 format))"
  have ok1: "staging_cache_ok_D3D11 st1"
    using ok by (simp add: st1_def staging_cache_ok_D3D11_clear)
  show ?thesis
  proof (cases "map_of (D3D11.m_staging_textures st1) key")
    case (Some it)
    with run have r: "r = it" and st': "st' = st1"
      by (simp_all add: getStagingTexture_def Let_def flip: st1_def key_def)
    from Some have "(key, r) \<in> set (D3D11.m_staging_textures st1)"
      unfolding r by (rule map_of_SomeD)
    with ok1 have "staging_entry_ok_D3D11 st1 (key, r)"
      by (simp add: staging_cache_ok_D3D11_def list_all_iff)
    then obtain t where t: "texture2ds st1 r = Some t"
      and small: "desc_Width t < 65536" "desc_Height t < 65536"
      and k: "key = staging_hash (int (desc_Width t)) (int (desc_Height t))
                      (DXGI_FORMAT_value (desc_Format t))"
      by (auto simp: staging_entry_ok_D3D11_def split: option.splits)
    have "w = int (desc_Width t) \<and> h = int (desc_Height t)
          \<and> push_bit 32 (DXGI_FORMAT_value (GetInternalFormatD3D11 format))
              = push_bit 32 (DXGI_FORMAT_value (desc_Format t))"
      using range small k [unfolded key_def]
      by (intro staging_hash_inj) simp_all
    then have "desc_Width t = nat w \<and> desc_Height t = nat h
               \<and> desc_Format t = GetInternalFormatD3D11 format"
      by (auto dest: DXGI_FORMAT_value_inj)
    with t ok1 show ?thesis
      by (simp add: st')
  next
    case None
    with run obtain hr st2 where
      create: "CreateTexture2D st1 (UINT w) (UINT h) (GetInternalFormatD3D11 format) = Inr (hr, Some r, st2)"
      and st'_cases: "st' = (if SUCCEEDED hr
                       then st2\<lparr>D3D11.m_staging_textures := insort_key fst (key, r) (D3D11.m_staging_textures st2)\<rparr>
                       else st2)"
      by (auto simp: getStagingTexture_def Let_def simp flip: st1_def key_def
               split: sum.splits option.splits prod.splits if_splits)
    note r = CreateTexture2D_Some(2) [OF create]
    note fresh = CreateTexture2D_Some(3) [OF create]
    note cache = CreateTexture2D_Some(4) [OF create]
    note tex = CreateTexture2D_Some(5) [OF create]
    have st': "st' = st2\<lparr>D3D11.m_staging_textures := insort_key fst (key, r) (D3D11.m_staging_textures st2)\<rparr>"
      using st'_cases CreateTexture2D_Some(1) [OF create] by simp
    have old: "staging_entry_ok_D3D11 st' e" if "e \<in> set (D3D11.m_staging_textures st1)" for e
    proof -
      from ok1 that have "staging_entry_ok_D3D11 st1 e"
        by (simp add: staging_cache_ok_D3D11_def list_all_iff)
      then show ?thesis
        by (auto simp: staging_entry_ok_D3D11_def st' tex fresh r split: option.splits)
    qed
    have small: "nat w < 65536" "nat h < 65536"
      using range by linarith+
    have new: "staging_entry_ok_D3D11 st' (key, r)"
      using range small by (simp add: staging_entry_ok_D3D11_def st' tex fresh UINT_nat key_def)
    have "staging_cache_ok_D3D11 st'"
      using old new by (auto simp: staging_cache_ok_D3D11_def list_all_iff st' cache set_insort_key)
    moreover have "\<exists>t. texture2ds st' r = Some t \<and> desc_Width t = nat w \<and> desc_Height t = nat h
              \<and> desc_Format t = GetInternalFormatD3D11 format"
      using range by (simp add: st' tex UINT_nat)
    ultimately show ?thesis
      by simp
  qed
qed


lemma staging_cache_ok_D3D9_clear: "staging_cache_ok_D3D9 (clearStagingTextures_D3D9 st)"
  by (simp add: staging_cache_ok_D3D9_def clearStagingTextures_D3D9_simps)

lemma CreateOffscreenPlainSurface_Some:
  assumes "CreateOffscreenPlainSurface st width height format = Inr (hr, Some r, st2)"
  shows "SUCCEEDED hr" and "r = next_handle st" and "next_handle st2 = Suc r"
    and "D3D9.m_staging_textures st2 = D3D9.m_staging_textures st"
    and "surfaces st2 = (surfaces st)(r \<mapsto>
           \<lparr>Width = UINT width, Height = UINT height, Format = format,
            Pitch = new_Pitch st (UINT width * D3DFORMAT_bytes format),
            pBits = replicate (nat (new_Pitch st (UINT width * D3DFORMAT_bytes format)) * UINT height) 0,
            LockRect_result = S_OK\<rparr>)"
  using assms
  by (auto simp: CreateOffscreenPlainSurface_def called_def Let_def SUCCEEDED_def FAILED_def
           split: option.splits if_splits)

lemma findOrCreateStagingTexture_hit_matches:
  assumes ok: "staging_cache_ok_D3D9 st"
    and range: "0 \<le> w" "w < 65536" "0 \<le> h" "h < 65536"
    and run: "findOrCreateStagingTexture st w h format = Inr (Some r, st')"
  shows "(\<exists>s. surfaces st' r = Some s \<and> Width s = nat w \<and> Height s = nat h
              \<and> Format s = GetInternalFormatD3D9 format)
         \<and> staging_cache_ok_D3D9 st'"
proof -
  define st1 where "st1 = (if length (D3D9.m_staging_textures st) \<ge> D3D9MaxStagingTextures
                 then clearStagingTextures_D3D9 st else st)"
  define key where "key = staging_hash w h (D3DFORMAT_value (GetInternalFormatD3D9 format))"
  have ok1: "staging_cache_ok_D3D9 st1"
    using ok by (simp add: st1_def staging_cache_ok_D3D9_clear)
  from run have known: "GetInternalFormatD3D9 format \<noteq> D3DFMT_UNKNOWN"
    by (auto simp: findOrCreateStagingTexture_def Let_def)
  show ?thesis
  proof (cases "map_of (D3D9.m_staging_textures st1) key")
    case (Some it)
    with run known have r: "r = it" and st': "st' = st1"
      by (simp_all add: findOrCreateStagingTexture_def Let_def flip: st1_def key_def)
    from Some have "(key, r) \<in> set (D3D9.m_staging_textures st1)"
      unfolding r by (rule map_of_SomeD)
    with ok1 have "staging_entry_ok_D3D9 st1 (key, r)"
      by (simp add: staging_cache_ok_D3D9_def list_all_iff)
    then obtain s where s: "surfaces st1 r = Some s"
      and small: "Width s < 65536" "Height s < 65536"
      and k: "key = staging_hash (int (Width s)) (int (Height s)) (D3DFORMAT_value (Format s))"
      by (auto simp: staging_entry_ok_D3D9_def split: option.splits)
    have "w = int (Width s) \<and> h = int (Height s)
          \<and> push_bit 32 (D3DFORMAT_value (GetInternalFormatD3D9 format))
              = push_bit 32 (D3DFORMAT_value (Format s))"
      using range small k [unfolded key_def]
      by (intro staging_hash_inj) simp_all
    then have "Width s = nat w \<and> Height s = nat h \<and> Format s = GetInternalFormatD3D9 format"
      by (auto dest: D3DFORMAT_value_inj)
    with s ok1 show ?thesis
      by (simp add: st')
  next
    case None
    with run known obtain hr st2 where
      create: "CreateOffscreenPlainSurface st1 w h (GetInternalFormatD3D9 format) = Inr (hr, Some r, st2)"
      and st'_cases: "st' = (if SUCCEEDED hr
                       then st2\<lparr>D3D9.m_staging_textures := insort_key fst (key, r) (D3D9.m_staging_textures st2)\<rparr>
                       else st2)"
      by (auto simp: findOrCreateStagingTexture_def Let_def simp flip: st1_def key_def
               split: sum.splits option.splits prod.splits if_splits)
    note r = CreateOffscreenPlainSurface_Some(2) [OF create]
    note fresh = CreateOffscreenPlainSurface_Some(3) [OF create]
    note cache = CreateOffscreenPlainSurface_Some(4) [OF create]
    note tex = CreateOffscreenPlainSurface_Some(5) [OF create]
    have st': "st' = st2\<lparr>D3D9.m_staging_textures := insort_key fst (key, r) (D3D9.m_staging_textures st2)\<rparr>"
      using st'_cases CreateOffscreenPlainSurface_Some(1) [OF create] by simp
    have old: "staging_entry_ok_D3D9 st' e" if "e \<in> set (D3D9.m_staging_textures st1)" for e
    proof -
      from ok1 that have "staging_entry_ok_D3D9 st1 e"
        by (simp add: staging_cache_ok_D3D9_def list_all_iff)
      then show ?thesis
        by (auto simp: staging_entry_ok_D3D9_def st' tex fresh r split: option.splits)
    qed
    have small: "nat w < 65536" "nat h < 65536"
      using range by linarith+
    have new: "staging_entry_ok_D3D9 st' (key, r)"
      using range small by (simp add: staging_entry_ok_D3D9_def st' tex fresh UINT_nat key_def)
    have "staging_cache_ok_D3D9 st'"
      using old new by (auto simp: staging_cache_ok_D3D9_def list_all_iff st' cache set_insort_key)
    moreover have "\<exists>s. surfaces st' r = Some s \<and> Width s = nat w \<and> Height s = nat h
              \<and> Format s = GetInternalFormatD3D9 format"
      using range by (simp add: st' tex UINT_nat)
    ultimately show ?thesis
      by simp
  qed
qed

lemma cached_runs:
  "getStagingTexture example_D3D11 1 2 RGBAu8 = Inr (Some 100, cached_D3D11)"
  "getStagingTexture cached_D3D11 1 2 RGBAu8 = Inr (Some 100, cached_D3D11)"
  "getStagingTexture cached_D3D11 65537 1 RGBAu8 = Inr (Some 100, cached_D3D11)"
  "map_option desc_Width (texture2ds cached_D3D11 100) = Some 1"
  "map_option desc_Height (texture2ds cached_D3D11 100) = Some 2"
  "findOrCreateStagingTexture example_D3D9 1 2 RGBAu8 = Inr (Some 100, cached_D3D9)"
  "findOrCreateStagingTexture cached_D3D9 1 2 RGBAu8 = Inr (Some 100, cached_D3D9)"
  "findOrCreateStagingTexture cached_D3D9 65537 1 RGBAu8 = Inr (Some 100, cached_D3D9)"
  "map_option Width (surfaces cached_D3D9 100) = Some 1"
  "map_option Height (surfaces cached_D3D9 100) = Some 2"
  by (simp_all add: cached_D3D11_def cached_D3D9_def example_D3D11_def example_D3D9_def
        getStagingTexture_def findOrCreateStagingTexture_def D3D11MaxStagingTextures_def
        D3D9MaxStagingTextures_def GetInternalFormatD3D11_RGBAu8 GetInternalFormatD3D9_RGBAu8
        CreateTexture2D_def CreateOffscreenPlainSurface_def called11_def called_def
        SUCCEEDED_def FAILED_def UINT_def staging_hash_def Let_def)

text \<open>
  C6, as the claim has it, fails: the key packs the width into 16 bits, so the requests
  (65537, 1) and (1, 2) for the same format share a key.  After a request for a staging
  texture 1 wide and 2 high, a request for one 65537 wide and 1 high is a cache hit on either
  back end, and is served the texture that is 1 wide and 2 high.
\<close>

theorem staging_hash_counterexample:
  "staging_hash 65537 1 (DXGI_FORMAT_value DXGI_FORMAT_R8G8B8A8_TYPELESS)
     = staging_hash 1 2 (DXGI_FORMAT_value DXGI_FORMAT_R8G8B8A8_TYPELESS)
   \<and> getStagingTexture example_D3D11 1 2 RGBAu8 = Inr (Some 100, cached_D3D11)
   \<and> getStagingTexture cached_D3D11 65537 1 RGBAu8 = Inr (Some 100, cached_D3D11)
   \<and> map_option desc_Width (texture2ds cached_D3D11 100) = Some 1
   \<and> map_option desc_Height (texture2ds cached_D3D11 100) = Some 2
   \<and> findOrCreateStagingTexture example_D3D9 1 2 RGBAu8 = Inr (Some 100, cached_D3D9)
   \<and> findOrCreateStagingTexture cached_D3D9 65537 1 RGBAu8 = Inr (Some 100, cached_D3D9)
   \<and> map_option Width (surfaces cached_D3D9 100) = Some 1
   \<and> map_option Height (surfaces cached_D3D9 100) = Some 2"
  using cached_runs by (simp add: staging_hash_def)

text \<open>
  C6, amended.  On widths and heights from 0 to 65535 the key is injective: two requests
  with the same key have the same width, height and back-end format.  And when every entry
  of the cache was made for such a request, a lookup for such a request that returns a
  texture, found or freshly made, returns one of exactly the requested width, height and
  back-end format, and leaves the cache well formed.
\<close>

theorem staging_texture_hit_matches:
  "(0 \<le> w \<and> w < 65536 \<and> 0 \<le> h \<and> h < 65536 \<and> 0 \<le> w' \<and> w' < 65536 \<and> 0 \<le> h' \<and> h' < 65536 \<longrightarrow>
      (staging_hash w h (DXGI_FORMAT_value f11) = staging_hash w' h' (DXGI_FORMAT_value f11')
         \<longrightarrow> w = w' \<and> h = h' \<and> f11 = f11')
      \<and> (staging_hash w h (D3DFORMAT_value f9) = staging_hash w' h' (D3DFORMAT_value f9')
         \<longrightarrow> w = w' \<and> h = h' \<and> f9 = f9'))
   \<and> (staging_cache_ok_D3D11 st11 \<and> 0 \<le> w \<and> w < 65536 \<and> 0 \<le> h \<and> h < 65536
        \<and> getStagingTexture st11 w h format = Inr (Some r11, st11') \<longrightarrow>
      (\<exists>t. texture2ds st11' r11 = Some t \<and> desc_Width t = nat w \<and> desc_Height t = nat h
            \<and> desc_Format t = GetInternalFormatD3D11 format)
      \<and> staging_cache_ok_D3D11 st11')
   \<and> (staging_cache_ok_D3D9 st9 \<and> 0 \<le> w \<and> w < 65536 \<and> 0 \<le> h \<and> h < 65536
        \<and> findOrCreateStagingTexture st9 w h format = Inr (Some r9, st9') \<longrightarrow>
      (\<exists>s. surfaces st9' r9 = Some s \<and> Width s = nat w \<and> Height s = nat h
            \<and> Format s = GetInternalFormatD3D9 format)
      \<and> staging_cache_ok_D3D9 st9')"
proof (intro conjI impI)
  assume range: "0 \<le> w \<and> w < 65536 \<and> 0 \<le> h \<and> h < 65536 \<and> 0 \<le> w' \<and> w' < 65536 \<and> 0 \<le> h' \<and> h' < 65536"
  {
    assume "staging_hash w h (DXGI_FORMAT_value f11) = staging_hash w' h' (DXGI_FORMAT_value f11')"
    with range have "w = w' \<and> h = h'
        \<and> push_bit 32 (DXGI_FORMAT_value f11) = push_bit 32 (DXGI_FORMAT_value f11')"
      by (intro staging_hash_inj) simp_all
    then show "w = w'" and "h = h'" and "f11 = f11'"
      by (auto dest: DXGI_FORMAT_value_inj)
  }
  {
    assume "staging_hash w h (D3DFORMAT_value f9) = staging_hash w' h' (D3DFORMAT_value f9')"
    with range have "w = w' \<and> h = h'
        \<and> push_bit 32 (D3DFORMAT_value f9) = push_bit 32 (D3DFORMAT_value f9')"
      by (intro staging_hash_inj) simp_all
    then show "w = w'" and "h = h'" and "f9 = f9'"
      by (auto dest: D3DFORMAT_value_inj)
  }
next
  assume a: "staging_cache_ok_D3D11 st11 \<and> 0 \<le> w \<and> w < 65536 \<and> 0 \<le> h \<and> h < 65536
        \<and> getStagingTexture st11 w h format = Inr (Some r11, st11')"
  then have "(\<exists>t. texture2ds st11' r11 = Some t \<and> desc_Width t = nat w \<and> desc_Height t = nat h
            \<and> desc_Format t = GetInternalFormatD3D11 format) \<and> staging_cache_ok_D3D11 st11'"
    by (intro getStagingTexture_hit_matches [of st11 w h format r11 st11']) simp_all
  then show "\<exists>t. texture2ds st11' r11 = Some t \<and> desc_Width t = nat w \<and> desc_Height t = nat h
            \<and> desc_Format t = GetInternalFormatD3D11 format"
    and "staging_cache_ok_D3D11 st11'"
    by simp_all
next
  assume a: "staging_cache_ok_D3D9 st9 \<and> 0 \<le> w \<and> w < 65536 \<and> 0 \<le> h \<and> h < 65536
        \<and> findOrCreateStagingTexture st9 w h format = Inr (Some r9, st9')"
  then have "(\<exists>s. surfaces st9' r9 = Some s \<and> Width s = nat w \<and> Height s = nat h
            \<and> Format s = GetInternalFormatD3D9 format) \<and> staging_cache_ok_D3D9 st9'"
    by (intro findOrCreateStagingTexture_hit_matches [of st9 w h format r9 st9']) simp_all
  then show "\<exists>s. surfaces st9' r9 = Some s \<and> Width s = nat w \<and> Height s = nat h
            \<and> Format s = GetInternalFormatD3D9 format"
    and "staging_cache_ok_D3D9 st9'"
    by simp_all
qed

text \<open>
  The empty caches of the example devices are well formed; the first request for a
  texture 1 wide and 2 high makes it, the second finds it, and both are given a texture of
  that size and of the format of \<open>RGBAu8\<close>.  The requests (1, 2) and (2, 1) have different
  keys.
\<close>

theorem staging_texture_hit_matches_witness:
  "staging_cache_ok_D3D11 example_D3D11
   \<and> getStagingTexture example_D3D11 1 2 RGBAu8 = Inr (Some 100, cached_D3D11)
   \<and> staging_cache_ok_D3D11 cached_D3D11
   \<and> getStagingTexture cached_D3D11 1 2 RGBAu8 = Inr (Some 100, cached_D3D11)
   \<and> (\<exists>t. texture2ds cached_D3D11 100 = Some t \<and> desc_Width t = 1 \<and> desc_Height t = 2
          \<and> desc_Format t = DXGI_FORMAT_R8G8B8A8_TYPELESS)
   \<and> staging_cache_ok_D3D9 example_D3D9
   \<and> findOrCreateStagingTexture example_D3D9 1 2 RGBAu8 = Inr (Some 100, cached_D3D9)
   \<and> staging_cache_ok_D3D9 cached_D3D9
   \<and> findOrCreateStagingTexture cached_D3D9 1 2 RGBAu8 = Inr (Some 100, cached_D3D9)
   \<and> (\<exists>s. surfaces cached_D3D9 100 = Some s \<and> Width s = 1 \<and> Height s = 2
          \<and> Format s = D3DFMT_A8R8G8B8)
   \<and> staging_hash 1 2 (DXGI_FORMAT_value DXGI_FORMAT_R8G8B8A8_TYPELESS)
       \<noteq> staging_hash 2 1 (DXGI_FORMAT_value DXGI_FORMAT_R8G8B8A8_TYPELESS)"
proof -
  have ok11: "staging_cache_ok_D3D11 example_D3D11"
    by (simp add: staging_cache_ok_D3D11_def example_D3D11_def)
  have ok9: "staging_cache_ok_D3D9 example_D3D9"
    by (simp add: staging_cache_ok_D3D9_def example_D3D9_def)
  note first = staging_texture_hit_matches
                 [of 1 2 2 1 DXGI_FORMAT_R8G8B8A8_TYPELESS DXGI_FORMAT_R8G8B8A8_TYPELESS
                     D3DFMT_A8R8G8B8 D3DFMT_A8R8G8B8 example_D3D11 RGBAu8 100 cached_D3D11
                     example_D3D9 100 cached_D3D9]
  have ok11': "staging_cache_ok_D3D11 cached_D3D11"
    using first ok11 cached_runs(1) by simp
  have ok9': "staging_cache_ok_D3D9 cached_D3D9"
    using first ok9 cached_runs(6) by simp
  have differ: "staging_hash 1 2 (DXGI_FORMAT_value DXGI_FORMAT_R8G8B8A8_TYPELESS)
       \<noteq> staging_hash 2 1 (DXGI_FORMAT_value DXGI_FORMAT_R8G8B8A8_TYPELESS)"
    using first by auto
  note second = staging_texture_hit_matches
                 [of 1 2 2 1 DXGI_FORMAT_R8G8B8A8_TYPELESS DXGI_FORMAT_R8G8B8A8_TYPELESS
                     D3DFMT_A8R8G8B8 D3DFMT_A8R8G8B8 cached_D3D11 RGBAu8 100 cached_D3D11
                     cached_D3D9 100 cached_D3D9]
  have hit11: "\<exists>t. texture2ds cached_D3D11 100 = Some t \<and> desc_Width t = 1 \<and> desc_Height t = 2
          \<and> desc_Format t = DXGI_FORMAT_R8G8B8A8_TYPELESS"
    using second ok11' cached_runs(2) by (simp add: GetInternalFormatD3D11_RGBAu8)
  have hit9: "\<exists>s. surfaces cached_D3D9 100 = Some s \<and> Width s = 1 \<and> Height s = 2
          \<and> Format s = D3DFMT_A8R8G8B8"
    using second ok9' cached_runs(7) by (simp add: GetInternalFormatD3D9_RGBAu8)
  show ?thesis
    using ok11 ok11' hit11 ok9 ok9' hit9 differ cached_runs(1,2,6,7) by simp
qed

section \<open>Where sync stands in a read\<close>

text \<open>
  The polling loop of \<open>sync\<close> on Direct3D 11 returns exactly when the GPU retires its work
  after some number \<open>n\<close> of further polls; it has then polled \<open>n + 1\<close> times and slept \<open>n\<close>
  times.
\<close>

lemma sync_poll_pending:
  "pending st = Some n \<Longrightarrow> m_context st \<noteq> None \<Longrightarrow>
   sync_poll st = Some (Inr (st\<lparr>pending := Some 0,
     calls11 := calls11 st @ concat (replicate n [D3D11_GetData, D3D11_sleep_for]) @ [D3D11_GetData]\<rparr>))"
proof (induction n arbitrary: st)
  case 0
  then show ?case
    by (subst sync_poll.simps) (auto simp: GetData_def called11_def)
next
  case (Suc n)
  let ?st1 = "called11 D3D11_sleep_for (called11 D3D11_GetData (st\<lparr>pending := Some n\<rparr>))"
  have "sync_poll st = sync_poll ?st1"
    using Suc.prems by (subst sync_poll.simps) (auto simp: GetData_def)
  also have "\<dots> = Some (Inr (?st1\<lparr>pending := Some 0,
     calls11 := calls11 ?st1 @ concat (replicate n [D3D11_GetData, D3D11_sleep_for]) @ [D3D11_GetData]\<rparr>))"
    using Suc.prems by (intro Suc.IH) (simp_all add: called11_def)
  finally show ?case
    by (simp add: called11_def)
qed

lemma sync_poll_returns:
  assumes "sync_poll st = Some y"
  shows "\<forall>st'. y = Inr st' \<longrightarrow> (\<exists>n. pending st = Some n) \<and> m_context st \<noteq> None"
proof (rule sync_poll.raw_induct
    [where P = "\<lambda>st y. \<forall>st'. y = Inr st' \<longrightarrow> (\<exists>n. pending st = Some n) \<and> m_context st \<noteq> None",
     OF _ assms])
  fix poll st y
  assume IH: "\<And>x y. poll x = Some y \<Longrightarrow> \<forall>st'. y = Inr st' \<longrightarrow> (\<exists>n. pending x = Some n) \<and> m_context x \<noteq> None"
    and body: "(case GetData st of Inl f \<Rightarrow> Some (Inl f)
      | Inr (hr, st1) \<Rightarrow>
          if hr = S_FALSE then poll (called11 D3D11_sleep_for st1)
          else Some (Inr st1)) = Some y"
  show "\<forall>st'. y = Inr st' \<longrightarrow> (\<exists>n. pending st = Some n) \<and> m_context st \<noteq> None"
  proof (cases "pending st")
    case None
    show ?thesis
    proof (intro allI impI)
      fix st' assume y: "y = Inr st'"
      from body None y have "m_context st \<noteq> None"
        by (auto simp: GetData_def split: option.splits)
      with body None y have "poll (called11 D3D11_sleep_for (called11 D3D11_GetData st)) = Some (Inr st')"
        by (auto simp: GetData_def split: option.splits)
      from IH [OF this] have "\<exists>n. pending (called11 D3D11_sleep_for (called11 D3D11_GetData st)) = Some n"
        by simp
      with None show "(\<exists>n. pending st = Some n) \<and> m_context st \<noteq> None"
        by (simp add: called11_def)
    qed
  next
    case (Some n)
    with body show ?thesis
      by (auto simp: GetData_def split: option.splits)
  qed
qed

lemma sync_poll_Inr:
  assumes "sync_poll st = Some (Inr st')"
  shows "\<exists>n. pending st = Some n \<and> st' = st\<lparr>pending := Some 0,
     calls11 := calls11 st @ concat (replicate n [D3D11_GetData, D3D11_sleep_for]) @ [D3D11_GetData]\<rparr>"
proof -
  from sync_poll_returns [OF assms] obtain n where n: "pending st = Some n" and c: "m_context st \<noteq> None"
    by auto
  from sync_poll_pending [OF n c] assms n show ?thesis
    by simp
qed

lemma sync_D3D11_Inr:
  assumes "sync_D3D11 st = Some (Inr st')"
  shows "\<exists>n. pending st = Some n \<and> st' = st\<lparr>pending := Some 0,
     calls11 := calls11 st @ [D3D11_End] @ concat (replicate n [D3D11_GetData, D3D11_sleep_for]) @ [D3D11_GetData]\<rparr>"
  using assms
  by (auto simp: sync_D3D11_def End_query_def called11_def split: option.splits sum.splits
           dest!: sync_poll_Inr)

lemma sync_D3D11_returns:
  "pending st \<noteq> None \<Longrightarrow> sync_D3D11 st \<noteq> None"
  by (auto simp: sync_D3D11_def End_query_def called11_def sync_poll_pending split: option.splits sum.splits)


lemma getStagingTexture_calls:
  assumes "getStagingTexture st w h f = Inr (r, st1)"
  shows "\<exists>pre. calls11 st1 = calls11 st @ pre \<and> list_all staging_call pre"
    and "pending st1 = pending st" and "m_context st1 = m_context st"
  using assms
  by (auto simp: getStagingTexture_def clearStagingTextures_D3D11_simps CreateTexture2D_def
        called11_def Let_def list_all_iff
      split: if_splits option.splits sum.splits prod.splits)


lemma CopyResource_texture_Inr:
  assumes "CopyResource_texture st dst src = Inr st'"
  shows "\<exists>d s. dst = Some d \<and> src = Some s \<and> calls11 st' = calls11 st @ [D3D11_CopyResource d s]"
    and "pending st' = pending st" and "m_context st' = m_context st"
  using assms
  by (auto simp: CopyResource_texture_def called11_def Let_def split: option.splits if_splits)

lemma proc_read_texture_calls:
  assumes "proc_read_texture gts st ret dst dst_size (Some s) width height format = Inr (e, dst', st')"
  shows "\<exists>post. calls11 st' = calls11 st @ [D3D11_Map s] @ post
           \<and> (post = [D3D11_Unmap s] \<or> post = [D3D11_gdLogError])"
  using assms
  by (auto simp: proc_read_texture_def Map_texture_def Unmap_def called11_def Let_def
           split: option.splits sum.splits if_splits)

lemma readTexture_D3D11_staging_calls:
  assumes ctx: "m_context st \<noteq> None"
    and desc: "texture2ds st src = Some desc"
    and unmappable: "desc_CPUAccessFlags desc AND D3D11_CPU_ACCESS_READ = 0"
    and run: "readTexture_D3D11 gts st dst dst_size (Some src) width height format
                = Some (Inr (e, dst', st'))"
  shows "\<exists>staging n pre post.
           calls11 st' = calls11 st @ [D3D11_GetDesc src] @ pre
             @ [D3D11_CopyResource staging src, D3D11_End]
             @ concat (replicate n [D3D11_GetData, D3D11_sleep_for])
             @ [D3D11_GetData, D3D11_Map staging] @ post
           \<and> list_all staging_call pre
           \<and> (post = [D3D11_Unmap staging] \<or> post = [D3D11_gdLogError])"
proof -
  define st1 where "st1 = called11 (D3D11_GetDesc src) st"
  from ctx desc unmappable run obtain staging st2 st3 st4 where
    get: "getStagingTexture st1 width height format = Inr (staging, st2)"
    and copy: "CopyResource_texture st2 staging (Some src) = Inr st3"
    and sync: "sync_D3D11 st3 = Some (Inr st4)"
    and read: "proc_read_texture gts st4 OK dst dst_size staging width height format = Inr (e, dst', st')"
    by (auto simp: readTexture_D3D11_def GetDesc_texture_def Let_def st1_def
             split: sum.splits option.splits prod.splits if_splits)
  from getStagingTexture_calls(1) [OF get] obtain pre where
    pre: "calls11 st2 = calls11 st1 @ pre" "list_all staging_call pre"
    by blast
  from CopyResource_texture_Inr(1) [OF copy] obtain s where
    s: "staging = Some s" and c3: "calls11 st3 = calls11 st2 @ [D3D11_CopyResource s src]"
    by auto
  from sync_D3D11_Inr [OF sync] obtain n where
    c4: "calls11 st4 = calls11 st3 @ [D3D11_End]
           @ concat (replicate n [D3D11_GetData, D3D11_sleep_for]) @ [D3D11_GetData]"
    by auto
  from proc_read_texture_calls [OF read [unfolded s]] obtain post where
    c5: "calls11 st' = calls11 st4 @ [D3D11_Map s] @ post"
    and post: "post = [D3D11_Unmap s] \<or> post = [D3D11_gdLogError]"
    by blast
  have "calls11 st' = calls11 st @ [D3D11_GetDesc src] @ pre
             @ [D3D11_CopyResource s src, D3D11_End]
             @ concat (replicate n [D3D11_GetData, D3D11_sleep_for])
             @ [D3D11_GetData, D3D11_Map s] @ post"
    by (simp add: c5 c4 c3 pre st1_def called11_def)
  with pre(2) post show ?thesis
    by blast
qed

lemma readTexture_D3D11_returns:
  assumes "pending st \<noteq> None"
  shows "readTexture_D3D11 gts st dst dst_size src_tex width height format \<noteq> None"
proof -
  have "sync_D3D11 st3 \<noteq> None"
    if "GetDesc_texture st src_tex = Inr (desc, st1)"
      and "getStagingTexture st1 width height format = Inr (staging, st2)"
      and "CopyResource_texture st2 staging src_tex = Inr st3"
    for desc st1 staging st2 st3
  proof -
    from that(1) have "pending st1 = pending st"
      by (auto simp: GetDesc_texture_def called11_def split: option.splits)
    with getStagingTexture_calls(2) [OF that(2)] CopyResource_texture_Inr(2) [OF that(3)] assms
    show ?thesis
      by (intro sync_D3D11_returns) simp
  qed
  then show ?thesis
    by (auto simp: readTexture_D3D11_def Let_def split: sum.splits option.splits prod.splits;
        force)
qed


lemma staging_buffer_size_power:
  "k \<le> 63 \<Longrightarrow> size_required \<le> 2 ^ 63 \<Longrightarrow> n = 63 - k \<Longrightarrow>
     staging_buffer_size (2 ^ k) size_required \<noteq> None"
proof (induction n arbitrary: k)
  case 0
  then have "k = 63" by simp
  with 0 show ?case
    by (subst staging_buffer_size.simps) simp
next
  case (Suc n)
  then have k: "k < 63" by simp
  then have "(2::nat) ^ Suc k \<le> 2 ^ 63"
    by (intro power_increasing) simp_all
  then have lt: "(2::nat) ^ Suc k < 2 ^ 64"
    by simp
  have "staging_buffer_size (2 ^ Suc k) size_required \<noteq> None"
    using Suc.prems k by (intro Suc.IH) simp_all
  moreover have "(2 ^ k * 2) mod 2 ^ 64 = (2::nat) ^ Suc k"
    using lt by (simp add: mult.commute)
  ultimately show ?case
    by (subst staging_buffer_size.simps) simp
qed

lemma staging_buffer_size_returns:
  "size_required \<le> 2 ^ 63 \<Longrightarrow> staging_buffer_size (1024 * 1024) size_required \<noteq> None"
  using staging_buffer_size_power [of 20 size_required 43] by simp

lemma getStagingBuffer_calls:
  assumes "getStagingBuffer st type size_required = Some (Inr (r, st1))"
  shows "\<exists>pre. calls11 st1 = calls11 st @ pre \<and> list_all staging_call pre"
    and "pending st1 = pending st" and "m_context st1 = m_context st"
  using assms
  by (auto simp: getStagingBuffer_def GetDesc_buffer_def CreateBuffer_def Release_buffer_def
        called11_def Let_def list_all_iff
      split: if_splits option.splits sum.splits prod.splits)

lemma getStagingBuffer_returns:
  "size_required \<le> 2 ^ 63 \<Longrightarrow> getStagingBuffer st type size_required \<noteq> None"
  using staging_buffer_size_returns [of size_required]
  by (auto simp: getStagingBuffer_def split: option.splits)

lemma CopyResource_buffer_Inr:
  assumes "CopyResource_buffer st dst src = Inr st'"
  shows "\<exists>d s. dst = Some d \<and> src = Some s \<and> calls11 st' = calls11 st @ [D3D11_CopyResource d s]"
    and "pending st' = pending st" and "m_context st' = m_context st"
  using assms
  by (auto simp: CopyResource_buffer_def called11_def Let_def split: option.splits if_splits)

lemma proc_read_buffer_calls:
  assumes "proc_read_buffer st ret dst (Some s) sz = Inr (e, dst', st')"
  shows "\<exists>post. calls11 st' = calls11 st @ [D3D11_Map s] @ post
           \<and> (post = [D3D11_Unmap s] \<or> post = [D3D11_gdLogError])"
  using assms
  by (auto simp: proc_read_buffer_def Map_buffer_def Unmap_def called11_def Let_def
           split: option.splits sum.splits if_splits)

lemma readBuffer_D3D11_staging_calls:
  assumes size: "read_size \<noteq> 0"
    and desc: "buffers st src = Some desc"
    and unmappable: "buffer_CPUAccessFlags desc AND D3D11_CPU_ACCESS_READ = 0"
    and run: "readBuffer_D3D11 st (Some d) (Some src) read_size type = Some (Inr (e, dst', st'))"
  shows "\<exists>staging n pre post.
           calls11 st' = calls11 st @ [D3D11_GetDesc src] @ pre
             @ [D3D11_CopyResource staging src, D3D11_End]
             @ concat (replicate n [D3D11_GetData, D3D11_sleep_for])
             @ [D3D11_GetData, D3D11_Map staging] @ post
           \<and> list_all staging_call pre
           \<and> (post = [D3D11_Unmap staging] \<or> post = [D3D11_gdLogError])"
proof -
  define st1 where "st1 = called11 (D3D11_GetDesc src) st"
  from size desc unmappable run obtain staging st2 st3 st4 where
    get: "getStagingBuffer st1 type read_size = Some (Inr (staging, st2))"
    and copy: "CopyResource_buffer st2 staging (Some src) = Inr st3"
    and sync: "sync_D3D11 st3 = Some (Inr st4)"
    and read: "proc_read_buffer st4 OK (Some d) staging read_size = Inr (e, dst', st')"
    by (auto simp: readBuffer_D3D11_def GetDesc_buffer_def Let_def st1_def
             split: sum.splits option.splits prod.splits if_splits)
  from getStagingBuffer_calls(1) [OF get] obtain pre where
    pre: "calls11 st2 = calls11 st1 @ pre" "list_all staging_call pre"
    by blast
  from CopyResource_buffer_Inr(1) [OF copy] obtain s where
    s: "staging = Some s" and c3: "calls11 st3 = calls11 st2 @ [D3D11_CopyResource s src]"
    by auto
  from sync_D3D11_Inr [OF sync] obtain n where
    c4: "calls11 st4 = calls11 st3 @ [D3D11_End]
           @ concat (replicate n [D3D11_GetData, D3D11_sleep_for]) @ [D3D11_GetData]"
    by auto
  from proc_read_buffer_calls [OF read [unfolded s]] obtain post where
    c5: "calls11 st' = calls11 st4 @ [D3D11_Map s] @ post"
    and post: "post = [D3D11_Unmap s] \<or> post = [D3D11_gdLogError]"
    by blast
  have "calls11 st' = calls11 st @ [D3D11_GetDesc src] @ pre
             @ [D3D11_CopyResource s src, D3D11_End]
             @ concat (replicate n [D3D11_GetData, D3D11_sleep_for])
             @ [D3D11_GetData, D3D11_Map s] @ post"
    by (simp add: c5 c4 c3 pre st1_def called11_def)
  with pre(2) post show ?thesis
    by blast
qed

lemma readBuffer_D3D11_returns:
  assumes "pending st \<noteq> None" and "read_size \<le> 2 ^ 63"
  shows "readBuffer_D3D11 st dst src_buf read_size type \<noteq> None"
proof -
  have "sync_D3D11 st3 \<noteq> None"
    if "GetDesc_buffer st src_buf = Inr (desc, st1)"
      and "getStagingBuffer st1 type read_size = Some (Inr (staging, st2))"
      and "CopyResource_buffer st2 staging src_buf = Inr st3"
    for desc st1 staging st2 st3
  proof -
    from that(1) have "pending st1 = pending st"
      by (auto simp: GetDesc_buffer_def called11_def split: option.splits)
    with getStagingBuffer_calls(2) [OF that(2)] CopyResource_buffer_Inr(2) [OF that(3)] assms
    show ?thesis
      by (intro sync_D3D11_returns) simp
  qed
  moreover have "getStagingBuffer st1 type read_size \<noteq> None" for st1
    using assms(2) by (rule getStagingBuffer_returns)
  ultimately show ?thesis
    by (auto simp: readBuffer_D3D11_def Let_def split: sum.splits option.splits prod.splits;
        force)
qed

lemma findOrCreateStagingTexture_calls:
  assumes "findOrCreateStagingTexture st w h f = Inr (r, st1)"
  shows "\<exists>pre. calls st1 = calls st @ pre \<and> list_all staging_call_D3D9 pre"
  using assms
  by (auto simp: findOrCreateStagingTexture_def clearStagingTextures_D3D9_simps
        CreateOffscreenPlainSurface_def called_def Let_def list_all_iff
      split: if_splits option.splits sum.splits prod.splits)

lemma readTexture_D3D9_calls:
  assumes run: "readTexture_D3D9 gts st o_buf bufsize tex width height format = Inr (OK, o_buf', st')"
  shows "\<exists>t s d pre log.
           tex = Some t
           \<and> calls st' = calls st @ pre @ [D3D9_GetSurfaceLevel t, D3D9_Issue, D3D9_GetData] @ log
               @ [D3D9_GetRenderTargetData s d, D3D9_LockRect d, D3D9_UnlockRect d, D3D9_Release s]
           \<and> list_all staging_call_D3D9 pre \<and> (log = [] \<or> log = [D3D9_gdLog])"
proof -
  from run obtain d st1 hr1 s st2 st3 hr2 st4 hr3 copied st5 where
    find: "findOrCreateStagingTexture st width height format = Inr (Some d, st1)"
    and level: "GetSurfaceLevel st1 tex = Inr (hr1, Some s, st2)"
    and sync: "sync_D3D9 st2 = Inr st3"
    and copy: "GetRenderTargetData st3 (Some s) (Some d) = Inr (hr2, st4)" "SUCCEEDED hr2"
    and locked: "readTexture_locked_D3D9 gts st4 o_buf bufsize d width height format
                   = Inr (hr3, copied, st5)" "SUCCEEDED hr3"
    and st': "st' = called (D3D9_Release s) st5"
    by (auto simp: readTexture_D3D9_def Let_def
             split: sum.splits option.splits prod.splits if_splits)
  from findOrCreateStagingTexture_calls [OF find] obtain pre where
    pre: "calls st1 = calls st @ pre" "list_all staging_call_D3D9 pre"
    by blast
  from level obtain t where t: "tex = Some t" and c2: "calls st2 = calls st1 @ [D3D9_GetSurfaceLevel t]"
    by (auto simp: GetSurfaceLevel_def called_def Let_def split: option.splits if_splits)
  from sync obtain log where c3: "calls st3 = calls st2 @ [D3D9_Issue, D3D9_GetData] @ log"
    and log: "log = [] \<or> log = [D3D9_gdLog]"
    by (auto simp: sync_D3D9_def called_def Let_def split: option.splits if_splits)
  from copy have c4: "calls st4 = calls st3 @ [D3D9_GetRenderTargetData s d]"
    by (auto simp: GetRenderTargetData_def copy_surface_def called_def Let_def SUCCEEDED_def
             split: option.splits if_splits)
  from locked have c5: "calls st5 = calls st4 @ [D3D9_LockRect d, D3D9_UnlockRect d]"
    by (auto simp: readTexture_locked_D3D9_def LockRect_def UnlockRect_def called_def Let_def
             split: option.splits sum.splits if_splits)
  have "calls st' = calls st @ pre @ [D3D9_GetSurfaceLevel t, D3D9_Issue, D3D9_GetData] @ log
               @ [D3D9_GetRenderTargetData s d, D3D9_LockRect d, D3D9_UnlockRect d, D3D9_Release s]"
    by (simp add: st' called_def c5 c4 c3 c2 pre)
  with t pre(2) log show ?thesis
    by blast
qed

text \<open>Three runs on the example devices, each through a staging resource.\<close>

lemma staging_buffer_size_small:
  "size_required \<le> 1048576 \<Longrightarrow> staging_buffer_size 1048576 size_required = Some 1048576"
  by (subst staging_buffer_size.simps) simp

lemma replicate_2: "replicate 2 x = [x, x]"
  by (simp add: numeral_2_eq_2)

lemma example_readTexture_D3D11:
  "\<exists>st'. readTexture_D3D11 GetTexelSize example_D3D11 (Some [9, 9, 9, 9]) 4 (Some 10) 1 2 Rf16
           = Some (Inr (OK, Some [0, 0, 0, 0], st'))
         \<and> calls11 st' =
             [D3D11_GetDesc 10, D3D11_CreateTexture2D 1 2 DXGI_FORMAT_R16_FLOAT,
              D3D11_CopyResource 100 10, D3D11_End, D3D11_GetData, D3D11_sleep_for,
              D3D11_GetData, D3D11_sleep_for, D3D11_GetData, D3D11_Map 100, D3D11_Unmap 100]"
  by (simp add: readTexture_D3D11_def example_D3D11_def GetTexelSize_Rf16
        GetInternalFormatD3D11_Rf16 D3D11_eval sync_poll_pending copy_rows.simps)

lemma example_readBuffer_D3D11:
  "\<exists>dst' st'. readBuffer_D3D11 example_D3D11 (Some [9, 9, 9, 9]) (Some 20) 4 Index
           = Some (Inr (OK, dst', st'))
         \<and> calls11 st' =
             [D3D11_GetDesc 20, D3D11_CreateBuffer 1048576 Index,
              D3D11_CopyResource 100 20, D3D11_End, D3D11_GetData, D3D11_sleep_for,
              D3D11_GetData, D3D11_sleep_for, D3D11_GetData, D3D11_Map 100, D3D11_Unmap 100]"
  by (simp add: readBuffer_D3D11_def example_D3D11_def getStagingBuffer_def
        staging_buffer_size_small D3D11_eval sync_poll_pending replicate_2 del: replicate_numeral)

lemma example_readTexture_D3D9:
  "\<exists>st'. readTexture_D3D9 GetTexelSize example_D3D9 (Some [9, 9, 9, 9]) 4 (Some 20) 1 2 Rf16
           = Inr (OK, Some [0, 0, 0, 0], st')
         \<and> calls st' =
             [D3D9_CreateOffscreenPlainSurface 1 2 D3DFMT_R16F, D3D9_GetSurfaceLevel 20,
              D3D9_Issue, D3D9_GetData, D3D9_GetRenderTargetData 10 100,
              D3D9_LockRect 100, D3D9_UnlockRect 100, D3D9_Release 10]"
  by (simp add: readTexture_D3D9_def readTexture_locked_D3D9_def example_D3D9_def
        GetTexelSize_Rf16 GetInternalFormatD3D9_Rf16 Rf16_neq_RGBAu8 D3D9_eval copy_rows.simps)

text \<open>
  C7, as the claim has it, fails on Direct3D 9: \<open>readTexture\<close> calls \<open>sync\<close> (\<open>Issue\<close>,
  \<open>GetData\<close>) before \<open>GetRenderTargetData\<close> copies the texture into the staging surface,
  and locks the staging surface right after the copy.
\<close>

theorem sync_after_copy_counterexample:
  "map_sum id (\<lambda>(e, o_buf, st). (e, calls st))
     (readTexture_D3D9 GetTexelSize example_D3D9 (Some [9, 9, 9, 9]) 4 (Some 20) 1 2 Rf16)
   = Inr (OK, [D3D9_CreateOffscreenPlainSurface 1 2 D3DFMT_R16F, D3D9_GetSurfaceLevel 20,
              D3D9_Issue, D3D9_GetData, D3D9_GetRenderTargetData 10 100,
              D3D9_LockRect 100, D3D9_UnlockRect 100, D3D9_Release 10])"
  using example_readTexture_D3D9 by auto

text \<open>
  C7, amended.  On Direct3D 11, a \<open>readTexture\<close> or \<open>readBuffer\<close> that returns after taking
  the staging path (the source has no CPU read access) has made these driver calls, in this
  order: \<open>GetDesc\<close> on the source, the calls of the staging lookup, \<open>CopyResource\<close> into the
  staging resource, then \<open>sync\<close>, that is \<open>End\<close> and \<open>GetData\<close> polled until it stops answering
  \<open>S_FALSE\<close>, then \<open>Map\<close> on the staging resource, then \<open>Unmap\<close> or the log of a failed \<open>Map\<close>.
  Both return whenever the GPU retires its work (and the buffer is at most \<open>2 ^ 63\<close> bytes).
  On Direct3D 9, a \<open>readTexture\<close> that returns \<open>OK\<close> has called \<open>sync\<close> before the copy:
  \<open>GetSurfaceLevel\<close>, \<open>Issue\<close>, \<open>GetData\<close> (and a log line unless it answered \<open>S_OK\<close>),
  \<open>GetRenderTargetData\<close>, \<open>LockRect\<close>, \<open>UnlockRect\<close>, \<open>Release\<close>.
\<close>

theorem sync_between_copy_and_map:
  "(m_context st \<noteq> None \<and> texture2ds st src = Some desc
      \<and> desc_CPUAccessFlags desc AND D3D11_CPU_ACCESS_READ = 0
      \<and> readTexture_D3D11 gts st dst dst_size (Some src) width height format
            = Some (Inr (e, dst', st')) \<longrightarrow>
      (\<exists>staging n pre post.
         calls11 st' = calls11 st @ [D3D11_GetDesc src] @ pre
           @ [D3D11_CopyResource staging src, D3D11_End]
           @ concat (replicate n [D3D11_GetData, D3D11_sleep_for])
           @ [D3D11_GetData, D3D11_Map staging] @ post
         \<and> list_all staging_call pre
         \<and> (post = [D3D11_Unmap staging] \<or> post = [D3D11_gdLogError])))
   \<and> (pending st \<noteq> None \<longrightarrow>
      readTexture_D3D11 gts st dst dst_size src_tex width height format \<noteq> None)
   \<and> (read_size \<noteq> 0 \<and> buffers st src_buf = Some buffer_desc
      \<and> buffer_CPUAccessFlags buffer_desc AND D3D11_CPU_ACCESS_READ = 0
      \<and> readBuffer_D3D11 st (Some d) (Some src_buf) read_size type
            = Some (Inr (e_buf, dst_buf', st_buf')) \<longrightarrow>
      (\<exists>staging n pre post.
         calls11 st_buf' = calls11 st @ [D3D11_GetDesc src_buf] @ pre
           @ [D3D11_CopyResource staging src_buf, D3D11_End]
           @ concat (replicate n [D3D11_GetData, D3D11_sleep_for])
           @ [D3D11_GetData, D3D11_Map staging] @ post
         \<and> list_all staging_call pre
         \<and> (post = [D3D11_Unmap staging] \<or> post = [D3D11_gdLogError])))
   \<and> (pending st \<noteq> None \<and> read_size \<le> 2 ^ 63 \<longrightarrow>
      readBuffer_D3D11 st dst src_buf' read_size type \<noteq> None)
   \<and> (readTexture_D3D9 gts st9 o_buf bufsize tex width height format = Inr (OK, o_buf', st9') \<longrightarrow>
      (\<exists>t s d pre log.
         tex = Some t
         \<and> calls st9' = calls st9 @ pre @ [D3D9_GetSurfaceLevel t, D3D9_Issue, D3D9_GetData] @ log
             @ [D3D9_GetRenderTargetData s d, D3D9_LockRect d, D3D9_UnlockRect d, D3D9_Release s]
         \<and> list_all staging_call_D3D9 pre \<and> (log = [] \<or> log = [D3D9_gdLog])))"
proof (intro conjI impI)
  assume "m_context st \<noteq> None \<and> texture2ds st src = Some desc
      \<and> desc_CPUAccessFlags desc AND D3D11_CPU_ACCESS_READ = 0
      \<and> readTexture_D3D11 gts st dst dst_size (Some src) width height format
            = Some (Inr (e, dst', st'))"
  then show "\<exists>staging n pre post.
         calls11 st' = calls11 st @ [D3D11_GetDesc src] @ pre
           @ [D3D11_CopyResource staging src, D3D11_End]
           @ concat (replicate n [D3D11_GetData, D3D11_sleep_for])
           @ [D3D11_GetData, D3D11_Map staging] @ post
         \<and> list_all staging_call pre
         \<and> (post = [D3D11_Unmap staging] \<or> post = [D3D11_gdLogError])"
    by (intro readTexture_D3D11_staging_calls [of st src desc gts dst dst_size width height format e dst' st'])
       simp_all
next
  assume "pending st \<noteq> None"
  then show "readTexture_D3D11 gts st dst dst_size src_tex width height format \<noteq> None"
    by (rule readTexture_D3D11_returns)
next
  assume "read_size \<noteq> 0 \<and> buffers st src_buf = Some buffer_desc
      \<and> buffer_CPUAccessFlags buffer_desc AND D3D11_CPU_ACCESS_READ = 0
      \<and> readBuffer_D3D11 st (Some d) (Some src_buf) read_size type
            = Some (Inr (e_buf, dst_buf', st_buf'))"
  then show "\<exists>staging n pre post.
         calls11 st_buf' = calls11 st @ [D3D11_GetDesc src_buf] @ pre
           @ [D3D11_CopyResource staging src_buf, D3D11_End]
           @ concat (replicate n [D3D11_GetData, D3D11_sleep_for])
           @ [D3D11_GetData, D3D11_Map staging] @ post
         \<and> list_all staging_call pre
         \<and> (post = [D3D11_Unmap staging] \<or> post = [D3D11_gdLogError])"
    by (intro readBuffer_D3D11_staging_calls
                [of read_size st src_buf buffer_desc d type e_buf dst_buf' st_buf'])
       simp_all
next
  assume "pending st \<noteq> None \<and> read_size \<le> 2 ^ 63"
  then show "readBuffer_D3D11 st dst src_buf' read_size type \<noteq> None"
    by (intro readBuffer_D3D11_returns) simp_all
next
  assume "readTexture_D3D9 gts st9 o_buf bufsize tex width height format = Inr (OK, o_buf', st9')"
  then show "\<exists>t s d pre log.
         tex = Some t
         \<and> calls st9' = calls st9 @ pre @ [D3D9_GetSurfaceLevel t, D3D9_Issue, D3D9_GetData] @ log
             @ [D3D9_GetRenderTargetData s d, D3D9_LockRect d, D3D9_UnlockRect d, D3D9_Release s]
         \<and> list_all staging_call_D3D9 pre \<and> (log = [] \<or> log = [D3D9_gdLog])"
    by (rule readTexture_D3D9_calls)
qed

text \<open>
  The three runs of the example devices: each returns, and its calls are in the order the
  theorem gives.
\<close>

theorem sync_between_copy_and_map_witness:
  "\<exists>st' dst_buf' st_buf' st9'.
     readTexture_D3D11 GetTexelSize example_D3D11 (Some [9, 9, 9, 9]) 4 (Some 10) 1 2 Rf16
       = Some (Inr (OK, Some [0, 0, 0, 0], st'))
     \<and> (\<exists>staging n pre post.
           calls11 st' = calls11 example_D3D11 @ [D3D11_GetDesc 10] @ pre
             @ [D3D11_CopyResource staging 10, D3D11_End]
             @ concat (replicate n [D3D11_GetData, D3D11_sleep_for])
             @ [D3D11_GetData, D3D11_Map staging] @ post
           \<and> list_all staging_call pre
           \<and> (post = [D3D11_Unmap staging] \<or> post = [D3D11_gdLogError]))
     \<and> readBuffer_D3D11 example_D3D11 (Some [9, 9, 9, 9]) (Some 20) 4 Index
       = Some (Inr (OK, dst_buf', st_buf'))
     \<and> (\<exists>staging n pre post.
           calls11 st_buf' = calls11 example_D3D11 @ [D3D11_GetDesc 20] @ pre
             @ [D3D11_CopyResource staging 20, D3D11_End]
             @ concat (replicate n [D3D11_GetData, D3D11_sleep_for])
             @ [D3D11_GetData, D3D11_Map staging] @ post
           \<and> list_all staging_call pre
           \<and> (post = [D3D11_Unmap staging] \<or> post = [D3D11_gdLogError]))
     \<and> readTexture_D3D9 GetTexelSize example_D3D9 (Some [9, 9, 9, 9]) 4 (Some 20) 1 2 Rf16
       = Inr (OK, Some [0, 0, 0, 0], st9')
     \<and> (\<exists>t s d pre log.
           Some 20 = Some t
           \<and> calls st9' = calls example_D3D9 @ pre
               @ [D3D9_GetSurfaceLevel t, D3D9_Issue, D3D9_GetData] @ log
               @ [D3D9_GetRenderTargetData s d, D3D9_LockRect d, D3D9_UnlockRect d, D3D9_Release s]
           \<and> list_all staging_call_D3D9 pre \<and> (log = [] \<or> log = [D3D9_gdLog]))"
proof -
  obtain st' where tex: "readTexture_D3D11 GetTexelSize example_D3D11 (Some [9, 9, 9, 9]) 4 (Some 10) 1 2 Rf16
       = Some (Inr (OK, Some [0, 0, 0, 0], st'))"
    using example_readTexture_D3D11 by blast
  obtain dst_buf' st_buf' where buf: "readBuffer_D3D11 example_D3D11 (Some [9, 9, 9, 9]) (Some 20) 4 Index
       = Some (Inr (OK, dst_buf', st_buf'))"
    using example_readBuffer_D3D11 by blast
  obtain st9' where tex9: "readTexture_D3D9 GetTexelSize example_D3D9 (Some [9, 9, 9, 9]) 4 (Some 20) 1 2 Rf16
       = Inr (OK, Some [0, 0, 0, 0], st9')"
    using example_readTexture_D3D9 by blast
  have ctx: "m_context example_D3D11 \<noteq> None"
    by (simp add: example_D3D11_def)
  have t10: "texture2ds example_D3D11 10 = Some
      \<lparr>desc_Width = 1, desc_Height = 2, desc_Format = DXGI_FORMAT_R16_FLOAT,
       desc_CPUAccessFlags = 0, RowPitch = 4,
       pData = [0, 0, 0, 0, 0, 0, 0, 0], Map_result = E_FAIL\<rparr>"
    by (simp add: example_D3D11_def)
  have b20: "buffers example_D3D11 20 = Some
      \<lparr>desc_ByteWidth = 4, buffer_CPUAccessFlags = 0,
       buffer_pData = [5, 6, 7, 8], buffer_Map_result = S_OK\<rparr>"
    by (simp add: example_D3D11_def)
  note inst = sync_between_copy_and_map
      [where st = example_D3D11 and src = 10
         and desc = "\<lparr>desc_Width = 1, desc_Height = 2, desc_Format = DXGI_FORMAT_R16_FLOAT,
            desc_CPUAccessFlags = 0, RowPitch = 4,
            pData = [0, 0, 0, 0, 0, 0, 0, 0], Map_result = E_FAIL\<rparr>"
         and buffer_desc = "\<lparr>desc_ByteWidth = 4, buffer_CPUAccessFlags = 0,
               buffer_pData = [5, 6, 7, 8], buffer_Map_result = S_OK\<rparr>"
         and src_tex = "Some 10" and src_buf' = "Some 20" and gts = GetTexelSize and dst = "Some [9, 9, 9, 9]"
         and dst_size = 4 and width = 1 and height = 2 and format = Rf16 and e = OK
         and dst' = "Some [0, 0, 0, 0]" and st' = st' and read_size = 4 and src_buf = 20
         and d = "[9, 9, 9, 9]" and type = Index and e_buf = OK and dst_buf' = dst_buf'
         and st_buf' = st_buf' and ?st9.0 = example_D3D9 and o_buf = "Some [9, 9, 9, 9]"
         and bufsize = 4 and tex = "Some 20" and o_buf' = "Some [0, 0, 0, 0]" and ?st9' = st9']
  have a: "\<exists>staging n pre post.
           calls11 st' = calls11 example_D3D11 @ [D3D11_GetDesc 10] @ pre
             @ [D3D11_CopyResource staging 10, D3D11_End]
             @ concat (replicate n [D3D11_GetData, D3D11_sleep_for])
             @ [D3D11_GetData, D3D11_Map staging] @ post
           \<and> list_all staging_call pre
           \<and> (post = [D3D11_Unmap staging] \<or> post = [D3D11_gdLogError])"
    using inst ctx t10 tex by simp
  have b: "\<exists>staging n pre post.
           calls11 st_buf' = calls11 example_D3D11 @ [D3D11_GetDesc 20] @ pre
             @ [D3D11_CopyResource staging 20, D3D11_End]
             @ concat (replicate n [D3D11_GetData, D3D11_sleep_for])
             @ [D3D11_GetData, D3D11_Map staging] @ post
           \<and> list_all staging_call pre
           \<and> (post = [D3D11_Unmap staging] \<or> post = [D3D11_gdLogError])"
    using inst b20 buf by simp
  have c: "\<exists>t s d pre log.
           Some (20::nat) = Some t
           \<and> calls st9' = calls example_D3D9 @ pre
               @ [D3D9_GetSurfaceLevel t, D3D9_Issue, D3D9_GetData] @ log
               @ [D3D9_GetRenderTargetData s d, D3D9_LockRect d, D3D9_UnlockRect d, D3D9_Release s]
           \<and> list_all staging_call_D3D9 pre \<and> (log = [] \<or> log = [D3D9_gdLog])"
    using inst tex9 by simp
  show ?thesis
    using tex buf tex9 a b c by blast
qed

section \<open>The red/blue exchange of the Direct3D 9 back end\<close>

lemma swap_red_blue_0 [simp]: "swap_red_blue 0 d = d"
  by simp

lemma length_swap_red_blue [simp]: "length (swap_red_blue n d) = length d"
  by (induction n d rule: swap_red_blue.induct) auto


lemma BGRA_RGBA_conversion_from_shift:
  assumes p: "length p = 4"
  shows "0 \<le> i \<Longrightarrow>
     BGRA_RGBA_conversion_from (i + 1) (Some (p @ d)) (n + 1)
       = map_sum id (map_option ((@) p)) (BGRA_RGBA_conversion_from i (Some d) n)"
proof (induction "nat (n - i)" arbitrary: i d)
  case 0
  then show ?case
    by (subst BGRA_RGBA_conversion_from.simps, subst (2) BGRA_RGBA_conversion_from.simps) simp
next
  case (Suc k)
  then have lt: "i < n" and nonneg: "0 \<le> i" by simp_all
  let ?d' = "d[nat (4 * i) := d ! nat (4 * i + 2), nat (4 * i + 2) := d ! nat (4 * i)]"
  have idx: "nat (4 * (i + 1)) = 4 + nat (4 * i)" "nat (4 * (i + 1) + 2) = 4 + nat (4 * i + 2)"
    using nonneg by simp_all
  have bound: "nat (4 * (i + 1) + 2) < length (p @ d) \<longleftrightarrow> nat (4 * i + 2) < length d"
    using p by (simp only: idx length_append) simp
  have upd: "(p @ d)[nat (4 * (i + 1)) := (p @ d) ! nat (4 * (i + 1) + 2),
                  nat (4 * (i + 1) + 2) := (p @ d) ! nat (4 * (i + 1))] = p @ ?d'"
    using p by (simp only: idx) (simp add: list_update_append nth_append)
  have left: "BGRA_RGBA_conversion_from (i + 1) (Some (p @ d)) (n + 1)
          = (if nat (4 * (i + 1) + 2) < length (p @ d)
             then BGRA_RGBA_conversion_from (i + 1 + 1)
                    (Some ((p @ d)[nat (4 * (i + 1)) := (p @ d) ! nat (4 * (i + 1) + 2),
                       nat (4 * (i + 1) + 2) := (p @ d) ! nat (4 * (i + 1))])) (n + 1)
             else Inl OutOfBounds)"
    using lt nonneg by (subst BGRA_RGBA_conversion_from.simps) simp
  have right: "BGRA_RGBA_conversion_from i (Some d) n
          = (if nat (4 * i + 2) < length d
             then BGRA_RGBA_conversion_from (i + 1) (Some ?d') n
             else Inl OutOfBounds)"
    using lt nonneg by (subst BGRA_RGBA_conversion_from.simps) simp
  have IH: "BGRA_RGBA_conversion_from (i + 1 + 1) (Some (p @ ?d')) (n + 1)
          = map_sum id (map_option ((@) p)) (BGRA_RGBA_conversion_from (i + 1) (Some ?d') n)"
    using Suc.hyps(2) nonneg by (intro Suc.hyps(1)) simp_all
  show ?case
    unfolding left right bound upd IH by simp
qed

lemma BGRA_RGBA_conversion_swaps:
  "4 * nat n \<le> length d \<Longrightarrow>
     BGRA_RGBA_conversion (Some d) n = Inr (Some (swap_red_blue (nat n) d))"
proof (induction "nat n" arbitrary: n d)
  case 0
  then show ?case
    by (simp add: BGRA_RGBA_conversion_def BGRA_RGBA_conversion_from.simps)
next
  case (Suc k)
  then have n: "0 < n" "nat n = Suc k" by simp_all
  with Suc.prems obtain r g b a rest where d: "d = r # g # b # a # rest"
    by (cases d; simp; rename_tac x1 l1; case_tac l1; simp; rename_tac x2 l2; case_tac l2; simp;
        rename_tac x3 l3; case_tac l3; simp)
  have rest: "4 * nat (n - 1) \<le> length rest"
    using Suc.prems n by (simp add: d)
  have k: "k = nat (n - 1)"
    using n by simp
  have "BGRA_RGBA_conversion (Some d) n
          = BGRA_RGBA_conversion_from (0 + 1) (Some ([b, g, r, a] @ rest)) ((n - 1) + 1)"
    using n by (simp add: BGRA_RGBA_conversion_def d BGRA_RGBA_conversion_from.simps [of 0])
  also have "\<dots> = map_sum id (map_option ((@) [b, g, r, a]))
                       (BGRA_RGBA_conversion_from 0 (Some rest) (n - 1))"
    by (rule BGRA_RGBA_conversion_from_shift) simp_all
  also have "BGRA_RGBA_conversion_from 0 (Some rest) (n - 1)
               = Inr (Some (swap_red_blue (nat (n - 1)) rest))"
    using Suc.hyps(1) [OF k rest] by (simp add: BGRA_RGBA_conversion_def)
  finally show ?case
    using n by (simp add: d k)
qed








lemma sint_word_of_int_32:
  "- (2 ^ 31) \<le> x \<Longrightarrow> x < 2 ^ 31 \<Longrightarrow> sint (word_of_int x :: 32 word) = x"
  unfolding sint_sbintrunc' by (rule signed_take_bit_int_eq_self) simp_all

lemma int32_id: "- (2 ^ 31) \<le> x \<Longrightarrow> x < 2 ^ 31 \<Longrightarrow> int32 x = x"
  by (simp add: int32_def sint_word_of_int_32)

lemma int_of_size_t_id: "n < 2 ^ 31 \<Longrightarrow> int_of_size_t n = int n"
  using sint_word_of_int_32 [of "int n"] by (simp add: int_of_size_t_def)

lemma memcpy_all:
  "length d = n \<Longrightarrow> length s = n \<Longrightarrow> memcpy (Some d) 0 (Some s) 0 n = Inr (Some s)"
  by (auto simp: memcpy_def)

subsection \<open>Rows and pitches\<close>

lemma packed_rows_Suc:
  "packed_rows (Suc h) rb p bits = packed_rows h rb p bits @ take rb (drop (h * p) bits)"
  by (simp add: packed_rows_def)

lemma packed_rows_0 [simp]: "packed_rows 0 rb p bits = []"
  by (simp add: packed_rows_def)

lemma length_packed_rows:
  "h * p \<le> length bits \<Longrightarrow> rb \<le> p \<Longrightarrow> length (packed_rows h rb p bits) = h * rb"
proof (induction h)
  case 0
  show ?case by simp
next
  case (Suc h)
  then have "h * p + rb \<le> length bits"
    by simp
  with Suc show ?case
    by (simp add: packed_rows_Suc)
qed

lemma packed_rows_packed:
  "h * rb \<le> length bits \<Longrightarrow> packed_rows h rb rb bits = take (h * rb) bits"
proof (induction h)
  case 0
  show ?case by simp
next
  case (Suc h)
  then have ih: "packed_rows h rb rb bits = take (h * rb) bits"
    by simp
  have "take (h * rb + rb) bits = take (h * rb) bits @ take rb (drop (h * rb) bits)"
    by (rule take_add)
  then show ?case
    by (simp add: packed_rows_Suc ih add.commute)
qed

lemma row_bound:
  fixes j h p rb n :: nat
  assumes "j < h" "rb \<le> p" "h * p \<le> n"
  shows "j * p + rb \<le> n"
proof -
  have "j * p + p \<le> h * p"
    using assms(1) by (metis Suc_leI mult_Suc mult_le_mono1 add.commute)
  with assms show ?thesis
    by linarith
qed

lemma length_blit:
  "h * dp \<le> length dst \<Longrightarrow> rb \<le> dp \<Longrightarrow> h * sp \<le> length src \<Longrightarrow> rb \<le> sp
     \<Longrightarrow> length (blit h rb src sp dst dp) = length dst"
proof (induction h)
  case 0
  show ?case by simp
next
  case (Suc h)
  have d: "h * dp + rb \<le> length dst" and s: "h * sp + rb \<le> length src"
    using Suc.prems by (auto intro: row_bound [of h "Suc h"])
  from Suc have len: "length (blit h rb src sp dst dp) = length dst"
    by simp
  show ?case
    using d s by (simp add: Let_def len)
qed

lemma blit_row:
  assumes "h * dp \<le> length dst" "rb \<le> dp" "h * sp \<le> length src" "rb \<le> sp" "j < h"
  shows "take rb (drop (j * dp) (blit h rb src sp dst dp)) = take rb (drop (j * sp) src)"
  using assms
proof (induction h)
  case 0
  then show ?case by simp
next
  case (Suc h)
  have d: "h * dp + rb \<le> length dst" and s: "h * sp + rb \<le> length src"
    using Suc.prems by (auto intro: row_bound [of h "Suc h"])
  have len: "length (blit h rb src sp dst dp) = length dst"
    using Suc.prems by (intro length_blit) simp_all
  show ?case
  proof (cases "j = h")
    case True
    then show ?thesis
      using d s by (simp add: Let_def len)
  next
    case False
    with Suc.prems have j: "j < h"
      by simp
    have jb: "j * dp + rb \<le> h * dp"
      using j Suc.prems(2) by (intro row_bound [of j h]) simp_all
    have ih: "take rb (drop (j * dp) (blit h rb src sp dst dp)) = take rb (drop (j * sp) src)"
      using Suc.prems j by (intro Suc.IH) simp_all
    have "take rb (drop (j * dp) (blit (Suc h) rb src sp dst dp))
            = take rb (drop (j * dp) (take (h * dp) (blit h rb src sp dst dp)))"
      using jb d by (simp add: Let_def len)
    also have "\<dots> = take rb (drop (j * dp) (blit h rb src sp dst dp))"
      using jb by (simp add: drop_take min_def)
    finally show ?thesis
      using ih by simp
  qed
qed

lemma packed_rows_blit:
  assumes "h * dp \<le> length dst" "rb \<le> dp" "h * sp \<le> length src" "rb \<le> sp"
  shows "packed_rows h rb dp (blit h rb src sp dst dp) = packed_rows h rb sp src"
  unfolding packed_rows_def
  by (rule arg_cong [where f = concat], rule map_cong [OF refl])
     (use assms in \<open>simp add: blit_row\<close>)


lemma size_t_of_int_nat: "n < 2 ^ 64 \<Longrightarrow> size_t_of_int (int n) = n"
proof -
  assume "n < 2 ^ 64"
  then have "int n < 2 ^ 64"
    by (metis of_nat_less_iff of_nat_numeral of_nat_power)
  then show ?thesis
    by (simp add: size_t_of_int_def)
qed

lemma memcpy_row:
  assumes "doff + n \<le> length b" "soff + n \<le> length src" "0 < n"
  shows "memcpy (Some b) (int doff) (Some src) (int soff) n
           = Inr (Some (take doff b @ take n (drop soff src) @ drop (doff + n) b))"
  using assms by (simp add: memcpy_def)

lemma copy_rows_rows:
  assumes "i \<le> h" "h * rb \<le> length b" "h * sp \<le> length src" "rb \<le> sp" "0 < rb" "rb < 2 ^ 64"
  shows "copy_rows (int i) (int h) (Some b) (int (i * rb)) (int rb) (Some src) (int (i * sp))
           (int sp) (int rb)
         = Inr (Some (take (i * rb) b @ concat (map (\<lambda>j. take rb (drop (j * sp) src)) [i..<h])
                  @ drop (h * rb) b))"
  using assms
proof (induction "h - i" arbitrary: i b)
  case 0
  then have "i = h"
    by simp
  then show ?case
    by (subst copy_rows.simps) simp
next
  case (Suc k)
  then have less: "i < h"
    by simp
  have d: "i * rb + rb \<le> length b"
    using less Suc.prems by (intro row_bound [of i h]) simp_all
  have s: "i * sp + rb \<le> length src"
    using less Suc.prems by (intro row_bound [of i h]) simp_all
  have d': "i * rb + rb \<le> h * rb"
    using less by (intro row_bound [of i h]) simp_all
  define row where "row = take rb (drop (i * sp) src)"
  define b' where "b' = take (i * rb) b @ row @ drop (i * rb + rb) b"
  have lrow: "length row = rb"
    using s by (simp add: row_def)
  have len: "length b' = length b"
    using d by (simp add: b'_def lrow)
  have step: "memcpy (Some b) (int (i * rb)) (Some src) (int (i * sp)) (size_t_of_int (int rb))
                = Inr (Some b')"
  proof -
    have "size_t_of_int (int rb) = rb"
      using Suc.prems by (intro size_t_of_int_nat)
    moreover have "memcpy (Some b) (int (i * rb)) (Some src) (int (i * sp)) rb = Inr (Some b')"
      unfolding b'_def row_def using d s Suc.prems by (intro memcpy_row)
    ultimately show ?thesis
      by (simp only:)
  qed
  have ih: "copy_rows (int (Suc i)) (int h) (Some b') (int (Suc i * rb)) (int rb) (Some src)
              (int (Suc i * sp)) (int sp) (int rb)
            = Inr (Some (take (Suc i * rb) b'
                @ concat (map (\<lambda>j. take rb (drop (j * sp) src)) [Suc i..<h]) @ drop (h * rb) b'))"
    using Suc.hyps(2) Suc.prems less by (intro Suc.hyps(1)) (simp_all add: len)
  have args: "int i + 1 = int (Suc i)" "int (i * rb) + int rb = int (Suc i * rb)"
    "int (i * sp) + int sp = int (Suc i * sp)"
    by (simp_all add: algebra_simps)
  have front: "take (Suc i * rb) b' = take (i * rb) b @ row"
    using d by (simp add: b'_def lrow add.commute)
  have rear: "drop (h * rb) b' = drop (h * rb) b"
  proof -
    obtain m where m: "h * rb = m + (i * rb + rb)"
      using d' by (metis le_Suc_ex add.commute)
    have same: "drop (i * rb + rb) b' = drop (i * rb + rb) b"
      using d by (simp add: b'_def lrow)
    have "drop (m + (i * rb + rb)) b' = drop m (drop (i * rb + rb) b')"
      by (simp only: drop_drop)
    also have "\<dots> = drop (m + (i * rb + rb)) b"
      by (simp only: same drop_drop)
    finally show ?thesis
      by (simp only: m)
  qed
  have upt: "[i..<h] = i # [Suc i..<h]"
    using less by (rule upt_conv_Cons)
  show ?case
    apply (subst copy_rows.simps)
    apply (simp only: step sum.case of_nat_less_iff less if_True args ih front rear upt)
    apply (simp add: row_def)
    done
qed

lemma copy_rows_packed:
  assumes "length b = h * rb" "h * sp \<le> length src" "rb \<le> sp" "0 < rb" "rb < 2 ^ 64"
  shows "copy_rows 0 (int h) (Some b) 0 (int rb) (Some src) 0 (int sp) (int rb)
         = Inr (Some (packed_rows h rb sp src))"
  using copy_rows_rows [of 0 h rb b sp src] assms by (simp add: packed_rows_def)

lemma pitch_copy_packed:
  assumes "length b = h * rb" "length src = h * sp" "rb \<le> sp" "0 < rb" "rb < 2 ^ 64"
  shows "pitch_copy (Some b) (int rb) (Some src) (int sp) (h * rb) (int h)
         = Inr (Some (packed_rows h rb sp src))"
proof (cases "rb = sp")
  case True
  with assms have "memcpy (Some b) 0 (Some src) 0 (h * rb) = Inr (Some src)"
    by (intro memcpy_all) simp_all
  moreover have "packed_rows h rb sp src = src"
    using True assms by (simp add: packed_rows_packed)
  ultimately show ?thesis
    using True by (simp add: pitch_copy_def)
next
  case False
  then show ?thesis
    using assms by (simp add: pitch_copy_def copy_rows_packed)
qed

subsection \<open>What the staging lookup leaves behind\<close>

lemma foldl_Release_staging_frame2:
  "textures (foldl Release_staging st hs) = textures st"
  "D3D9.m_query_event (foldl Release_staging st hs) = D3D9.m_query_event st"
  "GetRenderTargetData_result (foldl Release_staging st hs) = GetRenderTargetData_result st"
  "UpdateSurface_result (foldl Release_staging st hs) = UpdateSurface_result st"
  "GetData_result (foldl Release_staging st hs) = GetData_result st"
  by (induction hs arbitrary: st) (simp_all add: Release_staging_def called_def)

lemma findOrCreateStagingTexture_frame:
  assumes "findOrCreateStagingTexture st w h format = Inr (r, st1)"
  shows "textures st1 = textures st" "D3D9.m_device st1 = D3D9.m_device st"
    "D3D9.m_query_event st1 = D3D9.m_query_event st" "new_Pitch st1 = new_Pitch st"
    "GetRenderTargetData_result st1 = GetRenderTargetData_result st"
    "UpdateSurface_result st1 = UpdateSurface_result st"
    "next_handle st \<le> next_handle st1"
    "CreateOffscreenPlainSurface_result st1 = CreateOffscreenPlainSurface_result st"
  using assms
  by (auto simp: findOrCreateStagingTexture_def clearStagingTextures_D3D9_def
        foldl_Release_staging_frame foldl_Release_staging_frame2
        CreateOffscreenPlainSurface_def called_def Let_def
        split: if_splits option.splits sum.splits prod.splits)

lemma findOrCreateStagingTexture_surfaces:
  assumes "findOrCreateStagingTexture st w h format = Inr (r, st1)"
    and "surfaces st1 k = Some v"
  shows "surfaces st k = Some v
         \<or> k = next_handle st
           \<and> v = \<lparr>Width = UINT w, Height = UINT h, Format = GetInternalFormatD3D9 format,
                  Pitch = new_Pitch st (UINT w * D3DFORMAT_bytes (GetInternalFormatD3D9 format)),
                  pBits = replicate
                    (nat (new_Pitch st (UINT w * D3DFORMAT_bytes (GetInternalFormatD3D9 format)))
                       * UINT h) 0,
                  LockRect_result = S_OK\<rparr>"
  using assms
  by (auto simp: findOrCreateStagingTexture_def clearStagingTextures_D3D9_simps
        foldl_Release_staging_frame clearStagingTextures_D3D9_def
        CreateOffscreenPlainSurface_def called_def Let_def
        foldl_Release_staging_surfaces
        split: if_splits option.splits sum.splits prod.splits)

lemma sync_D3D9_frame:
  assumes "sync_D3D9 st = Inr st'"
  shows "surfaces st' = surfaces st" "D3D9.m_device st' = D3D9.m_device st"
    "textures st' = textures st" "next_handle st' = next_handle st"
  using assms by (auto simp: sync_D3D9_def called_def Let_def split: option.splits if_splits)

lemma copy_surface_succeeded:
  assumes "copy_surface c answer st (Some s) (Some d) = Inr (hr, st')" "SUCCEEDED hr"
  shows "\<exists>ss ds. surfaces st s = Some ss \<and> surfaces st d = Some ds
           \<and> Width ss = Width ds \<and> Height ss = Height ds \<and> Format ss = Format ds
           \<and> st' = (called c st)\<lparr>surfaces := (surfaces st)(d \<mapsto>
                  ds\<lparr>pBits := blit (Height ss) (Width ss * D3DFORMAT_bytes (Format ss))
                                  (pBits ss) (nat (Pitch ss)) (pBits ds) (nat (Pitch ds))\<rparr>)\<rparr>"
  using assms
  by (auto simp: copy_surface_def called_def Let_def SUCCEEDED_def
        split: option.splits if_splits)

lemma surface_ok_fresh:
  assumes "int (wd * D3DFORMAT_bytes f) \<le> p"
  shows "surface_ok \<lparr>Width = wd, Height = ht, Format = f, Pitch = p,
                      pBits = replicate (nat p * ht) 0, LockRect_result = S_OK\<rparr>"
proof -
  have "0 \<le> int (wd * D3DFORMAT_bytes f)"
    by simp
  with assms have "0 \<le> p" and "wd * D3DFORMAT_bytes f \<le> nat p"
    by linarith+
  then show ?thesis
    by (simp add: surface_ok_def ac_simps)
qed

lemma findOrCreateStagingTexture_surface_ok:
  assumes find: "findOrCreateStagingTexture st w h format = Inr (r, st1)"
    and wf: "\<And>k v. surfaces st k = Some v \<Longrightarrow> surface_ok v"
    and driver: "\<And>n. int n \<le> new_Pitch st n"
    and v: "surfaces st1 k = Some v"
  shows "surface_ok v"
  using findOrCreateStagingTexture_surfaces [OF find v] wf driver
  by (auto intro: surface_ok_fresh)



subsection \<open>readTexture and writeTexture on padded and on packed rows\<close>

text \<open>
  Every run of \<open>readTexture\<close> for \<open>RGBAu8\<close> that returns \<open>OK\<close> returns the texels of the
  texture with red and blue exchanged, whatever the staging cache holds and whichever of the
  two copies (one piece, or row by row) it takes.
\<close>

lemma readTexture_D3D9_RGBAu8_swaps:
  assumes run: "readTexture_D3D9 gts st (Some out) bufsize (Some t) w h RGBAu8
                  = Inr (OK, o_buf', st')"
    and wf: "\<And>k v. surfaces st k = Some v \<Longrightarrow> surface_ok v"
    and driver: "\<And>n. int n \<le> new_Pitch st n"
    and tex: "textures st t = Some tx" "level0 tx = s"
    and surf: "surfaces st s = Some ss" "s < next_handle st"
    and shape: "Width ss = nat w" "Height ss = nat h" "Format ss = D3DFMT_A8R8G8B8"
    and dims: "0 < w" "0 < h" "4 * w * h < 2 ^ 31"
    and gts: "gts RGBAu8 = 4"
    and buf: "bufsize = nat (4 * w * h)" "length out = bufsize"
  shows "o_buf' = Some (swap_red_blue (nat (w * h))
                    (packed_rows (nat h) (4 * nat w) (nat (Pitch ss)) (pBits ss)))"
proof -
  define rb where "rb = 4 * nat w"
  have pos: "0 < w * h"
    using dims by simp
  have w4: "4 * w < 2 ^ 31"
  proof -
    have "w * 1 \<le> w * h"
      using dims by (intro mult_left_mono) simp_all
    then have a: "w \<le> w * h"
      by simp
    have b: "4 * (w * h) < 2 ^ 31"
      using dims(3) by (simp add: mult.assoc)
    from a b show ?thesis
      by linarith
  qed
  have size: "bufsize = nat h * rb"
    using dims by (simp add: buf rb_def nat_mult_distrib ac_simps)
  have n4: "4 * nat (w * h) = nat h * rb"
    using dims by (simp add: rb_def nat_mult_distrib ac_simps)
  from run obtain d st1 where find: "findOrCreateStagingTexture st w h RGBAu8 = Inr (Some d, st1)"
    by (auto simp: readTexture_D3D9_def split: sum.splits prod.splits option.splits)
  note frame = findOrCreateStagingTexture_frame [OF find]
  define st2 where "st2 = called (D3D9_GetSurfaceLevel t) st1"
  have level: "GetSurfaceLevel st1 (Some t)
                 = Inr (GetSurfaceLevel_result tx,
                        if FAILED (GetSurfaceLevel_result tx) then None else Some s, st2)"
    using tex by (simp add: GetSurfaceLevel_def frame st2_def Let_def)
  from run have got: "\<not> FAILED (GetSurfaceLevel_result tx)"
    by (auto simp: readTexture_D3D9_def find level split: sum.splits prod.splits option.splits)
  from run got obtain st3 where sync: "sync_D3D9 st2 = Inr st3"
    by (auto simp: readTexture_D3D9_def find level split: sum.splits prod.splits option.splits)
  have st3: "surfaces st3 = surfaces st1"
    using sync_D3D9_frame [OF sync] by (simp add: st2_def called_def)
  from run got obtain hr2 st4 where copy: "GetRenderTargetData st3 (Some s) (Some d) = Inr (hr2, st4)"
    and ok2: "SUCCEEDED hr2"
    by (auto simp: readTexture_D3D9_def find level sync
          split: sum.splits prod.splits option.splits if_splits)
  from copy have "copy_surface (D3D9_GetRenderTargetData s d) (GetRenderTargetData_result st3) st3
                    (Some s) (Some d) = Inr (hr2, st4)"
    by (simp add: GetRenderTargetData_def)
  from copy_surface_succeeded [OF this ok2] obtain ss0 ds where
    s1: "surfaces st1 s = Some ss0" and d1: "surfaces st1 d = Some ds"
    and same: "Width ss0 = Width ds" "Height ss0 = Height ds" "Format ss0 = Format ds"
    and st4: "st4 = (called (D3D9_GetRenderTargetData s d) st3)\<lparr>surfaces := (surfaces st3)(d \<mapsto>
                  ds\<lparr>pBits := blit (Height ss0) (Width ss0 * D3DFORMAT_bytes (Format ss0))
                                  (pBits ss0) (nat (Pitch ss0)) (pBits ds) (nat (Pitch ds))\<rparr>)\<rparr>"
    by (auto simp: st3)
  have "ss0 = ss"
    using findOrCreateStagingTexture_surfaces [OF find s1] surf by auto
  note s1 = s1 [unfolded this] and same = same [unfolded this] and st4 = st4 [unfolded this]
  have oks: "surface_ok ss"
    using surf wf by blast
  have okd: "surface_ok ds"
    using find wf driver d1 by (rule findOrCreateStagingTexture_surface_ok)
  define sp where "sp = nat (Pitch ss)"
  define dp where "dp = nat (Pitch ds)"
  have s_len: "length (pBits ss) = nat h * sp" and s_row: "rb \<le> sp"
    using oks shape by (simp_all add: surface_ok_def sp_def rb_def D3DFORMAT_bytes.simps ac_simps)
  have d_len: "length (pBits ds) = nat h * dp" and d_row: "rb \<le> dp" and d_pitch: "Pitch ds = int dp"
    using okd shape same
    by (simp_all add: surface_ok_def dp_def rb_def D3DFORMAT_bytes.simps ac_simps)
  define bits where "bits = blit (nat h) rb (pBits ss) sp (pBits ds) dp"
  have bits_len: "length bits = nat h * dp"
    unfolding bits_def using s_len s_row d_len d_row by (subst length_blit) simp_all
  have bits_rows: "packed_rows (nat h) rb dp bits = packed_rows (nat h) rb sp (pBits ss)"
    unfolding bits_def using s_len s_row d_len d_row by (intro packed_rows_blit) simp_all
  have d4: "surfaces st4 d = Some (ds\<lparr>pBits := bits\<rparr>)"
    using shape by (simp add: st4 bits_def rb_def sp_def dp_def D3DFORMAT_bytes.simps ac_simps)
  have wpitch: "int32 (w * gts RGBAu8) = int rb"
    using dims w4 by (simp add: gts rb_def int32_id ac_simps)
  have rb_pos: "0 < rb" and rb_small: "rb < 2 ^ 64"
  proof -
    show "0 < rb"
      using dims by (simp add: rb_def)
    have "int rb < 2 ^ 31"
      using w4 dims by (simp add: rb_def)
    also have "(2 :: int) ^ 31 < 2 ^ 64"
      by simp
    finally have "int rb < 2 ^ 64" .
    then show "rb < 2 ^ 64"
      by (metis of_nat_less_iff of_nat_numeral of_nat_power)
  qed
  have hh: "int (nat h) = h"
    using dims by simp
  have "pitch_copy (Some out) (int rb) (Some bits) (int dp) (nat h * rb) (int (nat h))
                  = Inr (Some (packed_rows (nat h) rb dp bits))"
    using buf size bits_len d_row rb_pos rb_small by (intro pitch_copy_packed) simp_all
  then have copied: "pitch_copy (Some out) (int rb) (Some bits) (int dp) (nat h * rb) h
                  = Inr (Some (packed_rows (nat h) rb sp (pBits ss)))"
    by (simp only: hh bits_rows)
  have locked: "readTexture_locked_D3D9 gts st4 (Some out) bufsize d w h RGBAu8
                  = (if SUCCEEDED (LockRect_result ds)
                     then Inr (LockRect_result ds, Some (packed_rows (nat h) rb sp (pBits ss)),
                               UnlockRect (called (D3D9_LockRect d) st4) d)
                     else Inr (LockRect_result ds, Some out, called (D3D9_LockRect d) st4))"
    using copied
    by (simp add: readTexture_locked_D3D9_def LockRect_def d4 called_def wpitch d_pitch
          size Let_def)
  from run got ok2 have ok3: "SUCCEEDED (LockRect_result ds)"
    by (auto simp: readTexture_D3D9_def find level sync copy locked
          split: sum.splits prod.splits option.splits if_splits)
  have count: "int_of_size_t (bufsize div 4) = w * h"
  proof -
    have "bufsize div 4 = nat (w * h)"
      using dims by (simp add: buf)
    moreover have "nat (w * h) < 2 ^ 31"
    proof -
      have "4 * (w * h) < 2 ^ 31"
        using dims(3) by (simp add: mult.assoc)
      with pos have "w * h < 2 ^ 31"
        by linarith
      with pos show ?thesis
        by (simp add: nat_less_iff)
    qed
    ultimately show ?thesis
      using pos by (simp add: int_of_size_t_id)
  qed
  have rows_len: "length (packed_rows (nat h) rb sp (pBits ss)) = nat h * rb"
    using s_len s_row by (intro length_packed_rows) simp_all
  have swap: "BGRA_RGBA_conversion (Some (packed_rows (nat h) rb sp (pBits ss)))
                (int_of_size_t (bufsize div 4))
              = Inr (Some (swap_red_blue (nat (w * h)) (packed_rows (nat h) rb sp (pBits ss))))"
    unfolding count by (intro BGRA_RGBA_conversion_swaps) (simp add: rows_len n4)
  from run got ok2 ok3 show ?thesis
    by (simp add: readTexture_D3D9_def find level sync copy locked swap) (simp add: rb_def sp_def)
qed










section \<open>Writing a texture and reading it back\<close>

text \<open>
  With the rows of the texture packed the bytes come back: texture 13 of the Direct3D 11
  device is CPU-readable and CPU-writable and its rows are two bytes apart.
\<close>

lemma writeTexture_readTexture_D3D11_packed_rows:
  "map_option (\<lambda>t. (desc_Width t, desc_Height t, RowPitch t)) (texture2ds example_D3D11 13)
     = Some (1, 2, 2)
   \<and> (case writeTexture_D3D11 GetTexelSize example_D3D11 (Some 13) 1 2 Rf16 (Some [1, 2, 3, 4]) 4 of
         Inl f \<Rightarrow> Some (Inl f)
       | Inr (e, st') \<Rightarrow>
           map_option (map_sum id (\<lambda>(e', dst, st''). (e, e', dst)))
             (readTexture_D3D11 GetTexelSize st' (Some [9, 9, 9, 9]) 4 (Some 13) 1 2 Rf16))
       = Some (Inr (OK, OK, Some [1, 2, 3, 4]))"
  by (simp add: writeTexture_D3D11_def readTexture_D3D11_def proc_read_texture_def
        example_D3D11_def GetTexelSize_Rf16 D3D11_eval copy_rows.simps)

text \<open>
  Texture 11 is CPU-writable with rows four bytes apart.  The row loop of \<open>writeTexture\<close>
  copies \<open>dst_pitch\<close> bytes per row and advances the source by \<open>src_pitch\<close>: the second
  row reads bytes 2 to 5 of a source of four bytes.
\<close>

lemma writeTexture_D3D11_padded_rows:
  "map_option (\<lambda>t. (desc_Width t, desc_Height t, RowPitch t)) (texture2ds example_D3D11 11)
     = Some (1, 2, 4)
   \<and> writeTexture_D3D11 GetTexelSize example_D3D11 (Some 11) 1 2 Rf16 (Some [1, 2, 3, 4]) 4
       = Inl OutOfBounds"
  by (simp add: writeTexture_D3D11_def example_D3D11_def GetTexelSize_Rf16 D3D11_eval
        copy_rows.simps)

text \<open>
  Claim C1 fails on the Direct3D 9 back end when the rows of the staging surface are padded.
  Texture 20 is one \<open>Rf16\<close> texel wide and two high, its rows and those of a new staging
  surface four bytes apart.  \<open>writeTexture\<close> copies the four source bytes \<open>1, 2, 3, 4\<close> to
  the start of the locked staging surface in one piece, without the pitch \<open>readTexture\<close>
  honours, so the second row of the texture is taken from the bytes after them: the texture
  holds \<open>1, 2\<close> and \<open>0, 0\<close> in its two rows, \<open>writeTexture\<close> returns \<open>Unknown\<close>, and
  \<open>readTexture\<close> of the same texture returns \<open>OK\<close> with \<open>1, 2, 0, 0\<close>.
\<close>

theorem writeTexture_readTexture_D3D9_padded_rows:
  "map_option (\<lambda>s. (Width s, Height s, Format s, Pitch s)) (surfaces example_D3D9 10)
     = Some (1, 2, D3DFMT_R16F, 4)
   \<and> (case writeTexture_D3D9 GetTexelSize example_D3D9 (Some 20) 1 2 Rf16 (Some [1, 2, 3, 4]) 4 of
         Inl f \<Rightarrow> Inl f
       | Inr (e, st') \<Rightarrow>
           map_sum id (\<lambda>(e', o_buf, st''). (e, map_option pBits (surfaces st' 10), e', o_buf))
             (readTexture_D3D9 GetTexelSize st' (Some [9, 9, 9, 9]) 4 (Some 20) 1 2 Rf16))
       = Inr (Unknown, Some [1, 2, 0, 0, 0, 0, 0, 0], OK, Some [1, 2, 0, 0])"
  by (simp add: readTexture_D3D9_def readTexture_locked_D3D9_def writeTexture_D3D9_def
        writeTexture_locked_D3D9_def example_D3D9_def GetTexelSize_Rf16 GetInternalFormatD3D9_Rf16
        Rf16_neq_RGBAu8 D3D9_eval copy_rows.simps)

end
